theory Spec2Isabelle
  imports Complex_Main "HOL-Library.Word" "HOL-Library.Signed_Division"
begin

section \<open>Basic types\<close>

text \<open>
  The service is built for \<^verbatim>\<open>GOARCH=amd64\<close> (Makefile, target \<^verbatim>\<open>build-linux\<close>), where
  Go's \<^verbatim>\<open>int\<close> and \<^verbatim>\<open>uint\<close> are 64 bits wide.  \<^verbatim>\<open>int\<close> and \<^verbatim>\<open>int64\<close> are read in two's
  complement through \<open>sint\<close>; arithmetic on them wraps around.  A \<^verbatim>\<open>time.Time\<close> is an
  instant on the integer time line, a \<^verbatim>\<open>time.Duration\<close> a difference of two instants.
  A Go \<^verbatim>\<open>error\<close> is represented by its message (\<^verbatim>\<open>err.Error()\<close>); the nil error is
  \<open>None\<close>, and a function returning \<^verbatim>\<open>(T, error)\<close> returns \<open>error + T\<close>.
\<close>

type_synonym uint = "64 word"
type_synonym go_int = "64 word"
type_synonym int64 = "64 word"
type_synonym time = int
type_synonym error = string

section \<open>internal/models/user.go\<close>

text \<open>
  Several Go structs share field names.  The fields of \<^verbatim>\<open>User\<close> keep their Go names; the
  fields of every other struct carry a prefix naming the struct.
\<close>

record User =
  ID :: uint
  Email :: string
  Username :: string
  Password :: string
  FirstName :: string
  LastName :: string
  IsActive :: bool
  IsAdmin :: bool
  LastLogin :: "time option"
  CreatedAt :: time
  UpdatedAt :: time
  DeletedAt :: "time option"

record UserCreateRequest =
  create_Email :: string
  create_Username :: string
  create_Password :: string
  create_FirstName :: string
  create_LastName :: string

text \<open>A pointer field of \<^verbatim>\<open>UserUpdateRequest\<close> is \<open>None\<close> when the JSON key is absent.\<close>

record UserUpdateRequest =
  update_Email :: "string option"
  update_Username :: "string option"
  update_FirstName :: "string option"
  update_LastName :: "string option"
  update_IsActive :: "bool option"

record UserLoginRequest =
  login_Email :: string
  login_Password :: string

record UserResponse =
  resp_ID :: uint
  resp_Email :: string
  resp_Username :: string
  resp_FirstName :: string
  resp_LastName :: string
  resp_IsActive :: bool
  resp_IsAdmin :: bool
  resp_LastLogin :: "time option"
  resp_CreatedAt :: time
  resp_UpdatedAt :: time

definition ToResponse :: "User \<Rightarrow> UserResponse" where
  "ToResponse u =
     \<lparr>resp_ID = ID u, resp_Email = Email u, resp_Username = Username u,
      resp_FirstName = FirstName u, resp_LastName = LastName u,
      resp_IsActive = IsActive u, resp_IsAdmin = IsAdmin u,
      resp_LastLogin = LastLogin u, resp_CreatedAt = CreatedAt u,
      resp_UpdatedAt = UpdatedAt u\<rparr>"

section \<open>pkg/logger\<close>

text \<open>
  The logger is write-only: an entry is a level, the fields attached with
  \<^verbatim>\<open>WithField\<close>/\<^verbatim>\<open>WithError\<close>, and the message.  Entries are appended to the \<open>logs\<close> of
  the world in the order the code submits them.  The world also carries the state of the
  account store, whose type is left to the repository implementation.
\<close>

datatype Level = DebugLevel | InfoLevel | WarnLevel | ErrorLevel

datatype FieldValue = FNil | FStr string | FUint uint | FErr error

record Entry =
  entry_Level :: Level
  entry_Fields :: "(string \<times> FieldValue) list"
  entry_Message :: string

record 's World =
  store :: 's
  logs :: "Entry list"

definition log_write :: "Level \<Rightarrow> (string \<times> FieldValue) list \<Rightarrow> string \<Rightarrow> 's World \<Rightarrow> 's World" where
  "log_write lvl fs msg w =
     w\<lparr>logs := logs w @ [\<lparr>entry_Level = lvl, entry_Fields = fs, entry_Message = msg\<rparr>]\<rparr>"

abbreviation log_Debug :: "(string \<times> FieldValue) list \<Rightarrow> string \<Rightarrow> 's World \<Rightarrow> 's World" where
  "log_Debug \<equiv> log_write DebugLevel"

abbreviation log_Info :: "(string \<times> FieldValue) list \<Rightarrow> string \<Rightarrow> 's World \<Rightarrow> 's World" where
  "log_Info \<equiv> log_write InfoLevel"

abbreviation log_Warn :: "(string \<times> FieldValue) list \<Rightarrow> string \<Rightarrow> 's World \<Rightarrow> 's World" where
  "log_Warn \<equiv> log_write WarnLevel"

abbreviation log_Error :: "(string \<times> FieldValue) list \<Rightarrow> string \<Rightarrow> 's World \<Rightarrow> 's World" where
  "log_Error \<equiv> log_write ErrorLevel"

section \<open>External libraries and configuration\<close>

text \<open>
  The functions of third-party and standard libraries the code calls are parameters of the
  model, collected in one record:
  \<^item> \<open>mac_sign\<close>, \<open>mac_verify\<close>: the symmetric MAC scheme and compact serialisation of the
    JWT library (\<open>mac_verify secret token\<close> is \<open>None\<close> for a malformed token or a signature
    that does not match);
  \<^item> \<open>bcrypt_GenerateFromPassword\<close>, \<open>bcrypt_CompareHashAndPassword\<close> (hash first,
    password second; \<open>None\<close> is the nil error, that is, a match);
  \<^item> \<open>json_Decode_*\<close>: \<^verbatim>\<open>json.NewDecoder(r.Body).Decode(&req)\<close> at each request type;
  \<^item> \<open>validator_Struct_*\<close>: \<^verbatim>\<open>validator.Struct(&req)\<close> at each request type.
\<close>

record Claims =
  claims_UserID :: uint
  claims_Email :: string
  claims_IsAdmin :: bool
  claims_ExpiresAt :: time

record Lib =
  mac_sign :: "string \<Rightarrow> Claims \<Rightarrow> string"
  mac_verify :: "string \<Rightarrow> string \<Rightarrow> Claims option"
  bcrypt_GenerateFromPassword :: "string \<Rightarrow> error + string"
  bcrypt_CompareHashAndPassword :: "string \<Rightarrow> string \<Rightarrow> error option"
  json_Decode_create :: "string \<Rightarrow> error + UserCreateRequest"
  json_Decode_update :: "string \<Rightarrow> error + UserUpdateRequest"
  json_Decode_login :: "string \<Rightarrow> error + UserLoginRequest"
  validator_Struct_create :: "UserCreateRequest \<Rightarrow> error option"
  validator_Struct_update :: "UserUpdateRequest \<Rightarrow> error option"
  validator_Struct_login :: "UserLoginRequest \<Rightarrow> error option"

text \<open>The fields of \<^verbatim>\<open>config.Config\<close> the code reads: \<^verbatim>\<open>cfg.JWT.Secret\<close> and \<^verbatim>\<open>cfg.JWT.Expiry\<close>.\<close>

record Config =
  JWT_Secret :: string
  JWT_Expiry :: int

section \<open>pkg/utils: the token codec\<close>

text \<open>
  \<^verbatim>\<open>pkg/utils/jwt.go\<close> (\<^verbatim>\<open>GenerateJWT\<close>, \<^verbatim>\<open>ValidateJWT\<close>, \<^verbatim>\<open>RefreshJWT\<close>) is not among
  the sources; only its callers are.  The three functions are modelled from Section 4.2
  of the specification, over the MAC primitives of \<open>Lib\<close>.  The clock reading \<open>now\<close> is
  an argument.  The two error messages of \<open>ValidateJWT\<close> are the model's choice; no
  function below inspects them.
\<close>

text \<open>
  Modelled from the spec: \<^verbatim>\<open>utils.GenerateJWT\<close> is missing from the sources.
  ``\<^verbatim>\<open>issue(userID, email, isAdmin, secret, ttl) -> tokenString\<close> builds Claims with
  \<^verbatim>\<open>expiry = now + ttl\<close>, signs with \<^verbatim>\<open>secret\<close> using a symmetric MAC scheme, and serializes
  to a compact, URL-safe string.''
\<close>

definition GenerateJWT :: "Lib \<Rightarrow> time \<Rightarrow> uint \<Rightarrow> string \<Rightarrow> bool \<Rightarrow> string \<Rightarrow> int \<Rightarrow> error + string" where
  "GenerateJWT lib now userID email isAdmin secret ttl =
     Inr (mac_sign lib secret
       \<lparr>claims_UserID = userID, claims_Email = email, claims_IsAdmin = isAdmin,
        claims_ExpiresAt = now + ttl\<rparr>)"

text \<open>
  Modelled from the spec: \<^verbatim>\<open>utils.ValidateJWT\<close> is missing from the sources.
  ``\<^verbatim>\<open>parse(tokenString, secret) -> Claims | error\<close> verifies the signature against
  \<^verbatim>\<open>secret\<close>, rejects if \<^verbatim>\<open>now > expiry\<close>, and rejects if the signature does not match
  (treat any malformed or mismatched token identically).''
\<close>

definition ValidateJWT :: "Lib \<Rightarrow> time \<Rightarrow> string \<Rightarrow> string \<Rightarrow> error + Claims" where
  "ValidateJWT lib now tokenString secret =
     (case mac_verify lib secret tokenString of
        None \<Rightarrow> Inl ''signature is invalid''
      | Some claims \<Rightarrow>
          if now > claims_ExpiresAt claims then Inl ''token is expired''
          else Inr claims)"

text \<open>
  Modelled from the spec: \<^verbatim>\<open>utils.RefreshJWT\<close> is missing from the sources.
  ``\<^verbatim>\<open>refresh(tokenString, secret, ttl) -> tokenString\<close> parses an existing token and
  reissues a new one with \<^verbatim>\<open>expiry = now + ttl\<close>, preserving identity claims.''
\<close>

definition RefreshJWT :: "Lib \<Rightarrow> time \<Rightarrow> string \<Rightarrow> string \<Rightarrow> int \<Rightarrow> error + string" where
  "RefreshJWT lib now tokenString secret ttl =
     (case ValidateJWT lib now tokenString secret of
        Inl err \<Rightarrow> Inl err
      | Inr claims \<Rightarrow>
          GenerateJWT lib now (claims_UserID claims) (claims_Email claims)
            (claims_IsAdmin claims) secret ttl)"

section \<open>pkg/utils/response.go\<close>

text \<open>
  \<^verbatim>\<open>APIResponse.Data\<close> and \<^verbatim>\<open>APIResponse.Error\<close> are \<^verbatim>\<open>interface{}\<close> values; \<open>Payload\<close>
  lists the values the handlers put into \<^verbatim>\<open>Data\<close>, and \<^verbatim>\<open>Error\<close> is nil or a string.
  A response is the status code passed to \<^verbatim>\<open>WriteHeader\<close> and the encoded body.
\<close>

record PaginationResponse =
  page_Data :: "UserResponse list"
  page_Total :: int64
  page_Page :: go_int
  page_Limit :: go_int
  page_TotalPages :: go_int

datatype Payload =
  UserData UserResponse
| LoginData string UserResponse
| PageData PaginationResponse

record APIResponse =
  api_Success :: bool
  api_Message :: string
  api_Data :: "Payload option"
  api_Error :: "string option"

record Response =
  StatusCode :: nat
  Body :: APIResponse

definition StatusOK :: nat where "StatusOK = 200"
definition StatusCreated :: nat where "StatusCreated = 201"
definition StatusBadRequest :: nat where "StatusBadRequest = 400"
definition StatusUnauthorized :: nat where "StatusUnauthorized = 401"
definition StatusForbidden :: nat where "StatusForbidden = 403"
definition StatusNotFound :: nat where "StatusNotFound = 404"
definition StatusInternalServerError :: nat where "StatusInternalServerError = 500"

definition WriteJSONResponse :: "nat \<Rightarrow> APIResponse \<Rightarrow> Response" where
  "WriteJSONResponse statusCode d = \<lparr>StatusCode = statusCode, Body = d\<rparr>"

definition WriteSuccessResponse :: "nat \<Rightarrow> string \<Rightarrow> Payload option \<Rightarrow> Response" where
  "WriteSuccessResponse statusCode message d =
     WriteJSONResponse statusCode
       \<lparr>api_Success = True, api_Message = message, api_Data = d, api_Error = None\<rparr>"

definition WriteErrorResponse :: "nat \<Rightarrow> string \<Rightarrow> string option \<Rightarrow> Response" where
  "WriteErrorResponse statusCode message err =
     WriteJSONResponse statusCode
       \<lparr>api_Success = False, api_Message = message, api_Data = None, api_Error = err\<rparr>"

section \<open>HTTP requests and handlers\<close>

text \<open>
  A request carries what the handlers and middleware read: the URL path, the headers, the
  raw body, the \<^verbatim>\<open>{id}\<close> URL parameter, the query parameters, and the request-scoped
  context values stored under \<^verbatim>\<open>UserIDKey\<close>, \<^verbatim>\<open>UserEmailKey\<close> and \<^verbatim>\<open>IsAdminKey\<close>.
  A handler either writes a response or panics (\<open>Inl\<close>), and may change the world.
\<close>

record RequestContext =
  UserIDKey :: "uint option"
  UserEmailKey :: "string option"
  IsAdminKey :: "bool option"

record Request =
  URL_Path :: string
  Header :: "(string \<times> string) list"
  RequestBody :: string
  URLParam_id :: string
  Query :: "(string \<times> string) list"
  Context :: RequestContext

type_synonym 's Handler = "Request \<Rightarrow> 's World \<Rightarrow> (string + Response) \<times> 's World"

text \<open>\<^verbatim>\<open>Header.Get\<close> and \<^verbatim>\<open>Query().Get\<close>: the first value of the key, or the empty string.\<close>

definition Get :: "(string \<times> string) list \<Rightarrow> string \<Rightarrow> string" where
  "Get kvs k = (case map_of kvs k of None \<Rightarrow> [] | Some v \<Rightarrow> v)"

definition HasPrefix :: "string \<Rightarrow> string \<Rightarrow> bool" where
  "HasPrefix s pre = (take (length pre) s = pre)"

definition TrimPrefix :: "string \<Rightarrow> string \<Rightarrow> string" where
  "TrimPrefix s pre = (if HasPrefix s pre then drop (length pre) s else s)"

section \<open>pkg/middleware: JWTAuth and RequireAdmin\<close>

definition JWTAuth :: "Lib \<Rightarrow> time \<Rightarrow> string \<Rightarrow> 's Handler \<Rightarrow> 's Handler" where
  "JWTAuth lib now jwtSecret next r w =
     (let authHeader = Get (Header r) ''Authorization'' in
      if authHeader = [] then
        (Inr (WriteErrorResponse StatusUnauthorized ''Authorization header required'' None),
         log_Warn [(''path'', FStr (URL_Path r))] ''Missing authorization header'' w)
      else if \<not> HasPrefix authHeader ''Bearer '' then
        (Inr (WriteErrorResponse StatusUnauthorized ''Invalid authorization header format'' None),
         log_Warn [(''path'', FStr (URL_Path r))] ''Invalid authorization header format'' w)
      else
        let token = TrimPrefix authHeader ''Bearer '' in
        if token = [] then
          (Inr (WriteErrorResponse StatusUnauthorized ''Token required'' None),
           log_Warn [(''path'', FStr (URL_Path r))] ''Empty token'' w)
        else
          case ValidateJWT lib now token jwtSecret of
            Inl err \<Rightarrow>
              (Inr (WriteErrorResponse StatusUnauthorized ''Invalid token'' None),
               log_Warn [(''error'', FErr err), (''path'', FStr (URL_Path r))] ''Invalid token'' w)
          | Inr claims \<Rightarrow>
              next (r\<lparr>Context := (Context r)
                      \<lparr>UserIDKey := Some (claims_UserID claims),
                       UserEmailKey := Some (claims_Email claims),
                       IsAdminKey := Some (claims_IsAdmin claims)\<rparr>\<rparr>) w)"

definition RequireAdmin :: "'s Handler \<Rightarrow> 's Handler" where
  "RequireAdmin next r w =
     (if IsAdminKey (Context r) \<noteq> Some True then
        (Inr (WriteErrorResponse StatusForbidden ''Admin access required'' None),
         log_Warn
           [(''user_id'', (case UserIDKey (Context r) of None \<Rightarrow> FNil | Some userID \<Rightarrow> FUint userID)),
            (''path'', FStr (URL_Path r))]
           ''Admin access required'' w)
      else next r w)"

section \<open>internal/repository/interfaces.go\<close>

text \<open>
  The services are written against the \<^verbatim>\<open>UserRepository\<close> interface; the model takes an
  implementation as a record of functions over a store of any type \<open>'s\<close>.  Reads return a
  result; writes also return the new store.  \<^verbatim>\<open>Create\<close> and \<^verbatim>\<open>Update\<close> receive a pointer
  and may write to the struct behind it (the implementation fills in the id and the
  timestamps), so on success they return the struct as they leave it.  The
  \<^verbatim>\<open>context.Context\<close> argument is not modelled.
\<close>

record 's UserRepository =
  repo_Create :: "User \<Rightarrow> 's \<Rightarrow> (error + User) \<times> 's"
  repo_GetByID :: "uint \<Rightarrow> 's \<Rightarrow> error + User option"
  repo_GetByEmail :: "string \<Rightarrow> 's \<Rightarrow> error + User option"
  repo_GetByUsername :: "string \<Rightarrow> 's \<Rightarrow> error + User option"
  repo_Update :: "User \<Rightarrow> 's \<Rightarrow> (error + User) \<times> 's"
  repo_Delete :: "uint \<Rightarrow> 's \<Rightarrow> error option \<times> 's"
  repo_List :: "go_int \<Rightarrow> go_int \<Rightarrow> 's \<Rightarrow> error + User list"
  repo_Count :: "'s \<Rightarrow> error + int64"
  repo_ExistsByEmail :: "string \<Rightarrow> 's \<Rightarrow> error + bool"
  repo_ExistsByUsername :: "string \<Rightarrow> 's \<Rightarrow> error + bool"
  repo_UpdateLastLogin :: "uint \<Rightarrow> 's \<Rightarrow> error option \<times> 's"

section \<open>internal/services: interfaces\<close>

text \<open>
  \<^verbatim>\<open>AdminUpdate\<close> of the \<^verbatim>\<open>UserService\<close> interface is left out: neither its request type
  nor an implementation is among the sources, and no handler calls it.
\<close>

record 's AuthService =
  auth_GenerateToken :: "uint \<Rightarrow> string \<Rightarrow> bool \<Rightarrow> 's World \<Rightarrow> (error + string) \<times> 's World"
  auth_ValidateToken :: "string \<Rightarrow> 's World \<Rightarrow> (error + User) \<times> 's World"
  auth_RefreshToken :: "string \<Rightarrow> 's World \<Rightarrow> (error + string) \<times> 's World"

record 's UserService =
  svc_Create :: "UserCreateRequest \<Rightarrow> 's World \<Rightarrow> (error + UserResponse) \<times> 's World"
  svc_GetByID :: "uint \<Rightarrow> 's World \<Rightarrow> (error + UserResponse) \<times> 's World"
  svc_GetByEmail :: "string \<Rightarrow> 's World \<Rightarrow> (error + UserResponse) \<times> 's World"
  svc_Update :: "uint \<Rightarrow> UserUpdateRequest \<Rightarrow> 's World \<Rightarrow> (error + UserResponse) \<times> 's World"
  svc_Delete :: "uint \<Rightarrow> 's World \<Rightarrow> error option \<times> 's World"
  svc_List :: "go_int \<Rightarrow> go_int \<Rightarrow> 's World \<Rightarrow> (error + UserResponse list \<times> int64) \<times> 's World"
  svc_Login :: "UserLoginRequest \<Rightarrow> 's World \<Rightarrow> (error + string \<times> UserResponse) \<times> 's World"
  svc_Logout :: "uint \<Rightarrow> 's World \<Rightarrow> error option \<times> 's World"

section \<open>internal/services/auth\_service.go\<close>

definition authService_GenerateToken ::
  "Config \<Rightarrow> Lib \<Rightarrow> time \<Rightarrow> uint \<Rightarrow> string \<Rightarrow> bool \<Rightarrow> 's World \<Rightarrow> (error + string) \<times> 's World" where
  "authService_GenerateToken cfg lib now userID email isAdmin w =
     (case GenerateJWT lib now userID email isAdmin (JWT_Secret cfg) (JWT_Expiry cfg) of
        Inl err \<Rightarrow>
          (Inl (''failed to generate token: '' @ err),
           log_Error [(''error'', FErr err), (''user_id'', FUint userID)]
             ''Failed to generate JWT token'' w)
      | Inr token \<Rightarrow>
          (Inr token,
           log_Info [(''user_id'', FUint userID)] ''JWT token generated successfully'' w))"

definition authService_ValidateToken ::
  "'s UserRepository \<Rightarrow> Config \<Rightarrow> Lib \<Rightarrow> time \<Rightarrow> string \<Rightarrow> 's World \<Rightarrow> (error + User) \<times> 's World" where
  "authService_ValidateToken userRepo cfg lib now token w =
     (case ValidateJWT lib now token (JWT_Secret cfg) of
        Inl err \<Rightarrow>
          (Inl (''invalid token: '' @ err),
           log_Warn [(''error'', FErr err)] ''Failed to validate JWT token'' w)
      | Inr claims \<Rightarrow>
          (case repo_GetByID userRepo (claims_UserID claims) (store w) of
             Inl err \<Rightarrow>
               (Inl (''failed to validate user: '' @ err),
                log_Error [(''error'', FErr err), (''user_id'', FUint (claims_UserID claims))]
                  ''Failed to get user for token validation'' w)
           | Inr None \<Rightarrow>
               (Inl ''user not found'',
                log_Warn [(''user_id'', FUint (claims_UserID claims))]
                  ''Token validation failed: user not found'' w)
           | Inr (Some user) \<Rightarrow>
               if \<not> IsActive user then
                 (Inl ''user account is deactivated'',
                  log_Warn [(''user_id'', FUint (claims_UserID claims))]
                    ''Token validation failed: user is inactive'' w)
               else (Inr user, w)))"

definition authService_RefreshToken ::
  "Config \<Rightarrow> Lib \<Rightarrow> time \<Rightarrow> string \<Rightarrow> 's World \<Rightarrow> (error + string) \<times> 's World" where
  "authService_RefreshToken cfg lib now token w =
     (case RefreshJWT lib now token (JWT_Secret cfg) (JWT_Expiry cfg) of
        Inl err \<Rightarrow>
          (Inl (''failed to refresh token: '' @ err),
           log_Warn [(''error'', FErr err)] ''Failed to refresh JWT token'' w)
      | Inr newToken \<Rightarrow>
          (Inr newToken, log_Info [] ''JWT token refreshed successfully'' w))"

definition NewAuthService :: "'s UserRepository \<Rightarrow> Config \<Rightarrow> Lib \<Rightarrow> time \<Rightarrow> 's AuthService" where
  "NewAuthService userRepo cfg lib now =
     \<lparr>auth_GenerateToken = authService_GenerateToken cfg lib now,
      auth_ValidateToken = authService_ValidateToken userRepo cfg lib now,
      auth_RefreshToken = authService_RefreshToken cfg lib now\<rparr>"

section \<open>internal/services: userService\<close>

definition userService_Create ::
  "'s UserRepository \<Rightarrow> Lib \<Rightarrow> UserCreateRequest \<Rightarrow> 's World \<Rightarrow> (error + UserResponse) \<times> 's World" where
  "userService_Create userRepo lib req w =
     (case repo_ExistsByEmail userRepo (create_Email req) (store w) of
        Inl err \<Rightarrow>
          (Inl (''failed to check user existence: '' @ err),
           log_Error [(''error'', FErr err)] ''Failed to check if user exists by email'' w)
      | Inr exists \<Rightarrow>
          if exists then (Inl ''user with this email already exists'', w)
          else
            (case repo_ExistsByUsername userRepo (create_Username req) (store w) of
               Inl err \<Rightarrow>
                 (Inl (''failed to check username availability: '' @ err),
                  log_Error [(''error'', FErr err)] ''Failed to check if user exists by username'' w)
             | Inr exists \<Rightarrow>
                 if exists then (Inl ''username is already taken'', w)
                 else
                   (case bcrypt_GenerateFromPassword lib (create_Password req) of
                      Inl err \<Rightarrow>
                        (Inl (''failed to hash password: '' @ err),
                         log_Error [(''error'', FErr err)] ''Failed to hash password'' w)
                    | Inr hashedPassword \<Rightarrow>
                        let user =
                          \<lparr>ID = 0, Email = create_Email req, Username = create_Username req,
                           Password = hashedPassword, FirstName = create_FirstName req,
                           LastName = create_LastName req, IsActive = True, IsAdmin = False,
                           LastLogin = None, CreatedAt = 0, UpdatedAt = 0, DeletedAt = None\<rparr>
                        in
                          (case repo_Create userRepo user (store w) of
                             (Inl err, s') \<Rightarrow>
                               (Inl (''failed to create user: '' @ err),
                                log_Error [(''error'', FErr err)] ''Failed to create user''
                                  (w\<lparr>store := s'\<rparr>))
                           | (Inr user', s') \<Rightarrow>
                               (Inr (ToResponse user'),
                                log_Info [(''user_id'', FUint (ID user'))]
                                  ''User created successfully'' (w\<lparr>store := s'\<rparr>))))))"

definition userService_GetByID ::
  "'s UserRepository \<Rightarrow> uint \<Rightarrow> 's World \<Rightarrow> (error + UserResponse) \<times> 's World" where
  "userService_GetByID userRepo id' w =
     (case repo_GetByID userRepo id' (store w) of
        Inl err \<Rightarrow>
          (Inl (''failed to get user: '' @ err),
           log_Error [(''error'', FErr err), (''user_id'', FUint id')] ''Failed to get user by ID'' w)
      | Inr None \<Rightarrow> (Inl ''user not found'', w)
      | Inr (Some user) \<Rightarrow> (Inr (ToResponse user), w))"

definition userService_GetByEmail ::
  "'s UserRepository \<Rightarrow> string \<Rightarrow> 's World \<Rightarrow> (error + UserResponse) \<times> 's World" where
  "userService_GetByEmail userRepo email w =
     (case repo_GetByEmail userRepo email (store w) of
        Inl err \<Rightarrow>
          (Inl (''failed to get user: '' @ err),
           log_Error [(''error'', FErr err), (''email'', FStr email)] ''Failed to get user by email'' w)
      | Inr None \<Rightarrow> (Inl ''user not found'', w)
      | Inr (Some user) \<Rightarrow> (Inr (ToResponse user), w))"

text \<open>
  \<^verbatim>\<open>Update\<close> works on the struct \<^verbatim>\<open>GetByID\<close> returned, in three steps: the e-mail block
  (lines 125--135), the username block (137--147), and the unconditional fields followed
  by the save (149--168).  Each block returns early on its error paths.
\<close>

definition userService_Update_save ::
  "'s UserRepository \<Rightarrow> uint \<Rightarrow> UserUpdateRequest \<Rightarrow> User \<Rightarrow> 's World \<Rightarrow> (error + UserResponse) \<times> 's World" where
  "userService_Update_save userRepo id' req user0 w =
     (let user1 = (case update_FirstName req of None \<Rightarrow> user0 | Some v \<Rightarrow> user0\<lparr>FirstName := v\<rparr>);
          user2 = (case update_LastName req of None \<Rightarrow> user1 | Some v \<Rightarrow> user1\<lparr>LastName := v\<rparr>);
          user3 = (case update_IsActive req of None \<Rightarrow> user2 | Some v \<Rightarrow> user2\<lparr>IsActive := v\<rparr>)
      in
        case repo_Update userRepo user3 (store w) of
          (Inl err, s') \<Rightarrow>
            (Inl (''failed to update user: '' @ err),
             log_Error [(''error'', FErr err), (''user_id'', FUint id')] ''Failed to update user''
               (w\<lparr>store := s'\<rparr>))
        | (Inr user', s') \<Rightarrow>
            (Inr (ToResponse user'),
             log_Info [(''user_id'', FUint id')] ''User updated successfully'' (w\<lparr>store := s'\<rparr>)))"

definition userService_Update_username ::
  "'s UserRepository \<Rightarrow> uint \<Rightarrow> UserUpdateRequest \<Rightarrow> User \<Rightarrow> 's World \<Rightarrow> (error + UserResponse) \<times> 's World" where
  "userService_Update_username userRepo id' req user w =
     (case update_Username req of
        None \<Rightarrow> userService_Update_save userRepo id' req user w
      | Some username \<Rightarrow>
          if username \<noteq> Username user then
            (case repo_ExistsByUsername userRepo username (store w) of
               Inl err \<Rightarrow> (Inl (''failed to check username availability: '' @ err), w)
             | Inr exists \<Rightarrow>
                 if exists then (Inl ''username is already taken'', w)
                 else userService_Update_save userRepo id' req (user\<lparr>Username := username\<rparr>) w)
          else userService_Update_save userRepo id' req user w)"

definition userService_Update ::
  "'s UserRepository \<Rightarrow> uint \<Rightarrow> UserUpdateRequest \<Rightarrow> 's World \<Rightarrow> (error + UserResponse) \<times> 's World" where
  "userService_Update userRepo id' req w =
     (case repo_GetByID userRepo id' (store w) of
        Inl err \<Rightarrow>
          (Inl (''failed to get user: '' @ err),
           log_Error [(''error'', FErr err), (''user_id'', FUint id')] ''Failed to get user for update'' w)
      | Inr None \<Rightarrow> (Inl ''user not found'', w)
      | Inr (Some user) \<Rightarrow>
          (case update_Email req of
             None \<Rightarrow> userService_Update_username userRepo id' req user w
           | Some email \<Rightarrow>
               if email \<noteq> Email user then
                 (case repo_ExistsByEmail userRepo email (store w) of
                    Inl err \<Rightarrow> (Inl (''failed to check email availability: '' @ err), w)
                  | Inr exists \<Rightarrow>
                      if exists then (Inl ''email is already taken'', w)
                      else userService_Update_username userRepo id' req (user\<lparr>Email := email\<rparr>) w)
               else userService_Update_username userRepo id' req user w))"

definition userService_Delete ::
  "'s UserRepository \<Rightarrow> uint \<Rightarrow> 's World \<Rightarrow> error option \<times> 's World" where
  "userService_Delete userRepo id' w =
     (case repo_GetByID userRepo id' (store w) of
        Inl err \<Rightarrow>
          (Some (''failed to get user: '' @ err),
           log_Error [(''error'', FErr err), (''user_id'', FUint id')] ''Failed to get user for deletion'' w)
      | Inr None \<Rightarrow> (Some ''user not found'', w)
      | Inr (Some user) \<Rightarrow>
          (case repo_Delete userRepo id' (store w) of
             (Some err, s') \<Rightarrow>
               (Some (''failed to delete user: '' @ err),
                log_Error [(''error'', FErr err), (''user_id'', FUint id')] ''Failed to delete user''
                  (w\<lparr>store := s'\<rparr>))
           | (None, s') \<Rightarrow>
               (None, log_Info [(''user_id'', FUint id')] ''User deleted successfully'' (w\<lparr>store := s'\<rparr>))))"

definition userService_List ::
  "'s UserRepository \<Rightarrow> go_int \<Rightarrow> go_int \<Rightarrow> 's World \<Rightarrow> (error + UserResponse list \<times> int64) \<times> 's World" where
  "userService_List userRepo page limit w =
     (let offset = (page - 1) * limit in
      case repo_List userRepo limit offset (store w) of
        Inl err \<Rightarrow>
          (Inl (''failed to list users: '' @ err),
           log_Error [(''error'', FErr err)] ''Failed to list users'' w)
      | Inr users \<Rightarrow>
          (case repo_Count userRepo (store w) of
             Inl err \<Rightarrow>
               (Inl (''failed to count users: '' @ err),
                log_Error [(''error'', FErr err)] ''Failed to count users'' w)
           | Inr total' \<Rightarrow> (Inr (map ToResponse users, total'), w)))"

definition userService_Login ::
  "'s UserRepository \<Rightarrow> 's AuthService \<Rightarrow> Lib \<Rightarrow> UserLoginRequest \<Rightarrow> 's World
     \<Rightarrow> (error + string \<times> UserResponse) \<times> 's World" where
  "userService_Login userRepo authSvc lib req w =
     (case repo_GetByEmail userRepo (login_Email req) (store w) of
        Inl err \<Rightarrow>
          (Inl (''failed to authenticate: '' @ err),
           log_Error [(''error'', FErr err), (''email'', FStr (login_Email req))]
             ''Failed to get user for login'' w)
      | Inr None \<Rightarrow> (Inl ''invalid credentials'', w)
      | Inr (Some user) \<Rightarrow>
          if \<not> IsActive user then (Inl ''account is deactivated'', w)
          else
            (case bcrypt_CompareHashAndPassword lib (Password user) (login_Password req) of
               Some err \<Rightarrow>
                 (Inl ''invalid credentials'',
                  log_Warn [(''email'', FStr (login_Email req))] ''Invalid password attempt'' w)
             | None \<Rightarrow>
                 (case auth_GenerateToken authSvc (ID user) (Email user) (IsAdmin user) w of
                    (Inl err, w1) \<Rightarrow>
                      (Inl (''failed to generate token: '' @ err),
                       log_Error [(''error'', FErr err), (''user_id'', FUint (ID user))]
                         ''Failed to generate token'' w1)
                  | (Inr token, w1) \<Rightarrow>
                      let w2 =
                        (case repo_UpdateLastLogin userRepo (ID user) (store w1) of
                           (Some err, s') \<Rightarrow>
                             log_Warn [(''error'', FErr err), (''user_id'', FUint (ID user))]
                               ''Failed to update last login'' (w1\<lparr>store := s'\<rparr>)
                         | (None, s') \<Rightarrow> w1\<lparr>store := s'\<rparr>)
                      in
                        (Inr (token, ToResponse user),
                         log_Info [(''user_id'', FUint (ID user))] ''User logged in successfully'' w2))))"

definition userService_Logout :: "uint \<Rightarrow> 's World \<Rightarrow> error option \<times> 's World" where
  "userService_Logout userID w =
     (None, log_Info [(''user_id'', FUint userID)] ''User logged out successfully'' w)"

definition NewUserService :: "'s UserRepository \<Rightarrow> 's AuthService \<Rightarrow> Lib \<Rightarrow> 's UserService" where
  "NewUserService userRepo authSvc lib =
     \<lparr>svc_Create = userService_Create userRepo lib,
      svc_GetByID = userService_GetByID userRepo,
      svc_GetByEmail = userService_GetByEmail userRepo,
      svc_Update = userService_Update userRepo,
      svc_Delete = userService_Delete userRepo,
      svc_List = userService_List userRepo,
      svc_Login = userService_Login userRepo authSvc lib,
      svc_Logout = userService_Logout\<rparr>"

section \<open>strconv\<close>

text \<open>
  \<^verbatim>\<open>strconv.ParseUint(s, 10, 32)\<close> accepts a non-empty string of decimal digits whose value
  is below \<open>2 ^ 32\<close>.  \<^verbatim>\<open>strconv.Atoi\<close> accepts an optional sign followed by a non-empty
  string of decimal digits whose value fits \<^verbatim>\<open>int\<close>.
\<close>

definition is_digit :: "char \<Rightarrow> bool" where
  "is_digit c = ((48 :: nat) \<le> of_char c \<and> (of_char c :: nat) \<le> 57)"

fun decimal :: "nat \<Rightarrow> string \<Rightarrow> nat option" where
  "decimal acc [] = Some acc"
| "decimal acc (c # cs) =
     (if is_digit c then decimal (acc * 10 + ((of_char c :: nat) - 48)) cs else None)"

definition ParseUint32 :: "string \<Rightarrow> error + uint" where
  "ParseUint32 s =
     (if s = [] then Inl ''invalid syntax''
      else case decimal 0 s of
        None \<Rightarrow> Inl ''invalid syntax''
      | Some n \<Rightarrow> if n < 2 ^ 32 then Inr (of_nat n) else Inl ''value out of range'')"

definition Atoi :: "string \<Rightarrow> error + go_int" where
  "Atoi s =
     (let neg = (s \<noteq> [] \<and> hd s = CHR ''-'');
          ds = (if s \<noteq> [] \<and> (hd s = CHR ''-'' \<or> hd s = CHR ''+'') then tl s else s)
      in
        if ds = [] then Inl ''invalid syntax''
        else case decimal 0 ds of
          None \<Rightarrow> Inl ''invalid syntax''
        | Some n \<Rightarrow>
            if neg then (if n \<le> 2 ^ 63 then Inr (- of_nat n) else Inl ''value out of range'')
            else (if n < 2 ^ 63 then Inr (of_nat n) else Inl ''value out of range''))"

section \<open>pkg/utils/response.go: paginated responses\<close>

text \<open>
  Go's \<^verbatim>\<open>/\<close> on \<^verbatim>\<open>int64\<close> truncates towards zero and panics when the divisor is zero.
\<close>

definition go_div :: "int64 \<Rightarrow> int64 \<Rightarrow> int64" where
  "go_div a b = word_of_int (sint a sdiv sint b)"

definition WritePaginatedResponse ::
  "nat \<Rightarrow> string \<Rightarrow> UserResponse list \<Rightarrow> int64 \<Rightarrow> go_int \<Rightarrow> go_int \<Rightarrow> string + Response" where
  "WritePaginatedResponse statusCode message d total' page limit =
     (if limit = 0 then Inl ''runtime error: integer divide by zero''
      else
        let totalPages = go_div (total' + limit - 1) limit;
            pagination =
              \<lparr>page_Data = d, page_Total = total', page_Page = page, page_Limit = limit,
               page_TotalPages = totalPages\<rparr>
        in Inr (WriteJSONResponse statusCode
                 \<lparr>api_Success = True, api_Message = message,
                  api_Data = Some (PageData pagination), api_Error = None\<rparr>))"

section \<open>internal/handlers: UserHandler\<close>

text \<open>
  \<^verbatim>\<open>GetUserIDFromContext\<close> and \<^verbatim>\<open>GetIsAdminFromContext\<close> return the zero value and
  \<^verbatim>\<open>false\<close> when the key is absent.
\<close>

definition GetUserIDFromContext :: "RequestContext \<Rightarrow> uint \<times> bool" where
  "GetUserIDFromContext ctx = (case UserIDKey ctx of None \<Rightarrow> (0, False) | Some userID \<Rightarrow> (userID, True))"

definition GetIsAdminFromContext :: "RequestContext \<Rightarrow> bool \<times> bool" where
  "GetIsAdminFromContext ctx = (case IsAdminKey ctx of None \<Rightarrow> (False, False) | Some isAdmin \<Rightarrow> (isAdmin, True))"

definition UserHandler_Create :: "'s UserService \<Rightarrow> Lib \<Rightarrow> 's Handler" where
  "UserHandler_Create userService lib r w =
     (case json_Decode_create lib (RequestBody r) of
        Inl err \<Rightarrow>
          (Inr (WriteErrorResponse StatusBadRequest ''Invalid JSON'' None),
           log_Warn [(''error'', FErr err)] ''Invalid JSON in create user request'' w)
      | Inr req \<Rightarrow>
          (case validator_Struct_create lib req of
             Some err \<Rightarrow>
               (Inr (WriteErrorResponse StatusBadRequest ''Validation failed'' (Some err)),
                log_Warn [(''error'', FErr err)] ''Validation failed for create user request'' w)
           | None \<Rightarrow>
               (case svc_Create userService req w of
                  (Inl err, w') \<Rightarrow>
                    (Inr (WriteErrorResponse StatusBadRequest err None),
                     log_Error [(''error'', FErr err)] ''Failed to create user'' w')
                | (Inr user, w') \<Rightarrow>
                    (Inr (WriteSuccessResponse StatusCreated ''User created successfully''
                           (Some (UserData user))), w'))))"

definition UserHandler_GetByID :: "'s UserService \<Rightarrow> 's Handler" where
  "UserHandler_GetByID userService r w =
     (case ParseUint32 (URLParam_id r) of
        Inl err \<Rightarrow> (Inr (WriteErrorResponse StatusBadRequest ''Invalid user ID'' None), w)
      | Inr id' \<Rightarrow>
          (case svc_GetByID userService id' w of
             (Inl err, w') \<Rightarrow>
               (Inr (WriteErrorResponse StatusNotFound err None),
                log_Error [(''error'', FErr err), (''user_id'', FUint id')] ''Failed to get user'' w')
           | (Inr user, w') \<Rightarrow>
               (Inr (WriteSuccessResponse StatusOK ''User retrieved successfully''
                      (Some (UserData user))), w')))"

definition UserHandler_Update :: "'s UserService \<Rightarrow> Lib \<Rightarrow> 's Handler" where
  "UserHandler_Update userService lib r w =
     (case ParseUint32 (URLParam_id r) of
        Inl err \<Rightarrow> (Inr (WriteErrorResponse StatusBadRequest ''Invalid user ID'' None), w)
      | Inr id' \<Rightarrow>
          let userID = fst (GetUserIDFromContext (Context r));
              isAdmin = fst (GetIsAdminFromContext (Context r))
          in
            if userID \<noteq> id' \<and> \<not> isAdmin then
              (Inr (WriteErrorResponse StatusForbidden ''You can only update your own profile'' None), w)
            else
              (case json_Decode_update lib (RequestBody r) of
                 Inl err \<Rightarrow>
                   (Inr (WriteErrorResponse StatusBadRequest ''Invalid JSON'' None),
                    log_Warn [(''error'', FErr err)] ''Invalid JSON in update user request'' w)
               | Inr req \<Rightarrow>
                   (case validator_Struct_update lib req of
                      Some err \<Rightarrow>
                        (Inr (WriteErrorResponse StatusBadRequest ''Validation failed'' (Some err)),
                         log_Warn [(''error'', FErr err)] ''Validation failed for update user request'' w)
                    | None \<Rightarrow>
                        (case svc_Update userService id' req w of
                           (Inl err, w') \<Rightarrow>
                             (Inr (WriteErrorResponse StatusBadRequest err None),
                              log_Error [(''error'', FErr err), (''user_id'', FUint id')]
                                ''Failed to update user'' w')
                         | (Inr user, w') \<Rightarrow>
                             (Inr (WriteSuccessResponse StatusOK ''User updated successfully''
                                    (Some (UserData user))), w')))))"

definition UserHandler_Delete :: "'s UserService \<Rightarrow> 's Handler" where
  "UserHandler_Delete userService r w =
     (case ParseUint32 (URLParam_id r) of
        Inl err \<Rightarrow> (Inr (WriteErrorResponse StatusBadRequest ''Invalid user ID'' None), w)
      | Inr id' \<Rightarrow>
          let userID = fst (GetUserIDFromContext (Context r));
              isAdmin = fst (GetIsAdminFromContext (Context r))
          in
            if userID \<noteq> id' \<and> \<not> isAdmin then
              (Inr (WriteErrorResponse StatusForbidden ''You can only delete your own profile'' None), w)
            else
              (case svc_Delete userService id' w of
                 (Some err, w') \<Rightarrow>
                   (Inr (WriteErrorResponse StatusBadRequest err None),
                    log_Error [(''error'', FErr err), (''user_id'', FUint id')]
                      ''Failed to delete user'' w')
               | (None, w') \<Rightarrow>
                   (Inr (WriteSuccessResponse StatusOK ''User deleted successfully'' None), w')))"

text \<open>The page and limit the \<^verbatim>\<open>List\<close> handler derives from the query string.\<close>

definition List_page :: "Request \<Rightarrow> go_int" where
  "List_page r =
     (let pageStr = Get (Query r) ''page'' in
      if pageStr \<noteq> [] then
        (case Atoi pageStr of
           Inr p \<Rightarrow> if 0 < sint p then p else 1
         | Inl err \<Rightarrow> 1)
      else 1)"

definition List_limit :: "Request \<Rightarrow> go_int" where
  "List_limit r =
     (let limitStr = Get (Query r) ''limit'' in
      if limitStr \<noteq> [] then
        (case Atoi limitStr of
           Inr l \<Rightarrow> if 0 < sint l \<and> sint l \<le> 100 then l else 10
         | Inl err \<Rightarrow> 10)
      else 10)"

definition UserHandler_List :: "'s UserService \<Rightarrow> 's Handler" where
  "UserHandler_List userService r w =
     (let page = List_page r; limit = List_limit r in
      case svc_List userService page limit w of
        (Inl err, w') \<Rightarrow>
          (Inr (WriteErrorResponse StatusInternalServerError ''Failed to retrieve users'' None),
           log_Error [(''error'', FErr err)] ''Failed to list users'' w')
      | (Inr (users, total'), w') \<Rightarrow>
          (WritePaginatedResponse StatusOK ''Users retrieved successfully'' users total' page limit,
           w'))"

definition UserHandler_Login :: "'s UserService \<Rightarrow> Lib \<Rightarrow> 's Handler" where
  "UserHandler_Login userService lib r w =
     (case json_Decode_login lib (RequestBody r) of
        Inl err \<Rightarrow>
          (Inr (WriteErrorResponse StatusBadRequest ''Invalid JSON'' None),
           log_Warn [(''error'', FErr err)] ''Invalid JSON in login request'' w)
      | Inr req \<Rightarrow>
          (case validator_Struct_login lib req of
             Some err \<Rightarrow>
               (Inr (WriteErrorResponse StatusBadRequest ''Validation failed'' (Some err)),
                log_Warn [(''error'', FErr err)] ''Validation failed for login request'' w)
           | None \<Rightarrow>
               (case svc_Login userService req w of
                  (Inl err, w') \<Rightarrow>
                    (Inr (WriteErrorResponse StatusUnauthorized err None),
                     log_Warn [(''error'', FErr err), (''email'', FStr (login_Email req))]
                       ''Login failed'' w')
                | (Inr (token, user), w') \<Rightarrow>
                    (Inr (WriteSuccessResponse StatusOK ''Login successful''
                           (Some (LoginData token user))), w'))))"

definition UserHandler_Logout :: "'s UserService \<Rightarrow> 's Handler" where
  "UserHandler_Logout userService r w =
     (case GetUserIDFromContext (Context r) of
        (userID, False) \<Rightarrow>
          (Inr (WriteErrorResponse StatusUnauthorized ''User not authenticated'' None), w)
      | (userID, True) \<Rightarrow>
          (case svc_Logout userService userID w of
             (Some err, w') \<Rightarrow>
               (Inr (WriteErrorResponse StatusInternalServerError ''Logout failed'' None),
                log_Error [(''error'', FErr err), (''user_id'', FUint userID)]
                  ''Failed to logout user'' w')
           | (None, w') \<Rightarrow>
               (Inr (WriteSuccessResponse StatusOK ''Logout successful'' None), w')))"

definition UserHandler_Profile :: "'s UserService \<Rightarrow> 's Handler" where
  "UserHandler_Profile userService r w =
     (case GetUserIDFromContext (Context r) of
        (userID, False) \<Rightarrow>
          (Inr (WriteErrorResponse StatusUnauthorized ''User not authenticated'' None), w)
      | (userID, True) \<Rightarrow>
          (case svc_GetByID userService userID w of
             (Inl err, w') \<Rightarrow>
               (Inr (WriteErrorResponse StatusNotFound err None),
                log_Error [(''error'', FErr err), (''user_id'', FUint userID)]
                  ''Failed to get user profile'' w')
           | (Inr user, w') \<Rightarrow>
               (Inr (WriteSuccessResponse StatusOK ''Profile retrieved successfully''
                      (Some (UserData user))), w')))"

section \<open>pkg/middleware: Recovery\<close>

text \<open>
  Of the fields \<^verbatim>\<open>Recovery\<close> logs, those the request model carries are kept.
\<close>

definition Recovery :: "'s Handler \<Rightarrow> 's Handler" where
  "Recovery next r w =
     (case next r w of
        (Inl err, w') \<Rightarrow>
          (Inr (WriteErrorResponse StatusInternalServerError ''Internal server error'' None),
           log_Error [(''error'', FStr err), (''path'', FStr (URL_Path r)), (''type'', FStr ''panic'')]
             ''Panic recovered'' w')
      | (Inr resp, w') \<Rightarrow> (Inr resp, w'))"

section \<open>internal/routes: SetupRoutes\<close>

text \<open>
  The routes registered under \<^verbatim>\<open>/api/v1\<close>, named by the pattern chi matched.  The global
  middleware other than \<^verbatim>\<open>Recovery\<close> (request id, real IP, access log, CORS, timeout)
  neither reads nor writes what the model carries and is left out, as are the health
  routes.  The JWT middleware is built from \<^verbatim>\<open>cfg.JWT.Secret\<close>.
\<close>

datatype Route =
  POST_auth_login
| POST_auth_register
| POST_auth_logout
| GET_auth_profile
| GET_users
| GET_users_id
| PUT_users_id
| DELETE_users_id
| POST_admin_users

definition SetupRoutes :: "Config \<Rightarrow> Lib \<Rightarrow> time \<Rightarrow> 's UserService \<Rightarrow> Route \<Rightarrow> 's Handler" where
  "SetupRoutes cfg lib now userService route =
     Recovery
       (case route of
          POST_auth_login \<Rightarrow> UserHandler_Login userService lib
        | POST_auth_register \<Rightarrow> UserHandler_Create userService lib
        | POST_auth_logout \<Rightarrow> JWTAuth lib now (JWT_Secret cfg) (UserHandler_Logout userService)
        | GET_auth_profile \<Rightarrow> JWTAuth lib now (JWT_Secret cfg) (UserHandler_Profile userService)
        | GET_users \<Rightarrow> JWTAuth lib now (JWT_Secret cfg) (UserHandler_List userService)
        | GET_users_id \<Rightarrow> JWTAuth lib now (JWT_Secret cfg) (UserHandler_GetByID userService)
        | PUT_users_id \<Rightarrow> JWTAuth lib now (JWT_Secret cfg) (UserHandler_Update userService lib)
        | DELETE_users_id \<Rightarrow> JWTAuth lib now (JWT_Secret cfg) (UserHandler_Delete userService)
        | POST_admin_users \<Rightarrow>
            JWTAuth lib now (JWT_Secret cfg) (RequireAdmin (UserHandler_Create userService lib)))"

text \<open>
  \<^verbatim>\<open>server.New\<close>: the services are built over one repository, and the router over them.
\<close>

definition Server :: "'s UserRepository \<Rightarrow> Config \<Rightarrow> Lib \<Rightarrow> time \<Rightarrow> Route \<Rightarrow> 's Handler" where
  "Server userRepo cfg lib now =
     SetupRoutes cfg lib now (NewUserService userRepo (NewAuthService userRepo cfg lib now) lib)"

section \<open>internal/repository/user\_repository.go\<close>

text \<open>
  \<^verbatim>\<open>userRepository\<close> runs GORM queries against the \<^verbatim>\<open>users\<close> table.  The table is a list of
  rows in insertion order, with the \<^verbatim>\<open>SERIAL\<close> sequence of the primary key and the clock the
  timestamps are read from.  \<open>db_err\<close> is the failure of the connection, if any: while it
  is set, every query returns it.  What the model keeps of GORM and the schema:
  \<^item> a soft-deleted row (\<open>DeletedAt\<close> set) is invisible to every query and to \<^verbatim>\<open>Delete\<close>;
  \<^item> the constraints \<^verbatim>\<open>uni_users_email\<close> and \<^verbatim>\<open>uni_users_username\<close> of the migration range
    over all rows, soft-deleted ones included;
  \<^item> \<^verbatim>\<open>Create\<close> assigns the id from the sequence when the struct's id is zero, stamps zero
    timestamps, and stores the column default \<^verbatim>\<open>true\<close> for a zero \<^verbatim>\<open>IsActive\<close>
    (tag \<^verbatim>\<open>default:true\<close>);
  \<^item> \<^verbatim>\<open>Save\<close> writes every field of the row with the struct's id (inserting the row when
    there is none) and stamps \<open>UpdatedAt\<close>;
  \<^item> \<^verbatim>\<open>List\<close> orders by creation time, latest first; rows created at the same instant
    keep a fixed order.
  Column lengths are not modelled.
\<close>

record Database =
  rows :: "User list"
  next_id :: uint
  db_now :: time
  db_err :: "error option"

definition live :: "User \<Rightarrow> bool" where
  "live u = (DeletedAt u = None)"

definition unique_violation :: "User \<Rightarrow> User list \<Rightarrow> error option" where
  "unique_violation user others =
     (if list_ex (\<lambda>u. ID u = ID user) others then
        Some ''duplicate key value violates unique constraint users_pkey''
      else if list_ex (\<lambda>u. Email u = Email user) others then
        Some ''duplicate key value violates unique constraint uni_users_email''
      else if list_ex (\<lambda>u. Username u = Username user) others then
        Some ''duplicate key value violates unique constraint uni_users_username''
      else None)"

definition userRepository_Create :: "User \<Rightarrow> Database \<Rightarrow> (error + User) \<times> Database" where
  "userRepository_Create user db =
     (case db_err db of
        Some err \<Rightarrow> (Inl err, db)
      | None \<Rightarrow>
          let user' = user
                \<lparr>ID := (if ID user = 0 then next_id db else ID user),
                 IsActive := True,
                 CreatedAt := (if CreatedAt user = 0 then db_now db else CreatedAt user),
                 UpdatedAt := (if UpdatedAt user = 0 then db_now db else UpdatedAt user)\<rparr>
          in
            case unique_violation user' (rows db) of
              Some err \<Rightarrow> (Inl err, db\<lparr>next_id := next_id db + 1\<rparr>)
            | None \<Rightarrow> (Inr user', db\<lparr>rows := rows db @ [user'], next_id := next_id db + 1\<rparr>))"

definition userRepository_GetByID :: "uint \<Rightarrow> Database \<Rightarrow> error + User option" where
  "userRepository_GetByID id' db =
     (case db_err db of
        Some err \<Rightarrow> Inl err
      | None \<Rightarrow> Inr (find (\<lambda>u. live u \<and> ID u = id') (rows db)))"

definition userRepository_GetByEmail :: "string \<Rightarrow> Database \<Rightarrow> error + User option" where
  "userRepository_GetByEmail email db =
     (case db_err db of
        Some err \<Rightarrow> Inl err
      | None \<Rightarrow> Inr (find (\<lambda>u. live u \<and> Email u = email) (rows db)))"

definition userRepository_GetByUsername :: "string \<Rightarrow> Database \<Rightarrow> error + User option" where
  "userRepository_GetByUsername username db =
     (case db_err db of
        Some err \<Rightarrow> Inl err
      | None \<Rightarrow> Inr (find (\<lambda>u. live u \<and> Username u = username) (rows db)))"

definition userRepository_Update :: "User \<Rightarrow> Database \<Rightarrow> (error + User) \<times> Database" where
  "userRepository_Update user db =
     (if ID user = 0 then userRepository_Create user db
      else case db_err db of
        Some err \<Rightarrow> (Inl err, db)
      | None \<Rightarrow>
          let user' = user\<lparr>UpdatedAt := db_now db\<rparr>;
              others = filter (\<lambda>u. ID u \<noteq> ID user) (rows db)
          in
            case unique_violation user' others of
              Some err \<Rightarrow> (Inl err, db)
            | None \<Rightarrow>
                if list_ex (\<lambda>u. ID u = ID user) (rows db) then
                  (Inr user', db\<lparr>rows := map (\<lambda>u. if ID u = ID user then user' else u) (rows db)\<rparr>)
                else (Inr user', db\<lparr>rows := rows db @ [user']\<rparr>))"

definition userRepository_Delete :: "uint \<Rightarrow> Database \<Rightarrow> error option \<times> Database" where
  "userRepository_Delete id' db =
     (case db_err db of
        Some err \<Rightarrow> (Some err, db)
      | None \<Rightarrow>
          (None,
           db\<lparr>rows := map (\<lambda>u. if live u \<and> ID u = id' then u\<lparr>DeletedAt := Some (db_now db)\<rparr> else u)
                        (rows db)\<rparr>))"

definition userRepository_List :: "go_int \<Rightarrow> go_int \<Rightarrow> Database \<Rightarrow> error + User list" where
  "userRepository_List limit offset db =
     (case db_err db of
        Some err \<Rightarrow> Inl err
      | None \<Rightarrow>
          let ordered = rev (sort_key CreatedAt (filter live (rows db)));
              skipped = (if 0 < sint offset then drop (nat (sint offset)) ordered else ordered)
          in Inr (if 0 < sint limit then take (nat (sint limit)) skipped else skipped))"

definition userRepository_Count :: "Database \<Rightarrow> error + int64" where
  "userRepository_Count db =
     (case db_err db of
        Some err \<Rightarrow> Inl err
      | None \<Rightarrow> Inr (of_nat (length (filter live (rows db)))))"

definition userRepository_ExistsByEmail :: "string \<Rightarrow> Database \<Rightarrow> error + bool" where
  "userRepository_ExistsByEmail email db =
     (case db_err db of
        Some err \<Rightarrow> Inl err
      | None \<Rightarrow> Inr (list_ex (\<lambda>u. live u \<and> Email u = email) (rows db)))"

definition userRepository_ExistsByUsername :: "string \<Rightarrow> Database \<Rightarrow> error + bool" where
  "userRepository_ExistsByUsername username db =
     (case db_err db of
        Some err \<Rightarrow> Inl err
      | None \<Rightarrow> Inr (list_ex (\<lambda>u. live u \<and> Username u = username) (rows db)))"

definition userRepository_UpdateLastLogin :: "uint \<Rightarrow> Database \<Rightarrow> error option \<times> Database" where
  "userRepository_UpdateLastLogin userID db =
     (case db_err db of
        Some err \<Rightarrow> (Some err, db)
      | None \<Rightarrow>
          (None,
           db\<lparr>rows := map (\<lambda>u. if live u \<and> ID u = userID
                                then u\<lparr>LastLogin := Some (db_now db), UpdatedAt := db_now db\<rparr>
                                else u)
                        (rows db)\<rparr>))"

definition NewUserRepository :: "Database UserRepository" where
  "NewUserRepository =
     \<lparr>repo_Create = userRepository_Create,
      repo_GetByID = userRepository_GetByID,
      repo_GetByEmail = userRepository_GetByEmail,
      repo_GetByUsername = userRepository_GetByUsername,
      repo_Update = userRepository_Update,
      repo_Delete = userRepository_Delete,
      repo_List = userRepository_List,
      repo_Count = userRepository_Count,
      repo_ExistsByEmail = userRepository_ExistsByEmail,
      repo_ExistsByUsername = userRepository_ExistsByUsername,
      repo_UpdateLastLogin = userRepository_UpdateLastLogin\<rparr>"

section \<open>Example data\<close>

text \<open>
  Concrete instances for the closed examples below.  The example library signs by table:
  it knows the tokens of the two example accounts and one token that expired at instant
  \<open>500\<close>; its password hash is a tagged copy of the password.  The clock of the examples
  reads \<open>1000\<close>.
\<close>

definition ex_cfg :: Config where
  "ex_cfg = \<lparr>JWT_Secret = ''secret'', JWT_Expiry = 3600\<rparr>"

definition ex_alice :: User where
  "ex_alice =
     \<lparr>ID = 1, Email = ''alice@example.com'', Username = ''alice'', Password = ''$2a$wonderland'',
      FirstName = ''Alice'', LastName = ''A'', IsActive = True, IsAdmin = True,
      LastLogin = None, CreatedAt = 10, UpdatedAt = 10, DeletedAt = None\<rparr>"

definition ex_bob :: User where
  "ex_bob =
     \<lparr>ID = 2, Email = ''bob@example.com'', Username = ''bob'', Password = ''$2a$builder'',
      FirstName = ''Bob'', LastName = ''B'', IsActive = False, IsAdmin = False,
      LastLogin = None, CreatedAt = 20, UpdatedAt = 20, DeletedAt = None\<rparr>"

definition ex_claims :: "User \<Rightarrow> time \<Rightarrow> Claims" where
  "ex_claims u expiry =
     \<lparr>claims_UserID = ID u, claims_Email = Email u, claims_IsAdmin = IsAdmin u,
      claims_ExpiresAt = expiry\<rparr>"

definition ex_carol_req :: UserCreateRequest where
  "ex_carol_req =
     \<lparr>create_Email = ''carol@example.com'', create_Username = ''carol'',
      create_Password = ''pass123'', create_FirstName = ''Carol'', create_LastName = ''C''\<rparr>"

definition ex_lib :: Lib where
  "ex_lib =
     \<lparr>mac_sign = (\<lambda>secret claims.
        if secret = ''secret'' \<and> claims = ex_claims ex_alice 4600 then ''alice.jwt''
        else if secret = ''secret'' \<and> claims = ex_claims ex_bob 4600 then ''bob.jwt''
        else ''other.jwt''),
      mac_verify = (\<lambda>secret token.
        if secret = ''secret'' \<and> token = ''alice.jwt'' then Some (ex_claims ex_alice 4600)
        else if secret = ''secret'' \<and> token = ''bob.jwt'' then Some (ex_claims ex_bob 4600)
        else if secret = ''secret'' \<and> token = ''old.jwt'' then Some (ex_claims ex_alice 500)
        else None),
      bcrypt_GenerateFromPassword = (\<lambda>password. Inr (''$2a$'' @ password)),
      bcrypt_CompareHashAndPassword = (\<lambda>hashedPassword password.
        if hashedPassword = ''$2a$'' @ password then None
        else Some ''hashedPassword is not the hash of the given password''),
      json_Decode_create = (\<lambda>body.
        if body = ''carol.json'' then Inr ex_carol_req else Inl ''invalid character''),
      json_Decode_update = (\<lambda>body.
        if body = ''rename.json'' then
          Inr \<lparr>update_Email = None, update_Username = None, update_FirstName = Some ''Alicia'',
               update_LastName = None, update_IsActive = None\<rparr>
        else Inl ''invalid character''),
      json_Decode_login = (\<lambda>body.
        if body = ''alice-login.json'' then
          Inr \<lparr>login_Email = ''alice@example.com'', login_Password = ''wonderland''\<rparr>
        else Inl ''invalid character''),
      validator_Struct_create = (\<lambda>req. None),
      validator_Struct_update = (\<lambda>req. None),
      validator_Struct_login = (\<lambda>req. None)\<rparr>"

definition ex_db :: Database where
  "ex_db = \<lparr>rows = [ex_alice, ex_bob], next_id = 3, db_now = 1000, db_err = None\<rparr>"

definition ex_world :: "Database World" where
  "ex_world = \<lparr>store = ex_db, logs = []\<rparr>"

text \<open>
  A repository over a database that accepts reads and refuses every write, as a replica
  in recovery does.
\<close>

definition ex_read_only :: "Database UserRepository" where
  "ex_read_only =
     NewUserRepository
       \<lparr>repo_Create := (\<lambda>user db. (Inl ''cannot execute INSERT in a read-only transaction'', db)),
        repo_Update := (\<lambda>user db. (Inl ''cannot execute UPDATE in a read-only transaction'', db)),
        repo_Delete := (\<lambda>id' db. (Some ''cannot execute UPDATE in a read-only transaction'', db)),
        repo_UpdateLastLogin :=
          (\<lambda>userID db. (Some ''cannot execute UPDATE in a read-only transaction'', db))\<rparr>"

text \<open>Repositories in which one query times out while every other operation works.\<close>

definition ex_count_fails :: "Database UserRepository" where
  "ex_count_fails = NewUserRepository\<lparr>repo_Count := (\<lambda>db. Inl ''context deadline exceeded'')\<rparr>"

definition ex_email_check_fails :: "Database UserRepository" where
  "ex_email_check_fails =
     NewUserRepository\<lparr>repo_ExistsByEmail := (\<lambda>email db. Inl ''context deadline exceeded'')\<rparr>"

definition ex_username_check_fails :: "Database UserRepository" where
  "ex_username_check_fails =
     NewUserRepository\<lparr>repo_ExistsByUsername := (\<lambda>username db. Inl ''context deadline exceeded'')\<rparr>"

text \<open>
  The example library with one more update body: it changes the e-mail and the username.
\<close>

definition ex_lib_move :: Lib where
  "ex_lib_move =
     ex_lib\<lparr>json_Decode_update := (\<lambda>body.
       if body = ''move.json'' then
         Inr \<lparr>update_Email = Some ''alice@example.org'', update_Username = Some ''alicia'',
              update_FirstName = None, update_LastName = None, update_IsActive = None\<rparr>
       else Inl ''invalid character'')\<rparr>"

text \<open>The example store while the connection to the database is down.\<close>

definition ex_down :: "Database World" where
  "ex_down =
     \<lparr>store = ex_db\<lparr>db_err := Some ''dial tcp 10.0.0.5:5432: connect: connection refused''\<rparr>,
      logs = []\<rparr>"

definition ex_request :: Request where
  "ex_request =
     \<lparr>URL_Path = ''/api/v1'', Header = [], RequestBody = [], URLParam_id = [], Query = [],
      Context = \<lparr>UserIDKey = None, UserEmailKey = None, IsAdminKey = None\<rparr>\<rparr>"

definition ex_bearer :: "string \<Rightarrow> Request" where
  "ex_bearer token = ex_request\<lparr>Header := [(''Authorization'', ''Bearer '' @ token)]\<rparr>"

definition ex_svc :: "Database UserService" where
  "ex_svc =
     NewUserService NewUserRepository (NewAuthService NewUserRepository ex_cfg ex_lib 1000) ex_lib"

text \<open>A repository whose last-login stamp fails while every other operation works.\<close>

definition ex_repo_stamp_fails :: "Database UserRepository" where
  "ex_repo_stamp_fails =
     NewUserRepository\<lparr>repo_UpdateLastLogin := (\<lambda>userID db. (Some ''connection reset by peer'', db))\<rparr>"

section \<open>Verified properties\<close>

subsection \<open>String helpers\<close>

lemma TrimPrefix_append: "TrimPrefix (pre @ s) pre = s"
  by (simp add: TrimPrefix_def HasPrefix_def)

lemma HasPrefix_append: "HasPrefix (pre @ s) pre"
  by (simp add: HasPrefix_def)

lemma HasPrefix_iff: "HasPrefix s pre \<longleftrightarrow> (\<exists>t. s = pre @ t)"
  unfolding HasPrefix_def
  by (metis append_eq_conv_conj append_take_drop_id)

subsection \<open>C2: the case split of the mandatory-auth gate\<close>

text \<open>
  Claim C2.  On a mandatory-auth route the gate \<open>JWTAuth\<close> behaves as an exhaustive case
  split on the value \<open>h\<close> of the \<^verbatim>\<open>Authorization\<close> header: no header, 401; a header that
  does not start with \<^verbatim>\<open>Bearer \<close>, 401; an empty token after the prefix, 401; a token that
  fails validation, 401 with one and the same response whatever the validation error
  was (expiry or signature); otherwise the claims' user id, e-mail and admin flag are put
  into the request context and the next handler is invoked on that request.  In the four
  rejecting cases the next handler is not invoked: the outcome is the response and one
  warning in the log.  The last conjunct says that the five cases cover every header value.
\<close>

theorem JWTAuth_case_split:
  fixes lib :: Lib and nxt :: "'s Handler" and w :: "'s World" and r :: Request
  defines "h \<equiv> Get (Header r) ''Authorization''"
  shows
    "(h = [] \<longrightarrow>
        JWTAuth lib now secret nxt r w =
          (Inr (WriteErrorResponse StatusUnauthorized ''Authorization header required'' None),
           log_Warn [(''path'', FStr (URL_Path r))] ''Missing authorization header'' w))
   \<and> (h \<noteq> [] \<and> \<not> HasPrefix h ''Bearer '' \<longrightarrow>
        JWTAuth lib now secret nxt r w =
          (Inr (WriteErrorResponse StatusUnauthorized ''Invalid authorization header format'' None),
           log_Warn [(''path'', FStr (URL_Path r))] ''Invalid authorization header format'' w))
   \<and> (h = ''Bearer '' \<longrightarrow>
        JWTAuth lib now secret nxt r w =
          (Inr (WriteErrorResponse StatusUnauthorized ''Token required'' None),
           log_Warn [(''path'', FStr (URL_Path r))] ''Empty token'' w))
   \<and> (\<forall>token err. h = ''Bearer '' @ token \<and> token \<noteq> [] \<and>
          ValidateJWT lib now token secret = Inl err \<longrightarrow>
        JWTAuth lib now secret nxt r w =
          (Inr (WriteErrorResponse StatusUnauthorized ''Invalid token'' None),
           log_Warn [(''error'', FErr err), (''path'', FStr (URL_Path r))] ''Invalid token'' w))
   \<and> (\<forall>token claims. h = ''Bearer '' @ token \<and> token \<noteq> [] \<and>
          ValidateJWT lib now token secret = Inr claims \<longrightarrow>
        JWTAuth lib now secret nxt r w =
          nxt (r\<lparr>Context := (Context r)
                  \<lparr>UserIDKey := Some (claims_UserID claims),
                   UserEmailKey := Some (claims_Email claims),
                   IsAdminKey := Some (claims_IsAdmin claims)\<rparr>\<rparr>) w)
   \<and> (h = [] \<or> (h \<noteq> [] \<and> \<not> HasPrefix h ''Bearer '') \<or> h = ''Bearer '' \<or>
       (\<exists>token. h = ''Bearer '' @ token \<and> token \<noteq> [] \<and>
          ((\<exists>err. ValidateJWT lib now token secret = Inl err) \<or>
           (\<exists>claims. ValidateJWT lib now token secret = Inr claims))))"
proof (intro conjI allI impI)
  assume "h = []"
  then show "JWTAuth lib now secret nxt r w =
          (Inr (WriteErrorResponse StatusUnauthorized ''Authorization header required'' None),
           log_Warn [(''path'', FStr (URL_Path r))] ''Missing authorization header'' w)"
    by (simp add: JWTAuth_def h_def)
next
  assume "h \<noteq> [] \<and> \<not> HasPrefix h ''Bearer ''"
  then show "JWTAuth lib now secret nxt r w =
          (Inr (WriteErrorResponse StatusUnauthorized ''Invalid authorization header format'' None),
           log_Warn [(''path'', FStr (URL_Path r))] ''Invalid authorization header format'' w)"
    by (simp add: JWTAuth_def h_def)
next
  assume "h = ''Bearer ''"
  then have "Get (Header r) ''Authorization'' = ''Bearer ''"
    by (simp add: h_def)
  then show "JWTAuth lib now secret nxt r w =
          (Inr (WriteErrorResponse StatusUnauthorized ''Token required'' None),
           log_Warn [(''path'', FStr (URL_Path r))] ''Empty token'' w)"
    by (simp add: JWTAuth_def HasPrefix_def TrimPrefix_def)
next
  fix token err
  assume a: "h = ''Bearer '' @ token \<and> token \<noteq> [] \<and> ValidateJWT lib now token secret = Inl err"
  then have g: "Get (Header r) ''Authorization'' = ''Bearer '' @ token"
    by (simp add: h_def)
  have "TrimPrefix (''Bearer '' @ token) ''Bearer '' = token"
    by (rule TrimPrefix_append)
  with a g show "JWTAuth lib now secret nxt r w =
          (Inr (WriteErrorResponse StatusUnauthorized ''Invalid token'' None),
           log_Warn [(''error'', FErr err), (''path'', FStr (URL_Path r))] ''Invalid token'' w)"
    using HasPrefix_append [of "''Bearer ''" token]
    by (simp add: JWTAuth_def del: append.simps)
next
  fix token claims
  assume a: "h = ''Bearer '' @ token \<and> token \<noteq> [] \<and> ValidateJWT lib now token secret = Inr claims"
  then have g: "Get (Header r) ''Authorization'' = ''Bearer '' @ token"
    by (simp add: h_def)
  have "TrimPrefix (''Bearer '' @ token) ''Bearer '' = token"
    by (rule TrimPrefix_append)
  with a g show "JWTAuth lib now secret nxt r w =
          nxt (r\<lparr>Context := (Context r)
                  \<lparr>UserIDKey := Some (claims_UserID claims),
                   UserEmailKey := Some (claims_Email claims),
                   IsAdminKey := Some (claims_IsAdmin claims)\<rparr>\<rparr>) w"
    using HasPrefix_append [of "''Bearer ''" token]
    by (simp add: JWTAuth_def del: append.simps)
next
  show "h = [] \<or> (h \<noteq> [] \<and> \<not> HasPrefix h ''Bearer '') \<or> h = ''Bearer '' \<or>
       (\<exists>token. h = ''Bearer '' @ token \<and> token \<noteq> [] \<and>
          ((\<exists>err. ValidateJWT lib now token secret = Inl err) \<or>
           (\<exists>claims. ValidateJWT lib now token secret = Inr claims)))"
  proof (cases "HasPrefix h ''Bearer ''")
    case False
    then show ?thesis by auto
  next
    case True
    then obtain token where t: "h = ''Bearer '' @ token"
      using HasPrefix_iff by blast
    show ?thesis
    proof (cases "token = []")
      case True
      with t show ?thesis by simp
    next
      case False
      then show ?thesis
        using t by (cases "ValidateJWT lib now token secret") blast+
    qed
  qed
qed

text \<open>
  The five cases at concrete requests: no header, a \<^verbatim>\<open>Basic\<close> header, an empty bearer
  token, an expired and a forged token (the same response for both), and a valid token.
\<close>

theorem JWTAuth_case_split_witness:
  "JWTAuth ex_lib 1000 ''secret'' (UserHandler_Logout ex_svc) ex_request ex_world =
     (Inr (WriteErrorResponse StatusUnauthorized ''Authorization header required'' None),
      log_Warn [(''path'', FStr ''/api/v1'')] ''Missing authorization header'' ex_world)
   \<and> JWTAuth ex_lib 1000 ''secret'' (UserHandler_Logout ex_svc)
       (ex_request\<lparr>Header := [(''Authorization'', ''Basic YWxpY2U='')]\<rparr>) ex_world =
     (Inr (WriteErrorResponse StatusUnauthorized ''Invalid authorization header format'' None),
      log_Warn [(''path'', FStr ''/api/v1'')] ''Invalid authorization header format'' ex_world)
   \<and> JWTAuth ex_lib 1000 ''secret'' (UserHandler_Logout ex_svc) (ex_bearer []) ex_world =
     (Inr (WriteErrorResponse StatusUnauthorized ''Token required'' None),
      log_Warn [(''path'', FStr ''/api/v1'')] ''Empty token'' ex_world)
   \<and> fst (JWTAuth ex_lib 1000 ''secret'' (UserHandler_Logout ex_svc) (ex_bearer ''old.jwt'') ex_world) =
     Inr (WriteErrorResponse StatusUnauthorized ''Invalid token'' None)
   \<and> fst (JWTAuth ex_lib 1000 ''secret'' (UserHandler_Logout ex_svc) (ex_bearer ''forged.jwt'') ex_world) =
     Inr (WriteErrorResponse StatusUnauthorized ''Invalid token'' None)
   \<and> JWTAuth ex_lib 1000 ''secret'' (UserHandler_Logout ex_svc) (ex_bearer ''alice.jwt'') ex_world =
     UserHandler_Logout ex_svc
       (ex_request\<lparr>Header := [(''Authorization'', ''Bearer alice.jwt'')],
          Context := \<lparr>UserIDKey = Some 1, UserEmailKey = Some ''alice@example.com'',
                      IsAdminKey = Some True\<rparr>\<rparr>) ex_world"
proof (intro conjI)
  show "JWTAuth ex_lib 1000 ''secret'' (UserHandler_Logout ex_svc) ex_request ex_world =
     (Inr (WriteErrorResponse StatusUnauthorized ''Authorization header required'' None),
      log_Warn [(''path'', FStr ''/api/v1'')] ''Missing authorization header'' ex_world)"
    using JWTAuth_case_split [of ex_request ex_lib 1000 "''secret''" "UserHandler_Logout ex_svc" ex_world]
    by (simp add: ex_request_def Get_def)
next
  show "JWTAuth ex_lib 1000 ''secret'' (UserHandler_Logout ex_svc)
       (ex_request\<lparr>Header := [(''Authorization'', ''Basic YWxpY2U='')]\<rparr>) ex_world =
     (Inr (WriteErrorResponse StatusUnauthorized ''Invalid authorization header format'' None),
      log_Warn [(''path'', FStr ''/api/v1'')] ''Invalid authorization header format'' ex_world)"
    using JWTAuth_case_split [of "ex_request\<lparr>Header := [(''Authorization'', ''Basic YWxpY2U='')]\<rparr>"
        ex_lib 1000 "''secret''" "UserHandler_Logout ex_svc" ex_world]
    by (simp add: ex_request_def Get_def HasPrefix_def)
next
  show "JWTAuth ex_lib 1000 ''secret'' (UserHandler_Logout ex_svc) (ex_bearer []) ex_world =
     (Inr (WriteErrorResponse StatusUnauthorized ''Token required'' None),
      log_Warn [(''path'', FStr ''/api/v1'')] ''Empty token'' ex_world)"
    using JWTAuth_case_split [of "ex_bearer []" ex_lib 1000 "''secret''" "UserHandler_Logout ex_svc" ex_world]
    by (simp add: ex_bearer_def ex_request_def Get_def)
next
  have "ValidateJWT ex_lib 1000 ''old.jwt'' ''secret'' = Inl ''token is expired''"
    by (simp add: ValidateJWT_def ex_lib_def ex_claims_def)
  then show "fst (JWTAuth ex_lib 1000 ''secret'' (UserHandler_Logout ex_svc) (ex_bearer ''old.jwt'') ex_world) =
     Inr (WriteErrorResponse StatusUnauthorized ''Invalid token'' None)"
    using JWTAuth_case_split [of "ex_bearer ''old.jwt''" ex_lib 1000 "''secret''" "UserHandler_Logout ex_svc" ex_world]
    by (simp add: ex_bearer_def ex_request_def Get_def)
next
  have "ValidateJWT ex_lib 1000 ''forged.jwt'' ''secret'' = Inl ''signature is invalid''"
    by (simp add: ValidateJWT_def ex_lib_def)
  then show "fst (JWTAuth ex_lib 1000 ''secret'' (UserHandler_Logout ex_svc) (ex_bearer ''forged.jwt'') ex_world) =
     Inr (WriteErrorResponse StatusUnauthorized ''Invalid token'' None)"
    using JWTAuth_case_split [of "ex_bearer ''forged.jwt''" ex_lib 1000 "''secret''" "UserHandler_Logout ex_svc" ex_world]
    by (simp add: ex_bearer_def ex_request_def Get_def)
next
  have "ValidateJWT ex_lib 1000 ''alice.jwt'' ''secret'' = Inr (ex_claims ex_alice 4600)"
    by (simp add: ValidateJWT_def ex_lib_def ex_claims_def)
  then show "JWTAuth ex_lib 1000 ''secret'' (UserHandler_Logout ex_svc) (ex_bearer ''alice.jwt'') ex_world =
     UserHandler_Logout ex_svc
       (ex_request\<lparr>Header := [(''Authorization'', ''Bearer alice.jwt'')],
          Context := \<lparr>UserIDKey = Some 1, UserEmailKey = Some ''alice@example.com'',
                      IsAdminKey = Some True\<rparr>\<rparr>) ex_world"
    using JWTAuth_case_split [of "ex_bearer ''alice.jwt''" ex_lib 1000 "''secret''" "UserHandler_Logout ex_svc" ex_world]
    by (simp add: ex_bearer_def ex_request_def Get_def ex_claims_def ex_alice_def)
qed

subsection \<open>C3: login failures do not reveal whether an e-mail is registered\<close>

text \<open>
  Claim C3.  A login with an e-mail that matches no account and a login with the e-mail
  of an active account but a wrong password both fail with the same error message,
  \<^verbatim>\<open>invalid credentials\<close>, and leave the store as it was; a login against a deactivated
  account fails with the different message \<^verbatim>\<open>account is deactivated\<close> (whatever the
  password, since the active flag is checked first).  The repository, the authentication
  service and the password hasher are arbitrary.
\<close>

theorem Login_failure_messages:
  fixes userRepo :: "'s UserRepository" and w :: "'s World"
  shows
    "(repo_GetByEmail userRepo (login_Email req) (store w) = Inr None \<longrightarrow>
        userService_Login userRepo authSvc lib req w = (Inl ''invalid credentials'', w))
   \<and> (\<forall>user err.
        repo_GetByEmail userRepo (login_Email req) (store w) = Inr (Some user) \<and> IsActive user \<and>
        bcrypt_CompareHashAndPassword lib (Password user) (login_Password req) = Some err \<longrightarrow>
        fst (userService_Login userRepo authSvc lib req w) = Inl ''invalid credentials'' \<and>
        store (snd (userService_Login userRepo authSvc lib req w)) = store w)
   \<and> (\<forall>user.
        repo_GetByEmail userRepo (login_Email req) (store w) = Inr (Some user) \<and> \<not> IsActive user \<longrightarrow>
        userService_Login userRepo authSvc lib req w = (Inl ''account is deactivated'', w))
   \<and> ''account is deactivated'' \<noteq> ''invalid credentials''"
  by (simp add: userService_Login_def log_write_def)

text \<open>
  On the example store: an unknown e-mail, Alice with a wrong password, and the
  deactivated Bob.
\<close>

theorem Login_failure_messages_witness:
  "fst (userService_Login NewUserRepository (NewAuthService NewUserRepository ex_cfg ex_lib 1000) ex_lib
          \<lparr>login_Email = ''nobody@example.com'', login_Password = ''wonderland''\<rparr> ex_world)
     = Inl ''invalid credentials''
   \<and> fst (userService_Login NewUserRepository (NewAuthService NewUserRepository ex_cfg ex_lib 1000) ex_lib
          \<lparr>login_Email = ''alice@example.com'', login_Password = ''looking-glass''\<rparr> ex_world)
     = Inl ''invalid credentials''
   \<and> fst (userService_Login NewUserRepository (NewAuthService NewUserRepository ex_cfg ex_lib 1000) ex_lib
          \<lparr>login_Email = ''bob@example.com'', login_Password = ''builder''\<rparr> ex_world)
     = Inl ''account is deactivated''"
proof (intro conjI)
  have "repo_GetByEmail NewUserRepository ''nobody@example.com'' ex_db = Inr None"
    by (simp add: NewUserRepository_def userRepository_GetByEmail_def ex_db_def ex_alice_def
        ex_bob_def live_def)
  then show "fst (userService_Login NewUserRepository (NewAuthService NewUserRepository ex_cfg ex_lib 1000) ex_lib
          \<lparr>login_Email = ''nobody@example.com'', login_Password = ''wonderland''\<rparr> ex_world)
     = Inl ''invalid credentials''"
    using Login_failure_messages [of NewUserRepository
        "\<lparr>login_Email = ''nobody@example.com'', login_Password = ''wonderland''\<rparr>" ex_world
        "NewAuthService NewUserRepository ex_cfg ex_lib 1000" ex_lib]
    by (simp add: ex_world_def)
next
  have g: "repo_GetByEmail NewUserRepository ''alice@example.com'' ex_db = Inr (Some ex_alice)"
    by (simp add: NewUserRepository_def userRepository_GetByEmail_def ex_db_def ex_alice_def
        ex_bob_def live_def)
  have c: "bcrypt_CompareHashAndPassword ex_lib (Password ex_alice) ''looking-glass''
      = Some ''hashedPassword is not the hash of the given password''"
    by (simp add: ex_lib_def ex_alice_def)
  have a: "IsActive ex_alice"
    by (simp add: ex_alice_def)
  show "fst (userService_Login NewUserRepository (NewAuthService NewUserRepository ex_cfg ex_lib 1000) ex_lib
          \<lparr>login_Email = ''alice@example.com'', login_Password = ''looking-glass''\<rparr> ex_world)
     = Inl ''invalid credentials''"
    using g c a Login_failure_messages [of NewUserRepository
        "\<lparr>login_Email = ''alice@example.com'', login_Password = ''looking-glass''\<rparr>" ex_world
        "NewAuthService NewUserRepository ex_cfg ex_lib 1000" ex_lib]
    by (simp add: ex_world_def)
next
  have g: "repo_GetByEmail NewUserRepository ''bob@example.com'' ex_db = Inr (Some ex_bob)"
    by (simp add: NewUserRepository_def userRepository_GetByEmail_def ex_db_def ex_alice_def
        ex_bob_def live_def)
  have a: "\<not> IsActive ex_bob"
    by (simp add: ex_bob_def)
  show "fst (userService_Login NewUserRepository (NewAuthService NewUserRepository ex_cfg ex_lib 1000) ex_lib
          \<lparr>login_Email = ''bob@example.com'', login_Password = ''builder''\<rparr> ex_world)
     = Inl ''account is deactivated''"
    using g a Login_failure_messages [of NewUserRepository
        "\<lparr>login_Email = ''bob@example.com'', login_Password = ''builder''\<rparr>" ex_world
        "NewAuthService NewUserRepository ex_cfg ex_lib 1000" ex_lib]
    by (simp add: ex_world_def)
qed

subsection \<open>C9: a failed last-login stamp does not fail the login\<close>

text \<open>
  Claim C9.  When the credentials are correct, the account is active and the token is
  issued, a failure of \<^verbatim>\<open>UpdateLastLogin\<close> does not fail the login: the operation returns
  the issued token and the user representation, and the stamping error is written to the
  log as a warning, followed by the success entry.
\<close>

theorem Login_survives_last_login_failure:
  fixes userRepo :: "'s UserRepository" and w :: "'s World"
  assumes "repo_GetByEmail userRepo (login_Email req) (store w) = Inr (Some user)"
    and "IsActive user"
    and "bcrypt_CompareHashAndPassword lib (Password user) (login_Password req) = None"
    and "auth_GenerateToken authSvc (ID user) (Email user) (IsAdmin user) w = (Inr token, w1)"
    and "repo_UpdateLastLogin userRepo (ID user) (store w1) = (Some err, s')"
  shows "fst (userService_Login userRepo authSvc lib req w) = Inr (token, ToResponse user)
    \<and> logs (snd (userService_Login userRepo authSvc lib req w)) =
        logs w1 @
        [\<lparr>entry_Level = WarnLevel,
          entry_Fields = [(''error'', FErr err), (''user_id'', FUint (ID user))],
          entry_Message = ''Failed to update last login''\<rparr>,
         \<lparr>entry_Level = InfoLevel, entry_Fields = [(''user_id'', FUint (ID user))],
          entry_Message = ''User logged in successfully''\<rparr>]"
  using assms by (simp add: userService_Login_def log_write_def)

text \<open>Alice logs in on a repository whose last-login stamp fails.\<close>

theorem Login_survives_last_login_failure_witness:
  "fst (userService_Login ex_repo_stamp_fails (NewAuthService ex_repo_stamp_fails ex_cfg ex_lib 1000) ex_lib
          \<lparr>login_Email = ''alice@example.com'', login_Password = ''wonderland''\<rparr> ex_world)
     = Inr (''alice.jwt'', ToResponse ex_alice)"
proof -
  have g: "repo_GetByEmail ex_repo_stamp_fails ''alice@example.com'' ex_db = Inr (Some ex_alice)"
    by (simp add: ex_repo_stamp_fails_def NewUserRepository_def userRepository_GetByEmail_def
        ex_db_def ex_alice_def ex_bob_def live_def)
  have a: "IsActive ex_alice"
    by (simp add: ex_alice_def)
  have c: "bcrypt_CompareHashAndPassword ex_lib (Password ex_alice) ''wonderland'' = None"
    by (simp add: ex_lib_def ex_alice_def)
  have t: "auth_GenerateToken (NewAuthService ex_repo_stamp_fails ex_cfg ex_lib 1000)
             (ID ex_alice) (Email ex_alice) (IsAdmin ex_alice) ex_world =
           (Inr ''alice.jwt'',
            log_Info [(''user_id'', FUint (ID ex_alice))] ''JWT token generated successfully'' ex_world)"
    by (simp add: NewAuthService_def authService_GenerateToken_def GenerateJWT_def ex_cfg_def
        ex_lib_def ex_claims_def)
  have u: "repo_UpdateLastLogin ex_repo_stamp_fails (ID ex_alice)
             (store (log_Info [(''user_id'', FUint (ID ex_alice))] ''JWT token generated successfully'' ex_world))
           = (Some ''connection reset by peer'', ex_db)"
    by (simp add: ex_repo_stamp_fails_def log_write_def ex_world_def)
  show ?thesis
    using Login_survives_last_login_failure [of ex_repo_stamp_fails
        "\<lparr>login_Email = ''alice@example.com'', login_Password = ''wonderland''\<rparr>" ex_world
        ex_alice ex_lib, OF _ a _ t u] g c
    by (simp add: ex_world_def)
qed

subsection \<open>C4: create rejects taken e-mails and usernames and persists a plain active account\<close>

text \<open>
  Claim C4.  If the e-mail already exists, \<open>Create\<close> fails with the e-mail error and the
  world is unchanged, whatever the username (the e-mail is checked first); if the e-mail
  is free and the username exists, it fails with the username error and the world is
  unchanged.  If both are free and the password hashes, the one struct handed to the
  store's \<open>Create\<close> has the request's fields, the active flag true and the admin flag
  false; the store after the call is the store that \<open>Create\<close> of the repository leaves, and
  the result is the account it returns, or its error behind a fixed prefix.
\<close>

theorem Create_conflicts_and_flags:
  fixes userRepo :: "'s UserRepository" and w :: "'s World"
  shows
    "(repo_ExistsByEmail userRepo (create_Email req) (store w) = Inr True \<longrightarrow>
        userService_Create userRepo lib req w = (Inl ''user with this email already exists'', w))
   \<and> (repo_ExistsByEmail userRepo (create_Email req) (store w) = Inr False \<and>
      repo_ExistsByUsername userRepo (create_Username req) (store w) = Inr True \<longrightarrow>
        userService_Create userRepo lib req w = (Inl ''username is already taken'', w))
   \<and> (\<forall>hashedPassword user.
        repo_ExistsByEmail userRepo (create_Email req) (store w) = Inr False \<and>
        repo_ExistsByUsername userRepo (create_Username req) (store w) = Inr False \<and>
        bcrypt_GenerateFromPassword lib (create_Password req) = Inr hashedPassword \<and>
        user =
          \<lparr>ID = 0, Email = create_Email req, Username = create_Username req,
           Password = hashedPassword, FirstName = create_FirstName req,
           LastName = create_LastName req, IsActive = True, IsAdmin = False,
           LastLogin = None, CreatedAt = 0, UpdatedAt = 0, DeletedAt = None\<rparr> \<longrightarrow>
        IsActive user \<and> \<not> IsAdmin user \<and>
        store (snd (userService_Create userRepo lib req w)) =
          snd (repo_Create userRepo user (store w)) \<and>
        fst (userService_Create userRepo lib req w) =
          (case fst (repo_Create userRepo user (store w)) of
             Inl err \<Rightarrow> Inl (''failed to create user: '' @ err)
           | Inr user' \<Rightarrow> Inr (ToResponse user')))"
proof (intro conjI allI impI)
  assume "repo_ExistsByEmail userRepo (create_Email req) (store w) = Inr True"
  then show "userService_Create userRepo lib req w = (Inl ''user with this email already exists'', w)"
    by (simp add: userService_Create_def)
next
  assume "repo_ExistsByEmail userRepo (create_Email req) (store w) = Inr False \<and>
      repo_ExistsByUsername userRepo (create_Username req) (store w) = Inr True"
  then show "userService_Create userRepo lib req w = (Inl ''username is already taken'', w)"
    by (simp add: userService_Create_def)
next
  fix hashedPassword user
  assume a: "repo_ExistsByEmail userRepo (create_Email req) (store w) = Inr False \<and>
        repo_ExistsByUsername userRepo (create_Username req) (store w) = Inr False \<and>
        bcrypt_GenerateFromPassword lib (create_Password req) = Inr hashedPassword \<and>
        user =
          \<lparr>ID = 0, Email = create_Email req, Username = create_Username req,
           Password = hashedPassword, FirstName = create_FirstName req,
           LastName = create_LastName req, IsActive = True, IsAdmin = False,
           LastLogin = None, CreatedAt = 0, UpdatedAt = 0, DeletedAt = None\<rparr>"
  then show "IsActive user" and "\<not> IsAdmin user"
    by simp_all
  from a show "store (snd (userService_Create userRepo lib req w)) =
          snd (repo_Create userRepo user (store w))"
    by (cases "repo_Create userRepo user (store w)")
       (simp add: userService_Create_def log_write_def split: sum.splits)
  from a show "fst (userService_Create userRepo lib req w) =
          (case fst (repo_Create userRepo user (store w)) of
             Inl err \<Rightarrow> Inl (''failed to create user: '' @ err)
           | Inr user' \<Rightarrow> Inr (ToResponse user'))"
    by (cases "repo_Create userRepo user (store w)")
       (simp add: userService_Create_def log_write_def split: sum.splits)
qed

text \<open>
  On the example store: Alice's e-mail is taken, Bob's username is taken, and Carol is
  persisted with id 3, active and not an administrator.
\<close>

lemma ex_exists_carol:
  "repo_ExistsByEmail NewUserRepository ''carol@example.com'' ex_db = Inr False"
  "repo_ExistsByUsername NewUserRepository ''carol'' ex_db = Inr False"
  "repo_ExistsByEmail NewUserRepository ''alice@example.com'' ex_db = Inr True"
  "repo_ExistsByUsername NewUserRepository ''bob'' ex_db = Inr True"
  by (simp_all add: NewUserRepository_def userRepository_ExistsByEmail_def
      userRepository_ExistsByUsername_def ex_db_def ex_alice_def ex_bob_def live_def)

theorem Create_conflicts_and_flags_witness:
  "userService_Create NewUserRepository ex_lib (ex_carol_req\<lparr>create_Email := ''alice@example.com''\<rparr>) ex_world
     = (Inl ''user with this email already exists'', ex_world)
   \<and> userService_Create NewUserRepository ex_lib (ex_carol_req\<lparr>create_Username := ''bob''\<rparr>) ex_world
     = (Inl ''username is already taken'', ex_world)
   \<and> rows (store (snd (userService_Create NewUserRepository ex_lib ex_carol_req ex_world))) =
       [ex_alice, ex_bob,
        \<lparr>ID = 3, Email = ''carol@example.com'', Username = ''carol'', Password = ''$2a$pass123'',
         FirstName = ''Carol'', LastName = ''C'', IsActive = True, IsAdmin = False,
         LastLogin = None, CreatedAt = 1000, UpdatedAt = 1000, DeletedAt = None\<rparr>]"
proof (intro conjI)
  show "userService_Create NewUserRepository ex_lib (ex_carol_req\<lparr>create_Email := ''alice@example.com''\<rparr>) ex_world
     = (Inl ''user with this email already exists'', ex_world)"
    using Create_conflicts_and_flags [of NewUserRepository
        "ex_carol_req\<lparr>create_Email := ''alice@example.com''\<rparr>" ex_world ex_lib] ex_exists_carol
    by (simp add: ex_world_def ex_carol_req_def)
next
  show "userService_Create NewUserRepository ex_lib (ex_carol_req\<lparr>create_Username := ''bob''\<rparr>) ex_world
     = (Inl ''username is already taken'', ex_world)"
    using Create_conflicts_and_flags [of NewUserRepository
        "ex_carol_req\<lparr>create_Username := ''bob''\<rparr>" ex_world ex_lib] ex_exists_carol
    by (simp add: ex_world_def ex_carol_req_def)
next
  have h: "bcrypt_GenerateFromPassword ex_lib (create_Password ex_carol_req) = Inr ''$2a$pass123''"
    by (simp add: ex_lib_def ex_carol_req_def)
  have c: "snd (repo_Create NewUserRepository
        \<lparr>ID = 0, Email = ''carol@example.com'', Username = ''carol'', Password = ''$2a$pass123'',
         FirstName = ''Carol'', LastName = ''C'', IsActive = True, IsAdmin = False,
         LastLogin = None, CreatedAt = 0, UpdatedAt = 0, DeletedAt = None\<rparr> ex_db) =
      ex_db\<lparr>rows := [ex_alice, ex_bob,
        \<lparr>ID = 3, Email = ''carol@example.com'', Username = ''carol'', Password = ''$2a$pass123'',
         FirstName = ''Carol'', LastName = ''C'', IsActive = True, IsAdmin = False,
         LastLogin = None, CreatedAt = 1000, UpdatedAt = 1000, DeletedAt = None\<rparr>],
        next_id := 4\<rparr>"
    by (simp add: NewUserRepository_def userRepository_Create_def unique_violation_def
        ex_db_def ex_alice_def ex_bob_def Let_def)
  show "rows (store (snd (userService_Create NewUserRepository ex_lib ex_carol_req ex_world))) =
       [ex_alice, ex_bob,
        \<lparr>ID = 3, Email = ''carol@example.com'', Username = ''carol'', Password = ''$2a$pass123'',
         FirstName = ''Carol'', LastName = ''C'', IsActive = True, IsAdmin = False,
         LastLogin = None, CreatedAt = 1000, UpdatedAt = 1000, DeletedAt = None\<rparr>]"
    using Create_conflicts_and_flags [of NewUserRepository ex_carol_req ex_world ex_lib] h c
      ex_exists_carol
    by (simp add: ex_world_def ex_carol_req_def)
qed

subsection \<open>C10: no HTTP create path produces an administrator\<close>

text \<open>
  The middleware either rejects without touching the store or hands the request on.
\<close>

lemma store_log_write [simp]: "store (log_write lvl fs msg w) = store w"
  by (simp add: log_write_def)

lemma Recovery_store: "store (snd (Recovery nxt r w)) = store (snd (nxt r w))"
  by (simp add: Recovery_def split: prod.splits sum.splits)

lemma JWTAuth_forwards_or_rejects:
  "(\<exists>r'. JWTAuth lib now secret nxt r w = nxt r' w) \<or>
   store (snd (JWTAuth lib now secret nxt r w)) = store w"
  by (auto simp add: JWTAuth_def Let_def split: sum.splits)

lemma RequireAdmin_forwards_or_rejects:
  "RequireAdmin nxt r w = nxt r w \<or> store (snd (RequireAdmin nxt r w)) = store w"
  by (simp add: RequireAdmin_def)

lemma userService_Create_store:
  "store (snd (userService_Create userRepo lib req w)) = store w \<or>
   (\<exists>user. IsActive user \<and> \<not> IsAdmin user \<and>
      store (snd (userService_Create userRepo lib req w)) = snd (repo_Create userRepo user (store w)))"
proof (cases "repo_ExistsByEmail userRepo (create_Email req) (store w)")
  case (Inl err)
  then show ?thesis by (simp add: userService_Create_def)
next
  case e: (Inr emailTaken)
  show ?thesis
  proof (cases "repo_ExistsByUsername userRepo (create_Username req) (store w)")
    case (Inl err)
    with e show ?thesis by (simp add: userService_Create_def)
  next
    case u: (Inr usernameTaken)
    show ?thesis
    proof (cases "bcrypt_GenerateFromPassword lib (create_Password req)")
      case (Inl err)
      with e u show ?thesis by (simp add: userService_Create_def)
    next
      case (Inr hashedPassword)
      define user where "user =
        \<lparr>ID = 0, Email = create_Email req, Username = create_Username req,
         Password = hashedPassword, FirstName = create_FirstName req,
         LastName = create_LastName req, IsActive = True, IsAdmin = False,
         LastLogin = None, CreatedAt = 0, UpdatedAt = 0, DeletedAt = None\<rparr>"
      have flags: "IsActive user \<and> \<not> IsAdmin user"
        by (simp add: user_def)
      show ?thesis
      proof (cases "emailTaken \<or> usernameTaken")
        case True
        with e u show ?thesis by (auto simp add: userService_Create_def)
      next
        case False
        with e u Inr
        have "store (snd (userService_Create userRepo lib req w)) =
            snd (repo_Create userRepo user (store w))"
          by (cases "repo_Create userRepo user (store w)")
             (simp add: userService_Create_def user_def split: sum.splits)
        with flags show ?thesis by blast
      qed
    qed
  qed
qed

lemma UserHandler_Create_store:
  "store (snd (UserHandler_Create (NewUserService userRepo authSvc lib) lib r w)) = store w \<or>
   (\<exists>user. IsActive user \<and> \<not> IsAdmin user \<and>
      store (snd (UserHandler_Create (NewUserService userRepo authSvc lib) lib r w)) =
        snd (repo_Create userRepo user (store w)))"
proof (cases "json_Decode_create lib (RequestBody r)")
  case (Inl err)
  then show ?thesis by (simp add: UserHandler_Create_def)
next
  case (Inr req)
  show ?thesis
  proof (cases "validator_Struct_create lib req")
    case (Some err)
    with Inr show ?thesis by (simp add: UserHandler_Create_def)
  next
    case None
    have "store (snd (UserHandler_Create (NewUserService userRepo authSvc lib) lib r w)) =
        store (snd (userService_Create userRepo lib req w))"
      using Inr None
      by (simp add: UserHandler_Create_def NewUserService_def split: prod.splits sum.splits)
    then show ?thesis
      using userService_Create_store [of userRepo lib req w] by simp
  qed
qed


lemma Server_create_routes:
  assumes "route = POST_auth_register \<or> route = POST_admin_users"
  shows "store (snd (Server userRepo cfg lib now route r w)) = store w \<or>
     (\<exists>user. IsActive user \<and> \<not> IsAdmin user \<and>
        store (snd (Server userRepo cfg lib now route r w)) =
          snd (repo_Create userRepo user (store w)))"
proof -
  define svc where "svc = NewUserService userRepo (NewAuthService userRepo cfg lib now) lib"
  have h: "store (snd (UserHandler_Create svc lib r' w)) = store w \<or>
     (\<exists>user. IsActive user \<and> \<not> IsAdmin user \<and>
        store (snd (UserHandler_Create svc lib r' w)) = snd (repo_Create userRepo user (store w)))"
    for r'
    unfolding svc_def by (rule UserHandler_Create_store)
  from assms show ?thesis
  proof
    assume "route = POST_auth_register"
    then have "store (snd (Server userRepo cfg lib now route r w)) =
        store (snd (UserHandler_Create svc lib r w))"
      by (simp add: Server_def SetupRoutes_def Recovery_store svc_def)
    with h [of r] show ?thesis by simp
  next
    assume "route = POST_admin_users"
    then have s: "store (snd (Server userRepo cfg lib now route r w)) =
        store (snd (JWTAuth lib now (JWT_Secret cfg) (RequireAdmin (UserHandler_Create svc lib)) r w))"
      by (simp add: Server_def SetupRoutes_def Recovery_store svc_def)
    from JWTAuth_forwards_or_rejects [of lib now "JWT_Secret cfg" "RequireAdmin (UserHandler_Create svc lib)" r w]
    show ?thesis
    proof
      assume "\<exists>r'. JWTAuth lib now (JWT_Secret cfg) (RequireAdmin (UserHandler_Create svc lib)) r w =
          RequireAdmin (UserHandler_Create svc lib) r' w"
      then obtain r' where j: "JWTAuth lib now (JWT_Secret cfg) (RequireAdmin (UserHandler_Create svc lib)) r w =
          RequireAdmin (UserHandler_Create svc lib) r' w"
        by blast
      from RequireAdmin_forwards_or_rejects [of "UserHandler_Create svc lib" r' w]
      show ?thesis
      proof
        assume "RequireAdmin (UserHandler_Create svc lib) r' w = UserHandler_Create svc lib r' w"
        with s j h [of r'] show ?thesis by simp
      next
        assume "store (snd (RequireAdmin (UserHandler_Create svc lib) r' w)) = store w"
        with s j show ?thesis by simp
      qed
    next
      assume "store (snd (JWTAuth lib now (JWT_Secret cfg) (RequireAdmin (UserHandler_Create svc lib)) r w)) =
          store w"
      with s show ?thesis by simp
    qed
  qed
qed

lemma services_ignore_repo_Create:
  "userService_GetByID (userRepo\<lparr>repo_Create := c\<rparr>) = userService_GetByID userRepo"
  "userService_GetByEmail (userRepo\<lparr>repo_Create := c\<rparr>) = userService_GetByEmail userRepo"
  "userService_Update_save (userRepo\<lparr>repo_Create := c\<rparr>) = userService_Update_save userRepo"
  "userService_Delete (userRepo\<lparr>repo_Create := c\<rparr>) = userService_Delete userRepo"
  "userService_List (userRepo\<lparr>repo_Create := c\<rparr>) = userService_List userRepo"
  "userService_Login (userRepo\<lparr>repo_Create := c\<rparr>) = userService_Login userRepo"
  "authService_ValidateToken (userRepo\<lparr>repo_Create := c\<rparr>) = authService_ValidateToken userRepo"
  by (simp_all add: fun_eq_iff userService_GetByID_def userService_GetByEmail_def
      userService_Update_save_def userService_Delete_def userService_List_def
      userService_Login_def authService_ValidateToken_def
      cong: sum.case_cong option.case_cong prod.case_cong if_cong)

lemma Update_ignores_repo_Create:
  "userService_Update_username (userRepo\<lparr>repo_Create := c\<rparr>) = userService_Update_username userRepo"
  "userService_Update (userRepo\<lparr>repo_Create := c\<rparr>) = userService_Update userRepo"
proof -
  show u: "userService_Update_username (userRepo\<lparr>repo_Create := c\<rparr>) = userService_Update_username userRepo"
    by (simp add: fun_eq_iff userService_Update_username_def services_ignore_repo_Create
        cong: sum.case_cong option.case_cong if_cong)
  show "userService_Update (userRepo\<lparr>repo_Create := c\<rparr>) = userService_Update userRepo"
    by (simp add: fun_eq_iff userService_Update_def u
        cong: sum.case_cong option.case_cong if_cong)
qed

lemma NewUserService_ignores_repo_Create:
  "svc_GetByID (NewUserService (userRepo\<lparr>repo_Create := c\<rparr>) (NewAuthService (userRepo\<lparr>repo_Create := c\<rparr>) cfg lib now) lib)
     = svc_GetByID (NewUserService userRepo (NewAuthService userRepo cfg lib now) lib)"
  "svc_Update (NewUserService (userRepo\<lparr>repo_Create := c\<rparr>) (NewAuthService (userRepo\<lparr>repo_Create := c\<rparr>) cfg lib now) lib)
     = svc_Update (NewUserService userRepo (NewAuthService userRepo cfg lib now) lib)"
  "svc_Delete (NewUserService (userRepo\<lparr>repo_Create := c\<rparr>) (NewAuthService (userRepo\<lparr>repo_Create := c\<rparr>) cfg lib now) lib)
     = svc_Delete (NewUserService userRepo (NewAuthService userRepo cfg lib now) lib)"
  "svc_List (NewUserService (userRepo\<lparr>repo_Create := c\<rparr>) (NewAuthService (userRepo\<lparr>repo_Create := c\<rparr>) cfg lib now) lib)
     = svc_List (NewUserService userRepo (NewAuthService userRepo cfg lib now) lib)"
  "svc_Login (NewUserService (userRepo\<lparr>repo_Create := c\<rparr>) (NewAuthService (userRepo\<lparr>repo_Create := c\<rparr>) cfg lib now) lib)
     = svc_Login (NewUserService userRepo (NewAuthService userRepo cfg lib now) lib)"
  "svc_Logout (NewUserService (userRepo\<lparr>repo_Create := c\<rparr>) (NewAuthService (userRepo\<lparr>repo_Create := c\<rparr>) cfg lib now) lib)
     = svc_Logout (NewUserService userRepo (NewAuthService userRepo cfg lib now) lib)"
  by (simp_all add: NewUserService_def NewAuthService_def services_ignore_repo_Create
      Update_ignores_repo_Create)

lemma Server_other_routes:
  assumes "route \<noteq> POST_auth_register" and "route \<noteq> POST_admin_users"
  shows "Server (userRepo\<lparr>repo_Create := c\<rparr>) cfg lib now route = Server userRepo cfg lib now route"
proof -
  have "UserHandler_Login (NewUserService (userRepo\<lparr>repo_Create := c\<rparr>) (NewAuthService (userRepo\<lparr>repo_Create := c\<rparr>) cfg lib now) lib) lib
      = UserHandler_Login (NewUserService userRepo (NewAuthService userRepo cfg lib now) lib) lib"
    unfolding UserHandler_Login_def NewUserService_ignores_repo_Create by (rule refl)
  moreover have "UserHandler_Logout (NewUserService (userRepo\<lparr>repo_Create := c\<rparr>) (NewAuthService (userRepo\<lparr>repo_Create := c\<rparr>) cfg lib now) lib)
      = UserHandler_Logout (NewUserService userRepo (NewAuthService userRepo cfg lib now) lib)"
    unfolding UserHandler_Logout_def NewUserService_ignores_repo_Create by (rule refl)
  moreover have "UserHandler_Profile (NewUserService (userRepo\<lparr>repo_Create := c\<rparr>) (NewAuthService (userRepo\<lparr>repo_Create := c\<rparr>) cfg lib now) lib)
      = UserHandler_Profile (NewUserService userRepo (NewAuthService userRepo cfg lib now) lib)"
    unfolding UserHandler_Profile_def NewUserService_ignores_repo_Create by (rule refl)
  moreover have "UserHandler_List (NewUserService (userRepo\<lparr>repo_Create := c\<rparr>) (NewAuthService (userRepo\<lparr>repo_Create := c\<rparr>) cfg lib now) lib)
      = UserHandler_List (NewUserService userRepo (NewAuthService userRepo cfg lib now) lib)"
    unfolding UserHandler_List_def NewUserService_ignores_repo_Create by (rule refl)
  moreover have "UserHandler_GetByID (NewUserService (userRepo\<lparr>repo_Create := c\<rparr>) (NewAuthService (userRepo\<lparr>repo_Create := c\<rparr>) cfg lib now) lib)
      = UserHandler_GetByID (NewUserService userRepo (NewAuthService userRepo cfg lib now) lib)"
    unfolding UserHandler_GetByID_def NewUserService_ignores_repo_Create by (rule refl)
  moreover have "UserHandler_Update (NewUserService (userRepo\<lparr>repo_Create := c\<rparr>) (NewAuthService (userRepo\<lparr>repo_Create := c\<rparr>) cfg lib now) lib) lib
      = UserHandler_Update (NewUserService userRepo (NewAuthService userRepo cfg lib now) lib) lib"
    unfolding UserHandler_Update_def NewUserService_ignores_repo_Create by (rule refl)
  moreover have "UserHandler_Delete (NewUserService (userRepo\<lparr>repo_Create := c\<rparr>) (NewAuthService (userRepo\<lparr>repo_Create := c\<rparr>) cfg lib now) lib)
      = UserHandler_Delete (NewUserService userRepo (NewAuthService userRepo cfg lib now) lib)"
    unfolding UserHandler_Delete_def NewUserService_ignores_repo_Create by (rule refl)
  ultimately show ?thesis
    using assms by (cases route) (simp_all add: Server_def SetupRoutes_def)
qed

text \<open>
  Claim C10.  Both HTTP create paths, the public \<^verbatim>\<open>POST /auth/register\<close> and the
  admin-gated \<^verbatim>\<open>POST /admin/users\<close>, end in the same create handler.  Whatever the request
  (headers, token, body), the store after the request is either the store before it, or
  the store that the repository's \<open>Create\<close> leaves when handed one account whose active
  flag is true and whose admin flag is false.  On every other route the response and the
  world do not depend on the repository's \<open>Create\<close> at all: replacing it by any other
  function changes nothing, so no other route creates an account.
\<close>

theorem http_create_never_admin:
  fixes userRepo :: "'s UserRepository" and w :: "'s World"
  shows
    "(route = POST_auth_register \<or> route = POST_admin_users \<longrightarrow>
        store (snd (Server userRepo cfg lib now route r w)) = store w \<or>
        (\<exists>user. IsActive user \<and> \<not> IsAdmin user \<and>
           store (snd (Server userRepo cfg lib now route r w)) =
             snd (repo_Create userRepo user (store w))))
   \<and> (route \<noteq> POST_auth_register \<and> route \<noteq> POST_admin_users \<longrightarrow>
        (\<forall>create. Server (userRepo\<lparr>repo_Create := create\<rparr>) cfg lib now route r w =
           Server userRepo cfg lib now route r w))"
  using Server_create_routes [of route userRepo cfg lib now r w]
    Server_other_routes [where route = route and userRepo = userRepo and cfg = cfg
      and lib = lib and now = now]
  by simp

text \<open>
  Alice, an administrator, posts Carol to \<^verbatim>\<open>/admin/users\<close>: the stored rows are Alice
  (admin), Bob and Carol (not admin).  On \<^verbatim>\<open>PUT /users/1\<close> a repository whose \<open>Create\<close>
  would store an administrator behaves like the real one.
\<close>

theorem http_create_never_admin_witness:
  "(store (snd (Server NewUserRepository ex_cfg ex_lib 1000 POST_admin_users
       (ex_bearer ''alice.jwt''\<lparr>RequestBody := ''carol.json''\<rparr>) ex_world)) = ex_db \<or>
    (\<exists>user. IsActive user \<and> \<not> IsAdmin user \<and>
       store (snd (Server NewUserRepository ex_cfg ex_lib 1000 POST_admin_users
         (ex_bearer ''alice.jwt''\<lparr>RequestBody := ''carol.json''\<rparr>) ex_world)) =
         snd (repo_Create NewUserRepository user ex_db)))
   \<and> map IsAdmin (rows (store (snd (Server NewUserRepository ex_cfg ex_lib 1000 POST_admin_users
       (ex_bearer ''alice.jwt''\<lparr>RequestBody := ''carol.json''\<rparr>) ex_world)))) =
     [True, False, False]
   \<and> Server (NewUserRepository\<lparr>repo_Create := (\<lambda>user db. (Inr user, db\<lparr>rows := [user\<lparr>IsAdmin := True\<rparr>]\<rparr>))\<rparr>)
       ex_cfg ex_lib 1000 PUT_users_id
       (ex_bearer ''alice.jwt''\<lparr>RequestBody := ''rename.json'', URLParam_id := ''1''\<rparr>) ex_world =
     Server NewUserRepository ex_cfg ex_lib 1000 PUT_users_id
       (ex_bearer ''alice.jwt''\<lparr>RequestBody := ''rename.json'', URLParam_id := ''1''\<rparr>) ex_world"
proof (intro conjI)
  show "store (snd (Server NewUserRepository ex_cfg ex_lib 1000 POST_admin_users
       (ex_bearer ''alice.jwt''\<lparr>RequestBody := ''carol.json''\<rparr>) ex_world)) = ex_db \<or>
    (\<exists>user. IsActive user \<and> \<not> IsAdmin user \<and>
       store (snd (Server NewUserRepository ex_cfg ex_lib 1000 POST_admin_users
         (ex_bearer ''alice.jwt''\<lparr>RequestBody := ''carol.json''\<rparr>) ex_world)) =
         snd (repo_Create NewUserRepository user ex_db))"
    using http_create_never_admin [of POST_admin_users NewUserRepository ex_cfg ex_lib 1000
        "ex_bearer ''alice.jwt''\<lparr>RequestBody := ''carol.json''\<rparr>" ex_world]
    by (simp add: ex_world_def)
next
  show "map IsAdmin (rows (store (snd (Server NewUserRepository ex_cfg ex_lib 1000 POST_admin_users
       (ex_bearer ''alice.jwt''\<lparr>RequestBody := ''carol.json''\<rparr>) ex_world)))) =
     [True, False, False]"
    by (simp add: Server_def SetupRoutes_def Recovery_def JWTAuth_def RequireAdmin_def
        UserHandler_Create_def NewUserService_def userService_Create_def ValidateJWT_def
        NewUserRepository_def userRepository_Create_def userRepository_ExistsByEmail_def
        userRepository_ExistsByUsername_def unique_violation_def live_def
        ex_bearer_def ex_request_def ex_world_def ex_db_def ex_lib_def ex_cfg_def ex_claims_def
        ex_alice_def ex_bob_def ex_carol_req_def Get_def HasPrefix_def TrimPrefix_def
        log_write_def Let_def)
next
  show "Server (NewUserRepository\<lparr>repo_Create := (\<lambda>user db. (Inr user, db\<lparr>rows := [user\<lparr>IsAdmin := True\<rparr>]\<rparr>))\<rparr>)
       ex_cfg ex_lib 1000 PUT_users_id
       (ex_bearer ''alice.jwt''\<lparr>RequestBody := ''rename.json'', URLParam_id := ''1''\<rparr>) ex_world =
     Server NewUserRepository ex_cfg ex_lib 1000 PUT_users_id
       (ex_bearer ''alice.jwt''\<lparr>RequestBody := ''rename.json'', URLParam_id := ''1''\<rparr>) ex_world"
    using http_create_never_admin [of PUT_users_id NewUserRepository ex_cfg ex_lib 1000
        "ex_bearer ''alice.jwt''\<lparr>RequestBody := ''rename.json'', URLParam_id := ''1''\<rparr>" ex_world]
    by simp
qed

subsection \<open>C5: a token issued for an active account validates to the same identity\<close>

text \<open>
  Claim C5.  Take an active account that the store returns under its id, a MAC scheme
  that accepts the claims it signed for this account, the token issued at \<open>t0\<close> for the
  account's id, e-mail and admin flag, and an instant \<open>t1\<close> not after the expiry
  \<open>t0 + JWT_Expiry cfg\<close>.  Then issuing succeeds, parsing the token at \<open>t1\<close> yields claims
  with the same user id, admin flag and e-mail, and \<open>ValidateToken\<close> of the authentication
  service returns the account.
\<close>

theorem token_round_trip:
  fixes userRepo :: "'s UserRepository" and w0 w1 :: "'s World"
  assumes "mac_verify lib (JWT_Secret cfg)
             (mac_sign lib (JWT_Secret cfg)
               \<lparr>claims_UserID = ID user, claims_Email = Email user, claims_IsAdmin = IsAdmin user,
                claims_ExpiresAt = t0 + JWT_Expiry cfg\<rparr>) =
           Some \<lparr>claims_UserID = ID user, claims_Email = Email user, claims_IsAdmin = IsAdmin user,
                claims_ExpiresAt = t0 + JWT_Expiry cfg\<rparr>"
    and "t1 \<le> t0 + JWT_Expiry cfg"
    and "IsActive user"
    and "repo_GetByID userRepo (ID user) (store w1) = Inr (Some user)"
  shows "\<exists>token claims.
           fst (authService_GenerateToken cfg lib t0 (ID user) (Email user) (IsAdmin user) w0) = Inr token \<and>
           ValidateJWT lib t1 token (JWT_Secret cfg) = Inr claims \<and>
           claims_UserID claims = ID user \<and> claims_IsAdmin claims = IsAdmin user \<and>
           claims_Email claims = Email user \<and>
           authService_ValidateToken userRepo cfg lib t1 token w1 = (Inr user, w1)"
  using assms
  by (simp add: authService_GenerateToken_def GenerateJWT_def ValidateJWT_def
      authService_ValidateToken_def)

text \<open>Alice's token, issued at 1000 with a lifetime of 3600, validated at 4600.\<close>

theorem token_round_trip_witness:
  "\<exists>token claims.
     fst (authService_GenerateToken ex_cfg ex_lib 1000 (ID ex_alice) (Email ex_alice) (IsAdmin ex_alice) ex_world) = Inr token \<and>
     ValidateJWT ex_lib 4600 token (JWT_Secret ex_cfg) = Inr claims \<and>
     claims_UserID claims = 1 \<and> claims_IsAdmin claims = True \<and>
     claims_Email claims = ''alice@example.com'' \<and>
     authService_ValidateToken NewUserRepository ex_cfg ex_lib 4600 token ex_world = (Inr ex_alice, ex_world)"
proof -
  have m: "mac_verify ex_lib (JWT_Secret ex_cfg)
             (mac_sign ex_lib (JWT_Secret ex_cfg)
               \<lparr>claims_UserID = ID ex_alice, claims_Email = Email ex_alice, claims_IsAdmin = IsAdmin ex_alice,
                claims_ExpiresAt = 1000 + JWT_Expiry ex_cfg\<rparr>) =
           Some \<lparr>claims_UserID = ID ex_alice, claims_Email = Email ex_alice, claims_IsAdmin = IsAdmin ex_alice,
                claims_ExpiresAt = 1000 + JWT_Expiry ex_cfg\<rparr>"
    by (simp add: ex_lib_def ex_cfg_def ex_claims_def)
  have t: "(4600 :: int) \<le> 1000 + JWT_Expiry ex_cfg"
    by (simp add: ex_cfg_def)
  have a: "IsActive ex_alice"
    by (simp add: ex_alice_def)
  have g: "repo_GetByID NewUserRepository (ID ex_alice) (store ex_world) = Inr (Some ex_alice)"
    by (simp add: NewUserRepository_def userRepository_GetByID_def ex_world_def ex_db_def
        ex_alice_def ex_bob_def live_def)
  show ?thesis
    using token_round_trip [OF m t a g, of ex_world]
    by (simp add: ex_alice_def)
qed

subsection \<open>C1: the gate does not consult the store\<close>

text \<open>
  Claim C1 says that a request bearing a token with a valid signature whose account is
  deactivated or deleted never passes the gate.  \<open>JWTAuth\<close> takes the secret only and has
  no repository to ask; \<open>authService_ValidateToken\<close>, which looks the account up ``to ensure
  they still exist and are active'', is not called on any route.  On the example store
  Bob is deactivated and holds an unexpired token: \<open>ValidateToken\<close> rejects it, and
  \<^verbatim>\<open>GET /users/1\<close> with that token answers 200 with Alice's account.  The same holds when
  Bob's row is soft-deleted.
\<close>

theorem gate_passes_deactivated_account:
  "fst (authService_ValidateToken NewUserRepository ex_cfg ex_lib 1000 ''bob.jwt'' ex_world) =
     Inl ''user account is deactivated''
   \<and> fst (Server NewUserRepository ex_cfg ex_lib 1000 GET_users_id
           (ex_bearer ''bob.jwt''\<lparr>URLParam_id := ''1''\<rparr>) ex_world) =
     Inr (WriteSuccessResponse StatusOK ''User retrieved successfully''
            (Some (UserData (ToResponse ex_alice))))
   \<and> fst (authService_ValidateToken NewUserRepository ex_cfg ex_lib 1000 ''bob.jwt''
           (ex_world\<lparr>store := ex_db\<lparr>rows := [ex_alice, ex_bob\<lparr>DeletedAt := Some 900\<rparr>]\<rparr>\<rparr>)) =
     Inl ''user not found''
   \<and> fst (Server NewUserRepository ex_cfg ex_lib 1000 GET_users_id
           (ex_bearer ''bob.jwt''\<lparr>URLParam_id := ''1''\<rparr>)
           (ex_world\<lparr>store := ex_db\<lparr>rows := [ex_alice, ex_bob\<lparr>DeletedAt := Some 900\<rparr>]\<rparr>\<rparr>)) =
     Inr (WriteSuccessResponse StatusOK ''User retrieved successfully''
            (Some (UserData (ToResponse ex_alice))))"
proof (intro conjI)
  show "fst (authService_ValidateToken NewUserRepository ex_cfg ex_lib 1000 ''bob.jwt'' ex_world) =
     Inl ''user account is deactivated''"
    by (simp add: authService_ValidateToken_def ValidateJWT_def NewUserRepository_def
        userRepository_GetByID_def ex_cfg_def ex_lib_def ex_claims_def ex_world_def ex_db_def
        ex_alice_def ex_bob_def live_def)
next
  show "fst (authService_ValidateToken NewUserRepository ex_cfg ex_lib 1000 ''bob.jwt''
           (ex_world\<lparr>store := ex_db\<lparr>rows := [ex_alice, ex_bob\<lparr>DeletedAt := Some 900\<rparr>]\<rparr>\<rparr>)) =
     Inl ''user not found''"
    by (simp add: authService_ValidateToken_def ValidateJWT_def NewUserRepository_def
        userRepository_GetByID_def ex_cfg_def ex_lib_def ex_claims_def ex_world_def ex_db_def
        ex_alice_def ex_bob_def live_def)
next
  have p: "ParseUint32 ''1'' = Inr 1"
    by (simp add: ParseUint32_def is_digit_def)
  show "fst (Server NewUserRepository ex_cfg ex_lib 1000 GET_users_id
           (ex_bearer ''bob.jwt''\<lparr>URLParam_id := ''1''\<rparr>) ex_world) =
     Inr (WriteSuccessResponse StatusOK ''User retrieved successfully''
            (Some (UserData (ToResponse ex_alice))))"
    using p
    by (simp add: Server_def SetupRoutes_def Recovery_def JWTAuth_def
        UserHandler_GetByID_def NewUserService_def userService_GetByID_def ValidateJWT_def
        NewUserRepository_def userRepository_GetByID_def live_def
        ex_bearer_def ex_request_def ex_world_def ex_db_def ex_lib_def ex_cfg_def ex_claims_def
        ex_alice_def ex_bob_def Get_def HasPrefix_def TrimPrefix_def Let_def)
  show "fst (Server NewUserRepository ex_cfg ex_lib 1000 GET_users_id
           (ex_bearer ''bob.jwt''\<lparr>URLParam_id := ''1''\<rparr>)
           (ex_world\<lparr>store := ex_db\<lparr>rows := [ex_alice, ex_bob\<lparr>DeletedAt := Some 900\<rparr>]\<rparr>\<rparr>)) =
     Inr (WriteSuccessResponse StatusOK ''User retrieved successfully''
            (Some (UserData (ToResponse ex_alice))))"
    using p
    by (simp add: Server_def SetupRoutes_def Recovery_def JWTAuth_def
        UserHandler_GetByID_def NewUserService_def userService_GetByID_def ValidateJWT_def
        NewUserRepository_def userRepository_GetByID_def live_def
        ex_bearer_def ex_request_def ex_world_def ex_db_def ex_lib_def ex_cfg_def ex_claims_def
        ex_alice_def ex_bob_def Get_def HasPrefix_def TrimPrefix_def Let_def)
qed

subsection \<open>C8: the offset of a list request and the page count\<close>

text \<open>
  Arithmetic on \<^verbatim>\<open>int\<close> and \<^verbatim>\<open>int64\<close> is exact as long as the result fits 64 bits.
\<close>

lemma sint_word_of_int64:
  "- (2 ^ 63) \<le> k \<Longrightarrow> k < 2 ^ 63 \<Longrightarrow> sint (word_of_int k :: 64 word) = k"
  by (simp add: sint_sbintrunc' signed_take_bit_int_eq_self)

lemma List_offset_exact:
  fixes page limit :: "64 word"
  assumes "1 \<le> sint page" and "1 \<le> sint limit" and "(sint page - 1) * sint limit < 2 ^ 63"
  shows "(page - 1) * limit = word_of_int ((sint page - 1) * sint limit)"
    and "sint ((page - 1) * limit) = (sint page - 1) * sint limit"
proof -
  have "(page - 1) * limit = (word_of_int (sint page) - 1) * word_of_int (sint limit)"
    by simp
  also have "\<dots> = word_of_int ((sint page - 1) * sint limit)"
    by (simp only: of_int_mult of_int_diff of_int_1)
  finally show e: "(page - 1) * limit = word_of_int ((sint page - 1) * sint limit)" .
  have nn: "- (2 ^ 63) \<le> (sint page - 1) * sint limit"
  proof -
    have "0 \<le> (sint page - 1) * sint limit"
      using assms(1,2) by simp
    moreover have "- (2 ^ 63) \<le> (0 :: int)"
      by simp
    ultimately show ?thesis by (rule order_trans [rotated])
  qed
  have "sint ((page - 1) * limit) = sint (word_of_int ((sint page - 1) * sint limit) :: 64 word)"
    by (simp only: e)
  also have "\<dots> = (sint page - 1) * sint limit"
    using nn assms(3) by (rule sint_word_of_int64)
  finally show "sint ((page - 1) * limit) = (sint page - 1) * sint limit" .
qed

lemma ceil_div_int:
  fixes a b :: int
  assumes "0 < b"
  shows "(a + b - 1) div b = - (- a div b)"
proof -
  define q where "q = - a div b"
  define r where "r = - a mod b"
  have r: "0 \<le> r" "r < b"
    using assms by (simp_all add: r_def)
  have "- a = q * b + r"
    by (simp add: q_def r_def)
  then have eq: "a + b - 1 = (b - 1 - r) + (- q) * b"
    by (simp add: algebra_simps)
  have "(a + b - 1) div b = ((b - 1 - r) + (- q) * b) div b"
    by (simp only: eq)
  also have "\<dots> = - q + (b - 1 - r) div b"
    using assms by (subst div_mult_self1) simp_all
  also have "(b - 1 - r) div b = 0"
    using r by (intro div_pos_pos_trivial) simp_all
  finally show ?thesis
    by (simp add: q_def)
qed

lemma go_div_ceiling:
  fixes t l :: "64 word"
  assumes "0 \<le> sint t" and "1 \<le> sint l" and "sint t + sint l - 1 < 2 ^ 63"
  shows "sint (go_div (t + l - 1) l) = \<lceil>real_of_int (sint t) / real_of_int (sint l)\<rceil>"
proof -
  have "t + l - 1 = word_of_int (sint t) + word_of_int (sint l) - 1"
    by simp
  also have "\<dots> = word_of_int (sint t + sint l - 1)"
    by (simp only: of_int_add of_int_diff of_int_1)
  finally have e: "t + l - 1 = word_of_int (sint t + sint l - 1)" .
  have nn: "0 \<le> sint t + sint l - 1" and pos: "0 < sint l"
    using assms by linarith+
  have "sint (t + l - 1) = sint (word_of_int (sint t + sint l - 1) :: 64 word)"
    by (simp only: e)
  also have "\<dots> = sint t + sint l - 1"
    by (rule sint_word_of_int64) (use nn assms(3) in linarith)+
  finally have s: "sint (t + l - 1) = sint t + sint l - 1" .
  have q: "(sint t + sint l - 1) sdiv sint l = (sint t + sint l - 1) div sint l"
    using nn pos by (simp add: signed_divide_int_def sgn_if)
  have b1: "0 \<le> (sint t + sint l - 1) div sint l"
    using nn pos by (simp add: pos_imp_zdiv_nonneg_iff)
  have b2: "(sint t + sint l - 1) div sint l \<le> sint t + sint l - 1"
    using zdiv_mono2 [of "sint t + sint l - 1" 1 "sint l"] nn pos by simp
  have "sint (go_div (t + l - 1) l) = sint (word_of_int ((sint t + sint l - 1) div sint l) :: 64 word)"
    by (simp only: go_div_def s q)
  also have "\<dots> = (sint t + sint l - 1) div sint l"
    by (rule sint_word_of_int64) (use b1 b2 assms(3) in linarith)+
  also have "\<dots> = - (- sint t div sint l)"
    using pos by (rule ceil_div_int)
  finally show ?thesis
    by (simp only: ceiling_divide_eq_div)
qed

text \<open>
  Claim C8, as amended.  For a page \<open>p \<ge> 1\<close> and a limit \<open>l \<ge> 1\<close> whose product
  \<open>(p - 1) * l\<close> is below \<open>2 ^ 63\<close>, the list operation queries the store with the limit \<open>l\<close>
  and the offset \<open>(p - 1) * l\<close>: its result is what the store returns there (an error of
  the store is wrapped; the users are returned with the count).  For a count
  \<open>total \<ge> 0\<close> with \<open>total + l - 1\<close> below \<open>2 ^ 63\<close>, the paginated response carries the data,
  the total, the page and the limit, and reports \<open>\<lceil>total / l\<rceil>\<close> pages.
\<close>

theorem List_offset_and_total_pages:
  fixes userRepo :: "'s UserRepository" and page limit total' :: "64 word" and w :: "'s World"
  assumes "1 \<le> sint page" and "1 \<le> sint limit"
  shows
    "((sint page - 1) * sint limit < 2 ^ 63 \<longrightarrow>
        (\<exists>offset.
           sint offset = (sint page - 1) * sint limit \<and>
           (\<forall>err. repo_List userRepo limit offset (store w) = Inl err \<longrightarrow>
              fst (userService_List userRepo page limit w) = Inl (''failed to list users: '' @ err)) \<and>
           (\<forall>users n. repo_List userRepo limit offset (store w) = Inr users \<and>
              repo_Count userRepo (store w) = Inr n \<longrightarrow>
              userService_List userRepo page limit w = (Inr (map ToResponse users, n), w))))
   \<and> (0 \<le> sint total' \<and> sint total' + sint limit - 1 < 2 ^ 63 \<longrightarrow>
        (\<exists>pagination.
           WritePaginatedResponse statusCode message d total' page limit =
             Inr \<lparr>StatusCode = statusCode,
                  Body = \<lparr>api_Success = True, api_Message = message,
                          api_Data = Some (PageData pagination), api_Error = None\<rparr>\<rparr> \<and>
           page_Data pagination = d \<and> page_Total pagination = total' \<and>
           page_Page pagination = page \<and> page_Limit pagination = limit \<and>
           sint (page_TotalPages pagination) =
             \<lceil>real_of_int (sint total') / real_of_int (sint limit)\<rceil>))"
proof (intro conjI impI)
  assume b: "(sint page - 1) * sint limit < 2 ^ 63"
  have s: "sint ((page - 1) * limit) = (sint page - 1) * sint limit"
    using assms b by (rule List_offset_exact(2))
  have "(\<forall>err. repo_List userRepo limit ((page - 1) * limit) (store w) = Inl err \<longrightarrow>
              fst (userService_List userRepo page limit w) = Inl (''failed to list users: '' @ err)) \<and>
           (\<forall>users n. repo_List userRepo limit ((page - 1) * limit) (store w) = Inr users \<and>
              repo_Count userRepo (store w) = Inr n \<longrightarrow>
              userService_List userRepo page limit w = (Inr (map ToResponse users, n), w))"
    by (simp add: userService_List_def)
  with s show "\<exists>offset.
           sint offset = (sint page - 1) * sint limit \<and>
           (\<forall>err. repo_List userRepo limit offset (store w) = Inl err \<longrightarrow>
              fst (userService_List userRepo page limit w) = Inl (''failed to list users: '' @ err)) \<and>
           (\<forall>users n. repo_List userRepo limit offset (store w) = Inr users \<and>
              repo_Count userRepo (store w) = Inr n \<longrightarrow>
              userService_List userRepo page limit w = (Inr (map ToResponse users, n), w))"
    by blast
next
  assume t: "0 \<le> sint total' \<and> sint total' + sint limit - 1 < 2 ^ 63"
  have nz: "limit \<noteq> 0"
    using assms(2) by auto
  have c: "sint (go_div (total' + limit - 1) limit) =
      \<lceil>real_of_int (sint total') / real_of_int (sint limit)\<rceil>"
    using t assms(2) by (intro go_div_ceiling) simp_all
  define pagination where "pagination =
    \<lparr>page_Data = d, page_Total = total', page_Page = page, page_Limit = limit,
     page_TotalPages = go_div (total' + limit - 1) limit\<rparr>"
  have "WritePaginatedResponse statusCode message d total' page limit =
      Inr \<lparr>StatusCode = statusCode,
           Body = \<lparr>api_Success = True, api_Message = message,
                   api_Data = Some (PageData pagination), api_Error = None\<rparr>\<rparr>"
    using nz by (simp add: WritePaginatedResponse_def WriteJSONResponse_def pagination_def Let_def)
  moreover have "page_Data pagination = d \<and> page_Total pagination = total' \<and>
      page_Page pagination = page \<and> page_Limit pagination = limit"
    by (simp add: pagination_def)
  moreover have "sint (page_TotalPages pagination) =
      \<lceil>real_of_int (sint total') / real_of_int (sint limit)\<rceil>"
    using c by (simp only: pagination_def PaginationResponse.simps)
  ultimately show "\<exists>pagination.
           WritePaginatedResponse statusCode message d total' page limit =
             Inr \<lparr>StatusCode = statusCode,
                  Body = \<lparr>api_Success = True, api_Message = message,
                          api_Data = Some (PageData pagination), api_Error = None\<rparr>\<rparr> \<and>
           page_Data pagination = d \<and> page_Total pagination = total' \<and>
           page_Page pagination = page \<and> page_Limit pagination = limit \<and>
           sint (page_TotalPages pagination) =
             \<lceil>real_of_int (sint total') / real_of_int (sint limit)\<rceil>"
    by blast
qed

text \<open>
  Page 2 with limit 10 queries offset 10; a total of 25 with limit 10 gives 3 pages.
\<close>

theorem List_offset_and_total_pages_witness:
  "(\<exists>offset :: 64 word.
      sint offset = 10 \<and>
      (\<forall>users n. repo_List NewUserRepository 10 offset ex_db = Inr users \<and>
         repo_Count NewUserRepository ex_db = Inr n \<longrightarrow>
         userService_List NewUserRepository 2 10 ex_world = (Inr (map ToResponse users, n), ex_world)))
   \<and> (\<exists>pagination.
        WritePaginatedResponse StatusOK ''Users retrieved successfully'' [] 25 2 10 =
          Inr \<lparr>StatusCode = StatusOK,
               Body = \<lparr>api_Success = True, api_Message = ''Users retrieved successfully'',
                       api_Data = Some (PageData pagination), api_Error = None\<rparr>\<rparr> \<and>
        sint (page_TotalPages pagination) = 3)"
proof -
  have p: "1 \<le> sint (2 :: 64 word)" and l: "1 \<le> sint (10 :: 64 word)"
    by simp_all
  have c: "\<lceil>real_of_int (sint (25 :: 64 word)) / real_of_int (sint (10 :: 64 word))\<rceil> = 3"
    by simp
  show ?thesis
    using List_offset_and_total_pages [OF p l, of NewUserRepository ex_world 25 StatusOK
        "''Users retrieved successfully''" "[]"] c
    by (simp add: ex_world_def) blast
qed

text \<open>
  Claim C8 as stated (every \<open>p \<ge> 1\<close>, \<open>l \<ge> 1\<close>) fails where the product leaves the range
  of \<^verbatim>\<open>int\<close>.  The handler accepts \<^verbatim>\<open>?page=4611686018427387905&limit=4\<close>; here
  \<open>(p - 1) * l = 2 ^ 64\<close>, the offset the code computes is 0, and the request is answered
  with the first page: the two accounts of the example store.
\<close>

theorem List_offset_wraps_around:
  "List_page (ex_request\<lparr>Query := [(''page'', ''4611686018427387905''), (''limit'', ''4'')]\<rparr>) =
     4611686018427387905
   \<and> List_limit (ex_request\<lparr>Query := [(''page'', ''4611686018427387905''), (''limit'', ''4'')]\<rparr>) = 4
   \<and> (sint (4611686018427387905 :: 64 word) - 1) * sint (4 :: 64 word) = 18446744073709551616
   \<and> userService_List NewUserRepository 4611686018427387905 4 ex_world =
       userService_List NewUserRepository 1 4 ex_world
   \<and> fst (userService_List NewUserRepository 4611686018427387905 4 ex_world) =
       Inr ([ToResponse ex_bob, ToResponse ex_alice], 2)"
proof (intro conjI)
  have d: "decimal 0 ''4611686018427387905'' = Some 4611686018427387905"
    by (simp add: is_digit_def)
  show "List_page (ex_request\<lparr>Query := [(''page'', ''4611686018427387905''), (''limit'', ''4'')]\<rparr>) =
     4611686018427387905"
    using d by (simp add: List_page_def Get_def Atoi_def ex_request_def)
  show "List_limit (ex_request\<lparr>Query := [(''page'', ''4611686018427387905''), (''limit'', ''4'')]\<rparr>) = 4"
    by (simp add: List_limit_def Get_def Atoi_def ex_request_def is_digit_def)
  show "(sint (4611686018427387905 :: 64 word) - 1) * sint (4 :: 64 word) = 18446744073709551616"
    by simp
  have z: "(4611686018427387905 - 1) * 4 = (0 :: 64 word)" "(1 - 1) * 4 = (0 :: 64 word)"
    by simp_all
  show e: "userService_List NewUserRepository 4611686018427387905 4 ex_world =
       userService_List NewUserRepository 1 4 ex_world"
    by (simp only: userService_List_def Let_def z)
  have "fst (userService_List NewUserRepository 1 4 ex_world) =
       Inr ([ToResponse ex_bob, ToResponse ex_alice], 2)"
    by (simp add: userService_List_def NewUserRepository_def userRepository_List_def
        userRepository_Count_def ex_world_def ex_db_def ex_alice_def ex_bob_def live_def)
  then show "fst (userService_List NewUserRepository 4611686018427387905 4 ex_world) =
       Inr ([ToResponse ex_bob, ToResponse ex_alice], 2)"
    by (simp only: e)
qed

subsection \<open>C7: update merges the provided fields and re-checks uniqueness only on change\<close>





lemma Update_username_result:
  fixes userRepo :: "'s UserRepository"
  assumes "\<forall>username. update_Username req = Some username \<and> username \<noteq> Username u \<longrightarrow>
      repo_ExistsByUsername userRepo username (store w) = Inr False"
  shows "userService_Update_username userRepo id' req u w =
      userService_Update_save userRepo id' req
        (u\<lparr>Username := (case update_Username req of None \<Rightarrow> Username u | Some v \<Rightarrow> v)\<rparr>) w"
proof (cases "update_Username req")
  case None
  then show ?thesis by (simp add: userService_Update_username_def)
next
  case (Some username)
  show ?thesis
  proof (cases "username = Username u")
    case True
    with Some show ?thesis by (simp add: userService_Update_username_def)
  next
    case False
    with Some assms have "repo_ExistsByUsername userRepo username (store w) = Inr False"
      by simp
    with Some False show ?thesis by (simp add: userService_Update_username_def)
  qed
qed

lemma Update_result:
  fixes userRepo :: "'s UserRepository"
  assumes "repo_GetByID userRepo id' (store w) = Inr (Some user)"
    and "\<forall>email. update_Email req = Some email \<and> email \<noteq> Email user \<longrightarrow>
      repo_ExistsByEmail userRepo email (store w) = Inr False"
    and "\<forall>username. update_Username req = Some username \<and> username \<noteq> Username user \<longrightarrow>
      repo_ExistsByUsername userRepo username (store w) = Inr False"
  shows "userService_Update userRepo id' req w =
      userService_Update_save userRepo id' req
        (user\<lparr>Email := (case update_Email req of None \<Rightarrow> Email user | Some v \<Rightarrow> v),
              Username := (case update_Username req of None \<Rightarrow> Username user | Some v \<Rightarrow> v)\<rparr>) w"
proof -
  have u: "userService_Update_username userRepo id' req u w =
      userService_Update_save userRepo id' req
        (u\<lparr>Username := (case update_Username req of None \<Rightarrow> Username u | Some v \<Rightarrow> v)\<rparr>) w"
    if "Username u = Username user" for u
    using assms(3) that by (intro Update_username_result) simp
  show ?thesis
  proof (cases "update_Email req")
    case None
    with assms(1) show ?thesis
      by (simp add: userService_Update_def u)
  next
    case (Some email)
    show ?thesis
    proof (cases "email = Email user")
      case True
      with Some assms(1) show ?thesis
        by (simp add: userService_Update_def u)
    next
      case False
      with Some assms(2) have "repo_ExistsByEmail userRepo email (store w) = Inr False"
        by simp
      with Some False assms(1) show ?thesis
        by (simp add: userService_Update_def u cong: option.case_cong)
    qed
  qed
qed





subsection \<open>C6: what the handlers answer when the store fails\<close>

text \<open>
  The service's \<open>Update\<close> when the save fails, and when the username check fails after the
  e-mail block has passed.
\<close>

lemma Update_save_failure:
  fixes userRepo :: "'s UserRepository"
  assumes "repo_Update userRepo
      (u\<lparr>FirstName := (case update_FirstName req of None \<Rightarrow> FirstName u | Some v \<Rightarrow> v),
         LastName := (case update_LastName req of None \<Rightarrow> LastName u | Some v \<Rightarrow> v),
         IsActive := (case update_IsActive req of None \<Rightarrow> IsActive u | Some v \<Rightarrow> v)\<rparr>)
      (store w) = (Inl err, s')"
  shows "userService_Update_save userRepo id' req u w =
      (Inl (''failed to update user: '' @ err),
       log_Error [(''error'', FErr err), (''user_id'', FUint id')] ''Failed to update user''
         (w\<lparr>store := s'\<rparr>))"
  using assms
  by (cases "update_FirstName req"; cases "update_LastName req"; cases "update_IsActive req")
     (simp_all add: userService_Update_save_def Let_def)

lemma Update_username_failure:
  fixes userRepo :: "'s UserRepository"
  assumes "repo_GetByID userRepo id' (store w) = Inr (Some user)"
    and "\<forall>email. update_Email req = Some email \<and> email \<noteq> Email user \<longrightarrow>
      repo_ExistsByEmail userRepo email (store w) = Inr False"
    and "update_Username req = Some username" and "username \<noteq> Username user"
    and "repo_ExistsByUsername userRepo username (store w) = Inl err"
  shows "userService_Update userRepo id' req w =
      (Inl (''failed to check username availability: '' @ err), w)"
proof -
  have u: "userService_Update_username userRepo id' req u w =
      (Inl (''failed to check username availability: '' @ err), w)"
    if "Username u = Username user" for u
    using assms(3,4,5) that by (simp add: userService_Update_username_def)
  show ?thesis
  proof (cases "update_Email req")
    case None
    with assms(1) show ?thesis
      by (simp add: userService_Update_def u)
  next
    case (Some email)
    show ?thesis
    proof (cases "email = Email user")
      case True
      with Some assms(1) show ?thesis
        by (simp add: userService_Update_def u)
    next
      case False
      with Some assms(2) have "repo_ExistsByEmail userRepo email (store w) = Inr False"
        by simp
      with Some False assms(1) show ?thesis
        by (simp add: userService_Update_def u)
    qed
  qed
qed

text \<open>
  Claim C6, as amended.  The claim says that every handler answers a failure of the store
  with status 500 and a generic message.  Every handler of \<^verbatim>\<open>UserHandler\<close> answers an error of
  the service with one fixed status, and all but \<open>List\<close> put the text of the error in the
  message; the service wraps the error of the store in a prefix and returns it.  The
  theorem goes through every call the services built by \<open>NewUserService\<close> make to the
  repository, in the order of the source, and gives the whole result of the handler (the
  response and the world, with the entries logged) when that call fails with \<open>err\<close> and
  the calls before it succeed:
  \<^item> \<open>List\<close>: \<open>List\<close> or \<open>Count\<close> of the store fails: 500 with the message
    \<^verbatim>\<open>Failed to retrieve users\<close> and no detail;
  \<^item> \<open>Create\<close>: 400 with \<^verbatim>\<open>failed to check user existence: \<close> (e-mail check),
    \<^verbatim>\<open>failed to check username availability: \<close> (username check) or
    \<^verbatim>\<open>failed to create user: \<close> (insert), followed by \<open>err\<close>;
  \<^item> \<open>GetByID\<close> and \<open>Profile\<close>: 404 with \<^verbatim>\<open>failed to get user: \<close> followed by \<open>err\<close>;
  \<^item> \<open>Update\<close>, by the owner or an administrator with a valid body: 400 with
    \<^verbatim>\<open>failed to get user: \<close> (lookup), \<^verbatim>\<open>failed to check email availability: \<close>,
    \<^verbatim>\<open>failed to check username availability: \<close> (the checks made for a changed value) or
    \<^verbatim>\<open>failed to update user: \<close> (save), followed by \<open>err\<close>;
  \<^item> \<open>Delete\<close>, by the owner or an administrator: 400 with \<^verbatim>\<open>failed to get user: \<close> (lookup)
    or \<^verbatim>\<open>failed to delete user: \<close> (delete), followed by \<open>err\<close>;
  \<^item> \<open>Login\<close>: 401 with \<^verbatim>\<open>failed to authenticate: \<close> followed by \<open>err\<close> when the lookup by
    e-mail fails; when the last-login stamp fails the request succeeds, 200 with the token;
  \<^item> \<open>Logout\<close> does not depend on the repository.

  In each failing case the handler logs the message it sends, at error level (warning
  level for \<open>Login\<close>), and the service logs \<open>err\<close> itself before that, except for the two
  checks of \<open>Update\<close>, where the handler's entry is the only one.  A failed stamp is logged
  by the service as a warning.
\<close>

theorem handlers_on_store_failure:
  fixes userRepo :: "'s UserRepository" and w :: "'s World"
  assumes "userService = NewUserService userRepo authSvc lib"
  shows
    "(\<forall>err.
        repo_List userRepo (List_limit r) ((List_page r - 1) * List_limit r) (store w) = Inl err \<longrightarrow>
        UserHandler_List userService r w =
          (Inr \<lparr>StatusCode = 500,
               Body = \<lparr>api_Success = False, api_Message = ''Failed to retrieve users'',
                       api_Data = None, api_Error = None\<rparr>\<rparr>,
           log_Error [(''error'', FErr (''failed to list users: '' @ err))] ''Failed to list users''
             (log_Error [(''error'', FErr err)] ''Failed to list users'' w)))
   \<and> (\<forall>users err.
        repo_List userRepo (List_limit r) ((List_page r - 1) * List_limit r) (store w) = Inr users \<and>
        repo_Count userRepo (store w) = Inl err \<longrightarrow>
        UserHandler_List userService r w =
          (Inr \<lparr>StatusCode = 500,
               Body = \<lparr>api_Success = False, api_Message = ''Failed to retrieve users'',
                       api_Data = None, api_Error = None\<rparr>\<rparr>,
           log_Error [(''error'', FErr (''failed to count users: '' @ err))] ''Failed to list users''
             (log_Error [(''error'', FErr err)] ''Failed to count users'' w)))
   \<and> (\<forall>req err.
        json_Decode_create lib (RequestBody r) = Inr req \<and> validator_Struct_create lib req = None \<and>
        repo_ExistsByEmail userRepo (create_Email req) (store w) = Inl err \<longrightarrow>
        UserHandler_Create userService lib r w =
          (Inr \<lparr>StatusCode = 400,
               Body = \<lparr>api_Success = False, api_Message = ''failed to check user existence: '' @ err,
                       api_Data = None, api_Error = None\<rparr>\<rparr>,
           log_Error [(''error'', FErr (''failed to check user existence: '' @ err))] ''Failed to create user''
             (log_Error [(''error'', FErr err)] ''Failed to check if user exists by email'' w)))
   \<and> (\<forall>req err.
        json_Decode_create lib (RequestBody r) = Inr req \<and> validator_Struct_create lib req = None \<and>
        repo_ExistsByEmail userRepo (create_Email req) (store w) = Inr False \<and>
        repo_ExistsByUsername userRepo (create_Username req) (store w) = Inl err \<longrightarrow>
        UserHandler_Create userService lib r w =
          (Inr \<lparr>StatusCode = 400,
               Body = \<lparr>api_Success = False, api_Message = ''failed to check username availability: '' @ err,
                       api_Data = None, api_Error = None\<rparr>\<rparr>,
           log_Error [(''error'', FErr (''failed to check username availability: '' @ err))] ''Failed to create user''
             (log_Error [(''error'', FErr err)] ''Failed to check if user exists by username'' w)))
   \<and> (\<forall>req hashedPassword err s'.
        json_Decode_create lib (RequestBody r) = Inr req \<and> validator_Struct_create lib req = None \<and>
        repo_ExistsByEmail userRepo (create_Email req) (store w) = Inr False \<and>
        repo_ExistsByUsername userRepo (create_Username req) (store w) = Inr False \<and>
        bcrypt_GenerateFromPassword lib (create_Password req) = Inr hashedPassword \<and>
        repo_Create userRepo
             \<lparr>ID = 0, Email = create_Email req, Username = create_Username req,
              Password = hashedPassword, FirstName = create_FirstName req,
              LastName = create_LastName req, IsActive = True, IsAdmin = False,
              LastLogin = None, CreatedAt = 0, UpdatedAt = 0, DeletedAt = None\<rparr>
             (store w) = (Inl err, s') \<longrightarrow>
        UserHandler_Create userService lib r w =
          (Inr \<lparr>StatusCode = 400,
               Body = \<lparr>api_Success = False, api_Message = ''failed to create user: '' @ err,
                       api_Data = None, api_Error = None\<rparr>\<rparr>,
           log_Error [(''error'', FErr (''failed to create user: '' @ err))] ''Failed to create user''
             (log_Error [(''error'', FErr err)] ''Failed to create user'' (w\<lparr>store := s'\<rparr>))))
   \<and> (\<forall>id' err.
        ParseUint32 (URLParam_id r) = Inr id' \<and> repo_GetByID userRepo id' (store w) = Inl err \<longrightarrow>
        UserHandler_GetByID userService r w =
          (Inr \<lparr>StatusCode = 404,
               Body = \<lparr>api_Success = False, api_Message = ''failed to get user: '' @ err,
                       api_Data = None, api_Error = None\<rparr>\<rparr>,
           log_Error [(''error'', FErr (''failed to get user: '' @ err)), (''user_id'', FUint id')]
             ''Failed to get user''
             (log_Error [(''error'', FErr err), (''user_id'', FUint id')] ''Failed to get user by ID'' w)))
   \<and> (\<forall>userID err.
        UserIDKey (Context r) = Some userID \<and> repo_GetByID userRepo userID (store w) = Inl err \<longrightarrow>
        UserHandler_Profile userService r w =
          (Inr \<lparr>StatusCode = 404,
               Body = \<lparr>api_Success = False, api_Message = ''failed to get user: '' @ err,
                       api_Data = None, api_Error = None\<rparr>\<rparr>,
           log_Error [(''error'', FErr (''failed to get user: '' @ err)), (''user_id'', FUint userID)]
             ''Failed to get user profile''
             (log_Error [(''error'', FErr err), (''user_id'', FUint userID)] ''Failed to get user by ID'' w)))
   \<and> (\<forall>id' req err.
        ParseUint32 (URLParam_id r) = Inr id' \<and>
        (fst (GetUserIDFromContext (Context r)) = id' \<or> fst (GetIsAdminFromContext (Context r))) \<and>
        json_Decode_update lib (RequestBody r) = Inr req \<and> validator_Struct_update lib req = None \<and>
        repo_GetByID userRepo id' (store w) = Inl err \<longrightarrow>
        UserHandler_Update userService lib r w =
          (Inr \<lparr>StatusCode = 400,
               Body = \<lparr>api_Success = False, api_Message = ''failed to get user: '' @ err,
                       api_Data = None, api_Error = None\<rparr>\<rparr>,
           log_Error [(''error'', FErr (''failed to get user: '' @ err)), (''user_id'', FUint id')]
             ''Failed to update user''
             (log_Error [(''error'', FErr err), (''user_id'', FUint id')]
                ''Failed to get user for update'' w)))
   \<and> (\<forall>id' req user email err.
        ParseUint32 (URLParam_id r) = Inr id' \<and>
        (fst (GetUserIDFromContext (Context r)) = id' \<or> fst (GetIsAdminFromContext (Context r))) \<and>
        json_Decode_update lib (RequestBody r) = Inr req \<and> validator_Struct_update lib req = None \<and>
        repo_GetByID userRepo id' (store w) = Inr (Some user) \<and>
        update_Email req = Some email \<and> email \<noteq> Email user \<and>
        repo_ExistsByEmail userRepo email (store w) = Inl err \<longrightarrow>
        UserHandler_Update userService lib r w =
          (Inr \<lparr>StatusCode = 400,
               Body = \<lparr>api_Success = False, api_Message = ''failed to check email availability: '' @ err,
                       api_Data = None, api_Error = None\<rparr>\<rparr>,
           log_Error [(''error'', FErr (''failed to check email availability: '' @ err)),
                        (''user_id'', FUint id')]
             ''Failed to update user'' w))
   \<and> (\<forall>id' req user username err.
        ParseUint32 (URLParam_id r) = Inr id' \<and>
        (fst (GetUserIDFromContext (Context r)) = id' \<or> fst (GetIsAdminFromContext (Context r))) \<and>
        json_Decode_update lib (RequestBody r) = Inr req \<and> validator_Struct_update lib req = None \<and>
        repo_GetByID userRepo id' (store w) = Inr (Some user) \<and>
        (\<forall>email. update_Email req = Some email \<and> email \<noteq> Email user \<longrightarrow>
           repo_ExistsByEmail userRepo email (store w) = Inr False) \<and>
        update_Username req = Some username \<and> username \<noteq> Username user \<and>
        repo_ExistsByUsername userRepo username (store w) = Inl err \<longrightarrow>
        UserHandler_Update userService lib r w =
          (Inr \<lparr>StatusCode = 400,
               Body = \<lparr>api_Success = False, api_Message = ''failed to check username availability: '' @ err,
                       api_Data = None, api_Error = None\<rparr>\<rparr>,
           log_Error [(''error'', FErr (''failed to check username availability: '' @ err)),
                        (''user_id'', FUint id')]
             ''Failed to update user'' w))
   \<and> (\<forall>id' req user err s'.
        ParseUint32 (URLParam_id r) = Inr id' \<and>
        (fst (GetUserIDFromContext (Context r)) = id' \<or> fst (GetIsAdminFromContext (Context r))) \<and>
        json_Decode_update lib (RequestBody r) = Inr req \<and> validator_Struct_update lib req = None \<and>
        repo_GetByID userRepo id' (store w) = Inr (Some user) \<and>
        (\<forall>email. update_Email req = Some email \<and> email \<noteq> Email user \<longrightarrow>
           repo_ExistsByEmail userRepo email (store w) = Inr False) \<and>
        (\<forall>username. update_Username req = Some username \<and> username \<noteq> Username user \<longrightarrow>
           repo_ExistsByUsername userRepo username (store w) = Inr False) \<and>
        repo_Update userRepo
             (user\<lparr>Email := (case update_Email req of None \<Rightarrow> Email user | Some v \<Rightarrow> v),
                Username := (case update_Username req of None \<Rightarrow> Username user | Some v \<Rightarrow> v),
                FirstName := (case update_FirstName req of None \<Rightarrow> FirstName user | Some v \<Rightarrow> v),
                LastName := (case update_LastName req of None \<Rightarrow> LastName user | Some v \<Rightarrow> v),
                IsActive := (case update_IsActive req of None \<Rightarrow> IsActive user | Some v \<Rightarrow> v)\<rparr>)
             (store w) = (Inl err, s') \<longrightarrow>
        UserHandler_Update userService lib r w =
          (Inr \<lparr>StatusCode = 400,
               Body = \<lparr>api_Success = False, api_Message = ''failed to update user: '' @ err,
                       api_Data = None, api_Error = None\<rparr>\<rparr>,
           log_Error [(''error'', FErr (''failed to update user: '' @ err)), (''user_id'', FUint id')]
             ''Failed to update user''
             (log_Error [(''error'', FErr err), (''user_id'', FUint id')]
                ''Failed to update user'' (w\<lparr>store := s'\<rparr>))))
   \<and> (\<forall>id' err.
        ParseUint32 (URLParam_id r) = Inr id' \<and>
        (fst (GetUserIDFromContext (Context r)) = id' \<or> fst (GetIsAdminFromContext (Context r))) \<and>
        repo_GetByID userRepo id' (store w) = Inl err \<longrightarrow>
        UserHandler_Delete userService r w =
          (Inr \<lparr>StatusCode = 400,
               Body = \<lparr>api_Success = False, api_Message = ''failed to get user: '' @ err,
                       api_Data = None, api_Error = None\<rparr>\<rparr>,
           log_Error [(''error'', FErr (''failed to get user: '' @ err)), (''user_id'', FUint id')]
             ''Failed to delete user''
             (log_Error [(''error'', FErr err), (''user_id'', FUint id')]
                ''Failed to get user for deletion'' w)))
   \<and> (\<forall>id' user err s'.
        ParseUint32 (URLParam_id r) = Inr id' \<and>
        (fst (GetUserIDFromContext (Context r)) = id' \<or> fst (GetIsAdminFromContext (Context r))) \<and>
        repo_GetByID userRepo id' (store w) = Inr (Some user) \<and>
        repo_Delete userRepo id' (store w) = (Some err, s') \<longrightarrow>
        UserHandler_Delete userService r w =
          (Inr \<lparr>StatusCode = 400,
               Body = \<lparr>api_Success = False, api_Message = ''failed to delete user: '' @ err,
                       api_Data = None, api_Error = None\<rparr>\<rparr>,
           log_Error [(''error'', FErr (''failed to delete user: '' @ err)), (''user_id'', FUint id')]
             ''Failed to delete user''
             (log_Error [(''error'', FErr err), (''user_id'', FUint id')]
                ''Failed to delete user'' (w\<lparr>store := s'\<rparr>))))
   \<and> (\<forall>req err.
        json_Decode_login lib (RequestBody r) = Inr req \<and> validator_Struct_login lib req = None \<and>
        repo_GetByEmail userRepo (login_Email req) (store w) = Inl err \<longrightarrow>
        UserHandler_Login userService lib r w =
          (Inr \<lparr>StatusCode = 401,
               Body = \<lparr>api_Success = False, api_Message = ''failed to authenticate: '' @ err,
                       api_Data = None, api_Error = None\<rparr>\<rparr>,
           log_Warn [(''error'', FErr (''failed to authenticate: '' @ err)),
                       (''email'', FStr (login_Email req))]
             ''Login failed''
             (log_Error [(''error'', FErr err), (''email'', FStr (login_Email req))]
                ''Failed to get user for login'' w)))
   \<and> (\<forall>req user token w1 err s'.
        json_Decode_login lib (RequestBody r) = Inr req \<and> validator_Struct_login lib req = None \<and>
        repo_GetByEmail userRepo (login_Email req) (store w) = Inr (Some user) \<and>
        IsActive user \<and>
        bcrypt_CompareHashAndPassword lib (Password user) (login_Password req) = None \<and>
        auth_GenerateToken authSvc (ID user) (Email user) (IsAdmin user) w = (Inr token, w1) \<and>
        repo_UpdateLastLogin userRepo (ID user) (store w1) = (Some err, s') \<longrightarrow>
        UserHandler_Login userService lib r w =
          (Inr \<lparr>StatusCode = 200,
               Body = \<lparr>api_Success = True, api_Message = ''Login successful'',
                       api_Data = Some (LoginData token (ToResponse user)),
                       api_Error = None\<rparr>\<rparr>,
           log_Info [(''user_id'', FUint (ID user))] ''User logged in successfully''
             (log_Warn [(''error'', FErr err), (''user_id'', FUint (ID user))]
                ''Failed to update last login'' (w1\<lparr>store := s'\<rparr>))))
   \<and> (\<forall>userRepo' authSvc' lib'.
        UserHandler_Logout userService r w =
          UserHandler_Logout (NewUserService userRepo' authSvc' lib') r w)"
proof (intro conjI allI impI)
  fix err
  assume h: "repo_List userRepo (List_limit r) ((List_page r - 1) * List_limit r) (store w) = Inl err"
  from h show "UserHandler_List userService r w =
          (Inr \<lparr>StatusCode = 500,
               Body = \<lparr>api_Success = False, api_Message = ''Failed to retrieve users'',
                       api_Data = None, api_Error = None\<rparr>\<rparr>,
           log_Error [(''error'', FErr (''failed to list users: '' @ err))] ''Failed to list users''
             (log_Error [(''error'', FErr err)] ''Failed to list users'' w))"
    by (simp add: assms UserHandler_List_def NewUserService_def userService_List_def StatusInternalServerError_def Let_def WriteErrorResponse_def WriteJSONResponse_def)
next
  fix users err
  assume h: "repo_List userRepo (List_limit r) ((List_page r - 1) * List_limit r) (store w) = Inr users \<and>
        repo_Count userRepo (store w) = Inl err"
  from h show "UserHandler_List userService r w =
          (Inr \<lparr>StatusCode = 500,
               Body = \<lparr>api_Success = False, api_Message = ''Failed to retrieve users'',
                       api_Data = None, api_Error = None\<rparr>\<rparr>,
           log_Error [(''error'', FErr (''failed to count users: '' @ err))] ''Failed to list users''
             (log_Error [(''error'', FErr err)] ''Failed to count users'' w))"
    by (simp add: assms UserHandler_List_def NewUserService_def userService_List_def StatusInternalServerError_def Let_def WriteErrorResponse_def WriteJSONResponse_def)
next
  fix req err
  assume h: "json_Decode_create lib (RequestBody r) = Inr req \<and> validator_Struct_create lib req = None \<and>
        repo_ExistsByEmail userRepo (create_Email req) (store w) = Inl err"
  from h show "UserHandler_Create userService lib r w =
          (Inr \<lparr>StatusCode = 400,
               Body = \<lparr>api_Success = False, api_Message = ''failed to check user existence: '' @ err,
                       api_Data = None, api_Error = None\<rparr>\<rparr>,
           log_Error [(''error'', FErr (''failed to check user existence: '' @ err))] ''Failed to create user''
             (log_Error [(''error'', FErr err)] ''Failed to check if user exists by email'' w))"
    by (simp add: assms UserHandler_Create_def NewUserService_def userService_Create_def StatusBadRequest_def WriteErrorResponse_def WriteJSONResponse_def)
next
  fix req err
  assume h: "json_Decode_create lib (RequestBody r) = Inr req \<and> validator_Struct_create lib req = None \<and>
        repo_ExistsByEmail userRepo (create_Email req) (store w) = Inr False \<and>
        repo_ExistsByUsername userRepo (create_Username req) (store w) = Inl err"
  from h show "UserHandler_Create userService lib r w =
          (Inr \<lparr>StatusCode = 400,
               Body = \<lparr>api_Success = False, api_Message = ''failed to check username availability: '' @ err,
                       api_Data = None, api_Error = None\<rparr>\<rparr>,
           log_Error [(''error'', FErr (''failed to check username availability: '' @ err))] ''Failed to create user''
             (log_Error [(''error'', FErr err)] ''Failed to check if user exists by username'' w))"
    by (simp add: assms UserHandler_Create_def NewUserService_def userService_Create_def StatusBadRequest_def WriteErrorResponse_def WriteJSONResponse_def)
next
  fix req hashedPassword err s'
  assume h: "json_Decode_create lib (RequestBody r) = Inr req \<and> validator_Struct_create lib req = None \<and>
        repo_ExistsByEmail userRepo (create_Email req) (store w) = Inr False \<and>
        repo_ExistsByUsername userRepo (create_Username req) (store w) = Inr False \<and>
        bcrypt_GenerateFromPassword lib (create_Password req) = Inr hashedPassword \<and>
        repo_Create userRepo
             \<lparr>ID = 0, Email = create_Email req, Username = create_Username req,
              Password = hashedPassword, FirstName = create_FirstName req,
              LastName = create_LastName req, IsActive = True, IsAdmin = False,
              LastLogin = None, CreatedAt = 0, UpdatedAt = 0, DeletedAt = None\<rparr>
             (store w) = (Inl err, s')"
  from h show "UserHandler_Create userService lib r w =
          (Inr \<lparr>StatusCode = 400,
               Body = \<lparr>api_Success = False, api_Message = ''failed to create user: '' @ err,
                       api_Data = None, api_Error = None\<rparr>\<rparr>,
           log_Error [(''error'', FErr (''failed to create user: '' @ err))] ''Failed to create user''
             (log_Error [(''error'', FErr err)] ''Failed to create user'' (w\<lparr>store := s'\<rparr>)))"
    by (simp add: assms UserHandler_Create_def NewUserService_def userService_Create_def StatusBadRequest_def Let_def WriteErrorResponse_def WriteJSONResponse_def)
next
  fix id' err
  assume h: "ParseUint32 (URLParam_id r) = Inr id' \<and> repo_GetByID userRepo id' (store w) = Inl err"
  from h show "UserHandler_GetByID userService r w =
          (Inr \<lparr>StatusCode = 404,
               Body = \<lparr>api_Success = False, api_Message = ''failed to get user: '' @ err,
                       api_Data = None, api_Error = None\<rparr>\<rparr>,
           log_Error [(''error'', FErr (''failed to get user: '' @ err)), (''user_id'', FUint id')]
             ''Failed to get user''
             (log_Error [(''error'', FErr err), (''user_id'', FUint id')] ''Failed to get user by ID'' w))"
    by (simp add: assms UserHandler_GetByID_def NewUserService_def userService_GetByID_def StatusNotFound_def WriteErrorResponse_def WriteJSONResponse_def)
next
  fix userID err
  assume h: "UserIDKey (Context r) = Some userID \<and> repo_GetByID userRepo userID (store w) = Inl err"
  from h show "UserHandler_Profile userService r w =
          (Inr \<lparr>StatusCode = 404,
               Body = \<lparr>api_Success = False, api_Message = ''failed to get user: '' @ err,
                       api_Data = None, api_Error = None\<rparr>\<rparr>,
           log_Error [(''error'', FErr (''failed to get user: '' @ err)), (''user_id'', FUint userID)]
             ''Failed to get user profile''
             (log_Error [(''error'', FErr err), (''user_id'', FUint userID)] ''Failed to get user by ID'' w))"
    by (simp add: assms UserHandler_Profile_def GetUserIDFromContext_def NewUserService_def userService_GetByID_def StatusNotFound_def WriteErrorResponse_def WriteJSONResponse_def)
next
  fix id' req err
  assume h: "ParseUint32 (URLParam_id r) = Inr id' \<and>
        (fst (GetUserIDFromContext (Context r)) = id' \<or> fst (GetIsAdminFromContext (Context r))) \<and>
        json_Decode_update lib (RequestBody r) = Inr req \<and> validator_Struct_update lib req = None \<and>
        repo_GetByID userRepo id' (store w) = Inl err"
  from h show "UserHandler_Update userService lib r w =
          (Inr \<lparr>StatusCode = 400,
               Body = \<lparr>api_Success = False, api_Message = ''failed to get user: '' @ err,
                       api_Data = None, api_Error = None\<rparr>\<rparr>,
           log_Error [(''error'', FErr (''failed to get user: '' @ err)), (''user_id'', FUint id')]
             ''Failed to update user''
             (log_Error [(''error'', FErr err), (''user_id'', FUint id')]
                ''Failed to get user for update'' w))"
    by (auto simp add: assms UserHandler_Update_def NewUserService_def StatusBadRequest_def Let_def WriteErrorResponse_def WriteJSONResponse_def userService_Update_def)
next
  fix id' req user email err
  assume h: "ParseUint32 (URLParam_id r) = Inr id' \<and>
        (fst (GetUserIDFromContext (Context r)) = id' \<or> fst (GetIsAdminFromContext (Context r))) \<and>
        json_Decode_update lib (RequestBody r) = Inr req \<and> validator_Struct_update lib req = None \<and>
        repo_GetByID userRepo id' (store w) = Inr (Some user) \<and>
        update_Email req = Some email \<and> email \<noteq> Email user \<and>
        repo_ExistsByEmail userRepo email (store w) = Inl err"
  from h show "UserHandler_Update userService lib r w =
          (Inr \<lparr>StatusCode = 400,
               Body = \<lparr>api_Success = False, api_Message = ''failed to check email availability: '' @ err,
                       api_Data = None, api_Error = None\<rparr>\<rparr>,
           log_Error [(''error'', FErr (''failed to check email availability: '' @ err)),
                        (''user_id'', FUint id')]
             ''Failed to update user'' w)"
    by (auto simp add: assms UserHandler_Update_def NewUserService_def StatusBadRequest_def Let_def WriteErrorResponse_def WriteJSONResponse_def userService_Update_def)
next
  fix id' req user username err
  assume h: "ParseUint32 (URLParam_id r) = Inr id' \<and>
        (fst (GetUserIDFromContext (Context r)) = id' \<or> fst (GetIsAdminFromContext (Context r))) \<and>
        json_Decode_update lib (RequestBody r) = Inr req \<and> validator_Struct_update lib req = None \<and>
        repo_GetByID userRepo id' (store w) = Inr (Some user) \<and>
        (\<forall>email. update_Email req = Some email \<and> email \<noteq> Email user \<longrightarrow>
           repo_ExistsByEmail userRepo email (store w) = Inr False) \<and>
        update_Username req = Some username \<and> username \<noteq> Username user \<and>
        repo_ExistsByUsername userRepo username (store w) = Inl err"
  from h have "svc_Update userService id' req w =
      (Inl (''failed to check username availability: '' @ err), w)"
    by (simp add: assms NewUserService_def Update_username_failure)
  with h show "UserHandler_Update userService lib r w =
          (Inr \<lparr>StatusCode = 400,
               Body = \<lparr>api_Success = False, api_Message = ''failed to check username availability: '' @ err,
                       api_Data = None, api_Error = None\<rparr>\<rparr>,
           log_Error [(''error'', FErr (''failed to check username availability: '' @ err)),
                        (''user_id'', FUint id')]
             ''Failed to update user'' w)"
    by (auto simp add: UserHandler_Update_def StatusBadRequest_def Let_def WriteErrorResponse_def WriteJSONResponse_def)
next
  fix id' req user err s'
  assume h: "ParseUint32 (URLParam_id r) = Inr id' \<and>
        (fst (GetUserIDFromContext (Context r)) = id' \<or> fst (GetIsAdminFromContext (Context r))) \<and>
        json_Decode_update lib (RequestBody r) = Inr req \<and> validator_Struct_update lib req = None \<and>
        repo_GetByID userRepo id' (store w) = Inr (Some user) \<and>
        (\<forall>email. update_Email req = Some email \<and> email \<noteq> Email user \<longrightarrow>
           repo_ExistsByEmail userRepo email (store w) = Inr False) \<and>
        (\<forall>username. update_Username req = Some username \<and> username \<noteq> Username user \<longrightarrow>
           repo_ExistsByUsername userRepo username (store w) = Inr False) \<and>
        repo_Update userRepo
             (user\<lparr>Email := (case update_Email req of None \<Rightarrow> Email user | Some v \<Rightarrow> v),
                Username := (case update_Username req of None \<Rightarrow> Username user | Some v \<Rightarrow> v),
                FirstName := (case update_FirstName req of None \<Rightarrow> FirstName user | Some v \<Rightarrow> v),
                LastName := (case update_LastName req of None \<Rightarrow> LastName user | Some v \<Rightarrow> v),
                IsActive := (case update_IsActive req of None \<Rightarrow> IsActive user | Some v \<Rightarrow> v)\<rparr>)
             (store w) = (Inl err, s')"
  from h have g: "repo_GetByID userRepo id' (store w) = Inr (Some user)"
    by simp
  from h have e: "\<forall>email. update_Email req = Some email \<and> email \<noteq> Email user \<longrightarrow>
      repo_ExistsByEmail userRepo email (store w) = Inr False"
    by simp
  from h have u: "\<forall>username. update_Username req = Some username \<and> username \<noteq> Username user \<longrightarrow>
      repo_ExistsByUsername userRepo username (store w) = Inr False"
    by simp
  have "userService_Update_save userRepo id' req
      (user\<lparr>Email := (case update_Email req of None \<Rightarrow> Email user | Some v \<Rightarrow> v),
            Username := (case update_Username req of None \<Rightarrow> Username user | Some v \<Rightarrow> v)\<rparr>) w =
      (Inl (''failed to update user: '' @ err),
       log_Error [(''error'', FErr err), (''user_id'', FUint id')]
         ''Failed to update user'' (w\<lparr>store := s'\<rparr>))"
    by (rule Update_save_failure) (use h in \<open>simp cong: option.case_cong\<close>)
  then have "svc_Update userService id' req w =
      (Inl (''failed to update user: '' @ err),
       log_Error [(''error'', FErr err), (''user_id'', FUint id')]
         ''Failed to update user'' (w\<lparr>store := s'\<rparr>))"
    by (simp only: assms NewUserService_def UserService.simps Update_result [OF g e u])
  with h show "UserHandler_Update userService lib r w =
          (Inr \<lparr>StatusCode = 400,
               Body = \<lparr>api_Success = False, api_Message = ''failed to update user: '' @ err,
                       api_Data = None, api_Error = None\<rparr>\<rparr>,
           log_Error [(''error'', FErr (''failed to update user: '' @ err)), (''user_id'', FUint id')]
             ''Failed to update user''
             (log_Error [(''error'', FErr err), (''user_id'', FUint id')]
                ''Failed to update user'' (w\<lparr>store := s'\<rparr>)))"
    by (auto simp add: UserHandler_Update_def StatusBadRequest_def Let_def WriteErrorResponse_def WriteJSONResponse_def)
next
  fix id' err
  assume h: "ParseUint32 (URLParam_id r) = Inr id' \<and>
        (fst (GetUserIDFromContext (Context r)) = id' \<or> fst (GetIsAdminFromContext (Context r))) \<and>
        repo_GetByID userRepo id' (store w) = Inl err"
  from h show "UserHandler_Delete userService r w =
          (Inr \<lparr>StatusCode = 400,
               Body = \<lparr>api_Success = False, api_Message = ''failed to get user: '' @ err,
                       api_Data = None, api_Error = None\<rparr>\<rparr>,
           log_Error [(''error'', FErr (''failed to get user: '' @ err)), (''user_id'', FUint id')]
             ''Failed to delete user''
             (log_Error [(''error'', FErr err), (''user_id'', FUint id')]
                ''Failed to get user for deletion'' w))"
    by (auto simp add: assms UserHandler_Delete_def NewUserService_def userService_Delete_def StatusBadRequest_def Let_def WriteErrorResponse_def WriteJSONResponse_def)
next
  fix id' user err s'
  assume h: "ParseUint32 (URLParam_id r) = Inr id' \<and>
        (fst (GetUserIDFromContext (Context r)) = id' \<or> fst (GetIsAdminFromContext (Context r))) \<and>
        repo_GetByID userRepo id' (store w) = Inr (Some user) \<and>
        repo_Delete userRepo id' (store w) = (Some err, s')"
  from h show "UserHandler_Delete userService r w =
          (Inr \<lparr>StatusCode = 400,
               Body = \<lparr>api_Success = False, api_Message = ''failed to delete user: '' @ err,
                       api_Data = None, api_Error = None\<rparr>\<rparr>,
           log_Error [(''error'', FErr (''failed to delete user: '' @ err)), (''user_id'', FUint id')]
             ''Failed to delete user''
             (log_Error [(''error'', FErr err), (''user_id'', FUint id')]
                ''Failed to delete user'' (w\<lparr>store := s'\<rparr>)))"
    by (auto simp add: assms UserHandler_Delete_def NewUserService_def userService_Delete_def StatusBadRequest_def Let_def WriteErrorResponse_def WriteJSONResponse_def)
next
  fix req err
  assume h: "json_Decode_login lib (RequestBody r) = Inr req \<and> validator_Struct_login lib req = None \<and>
        repo_GetByEmail userRepo (login_Email req) (store w) = Inl err"
  from h show "UserHandler_Login userService lib r w =
          (Inr \<lparr>StatusCode = 401,
               Body = \<lparr>api_Success = False, api_Message = ''failed to authenticate: '' @ err,
                       api_Data = None, api_Error = None\<rparr>\<rparr>,
           log_Warn [(''error'', FErr (''failed to authenticate: '' @ err)),
                       (''email'', FStr (login_Email req))]
             ''Login failed''
             (log_Error [(''error'', FErr err), (''email'', FStr (login_Email req))]
                ''Failed to get user for login'' w))"
    by (simp add: assms UserHandler_Login_def NewUserService_def userService_Login_def StatusUnauthorized_def StatusOK_def Let_def WriteSuccessResponse_def WriteErrorResponse_def WriteJSONResponse_def)
next
  fix req user token w1 err s'
  assume h: "json_Decode_login lib (RequestBody r) = Inr req \<and> validator_Struct_login lib req = None \<and>
        repo_GetByEmail userRepo (login_Email req) (store w) = Inr (Some user) \<and>
        IsActive user \<and>
        bcrypt_CompareHashAndPassword lib (Password user) (login_Password req) = None \<and>
        auth_GenerateToken authSvc (ID user) (Email user) (IsAdmin user) w = (Inr token, w1) \<and>
        repo_UpdateLastLogin userRepo (ID user) (store w1) = (Some err, s')"
  from h show "UserHandler_Login userService lib r w =
          (Inr \<lparr>StatusCode = 200,
               Body = \<lparr>api_Success = True, api_Message = ''Login successful'',
                       api_Data = Some (LoginData token (ToResponse user)),
                       api_Error = None\<rparr>\<rparr>,
           log_Info [(''user_id'', FUint (ID user))] ''User logged in successfully''
             (log_Warn [(''error'', FErr err), (''user_id'', FUint (ID user))]
                ''Failed to update last login'' (w1\<lparr>store := s'\<rparr>)))"
    by (simp add: assms UserHandler_Login_def NewUserService_def userService_Login_def StatusUnauthorized_def StatusOK_def Let_def WriteSuccessResponse_def WriteErrorResponse_def WriteJSONResponse_def)
next
  fix userRepo' :: "'s UserRepository" and authSvc' :: "'s AuthService" and lib' :: Lib
  show "UserHandler_Logout userService r w =
          UserHandler_Logout (NewUserService userRepo' authSvc' lib') r w"
    by (simp add: assms UserHandler_Logout_def NewUserService_def split: prod.splits bool.splits)
qed

text \<open>
  Every case on the example store: with the connection down (the first call of each
  handler fails), over a repository in which one query times out, and over a database
  that refuses writes.
\<close>

theorem handlers_on_store_failure_witness:
  "UserHandler_List (NewUserService NewUserRepository (NewAuthService NewUserRepository ex_cfg ex_lib 1000) ex_lib)
       ex_request ex_down =
     (Inr \<lparr>StatusCode = 500,
               Body = \<lparr>api_Success = False, api_Message = ''Failed to retrieve users'',
                       api_Data = None, api_Error = None\<rparr>\<rparr>,
      log_Error [(''error'', FErr ''failed to list users: dial tcp 10.0.0.5:5432: connect: connection refused'')] ''Failed to list users''
        (log_Error [(''error'', FErr ''dial tcp 10.0.0.5:5432: connect: connection refused'')] ''Failed to list users'' ex_down))
   \<and> UserHandler_List (NewUserService ex_count_fails (NewAuthService ex_count_fails ex_cfg ex_lib 1000) ex_lib)
       ex_request ex_world =
     (Inr \<lparr>StatusCode = 500,
               Body = \<lparr>api_Success = False, api_Message = ''Failed to retrieve users'',
                       api_Data = None, api_Error = None\<rparr>\<rparr>,
      log_Error [(''error'', FErr ''failed to count users: context deadline exceeded'')] ''Failed to list users''
        (log_Error [(''error'', FErr ''context deadline exceeded'')] ''Failed to count users'' ex_world))
   \<and> UserHandler_Create (NewUserService NewUserRepository (NewAuthService NewUserRepository ex_cfg ex_lib 1000) ex_lib) ex_lib
       (ex_request\<lparr>RequestBody := ''carol.json''\<rparr>) ex_down =
     (Inr \<lparr>StatusCode = 400,
               Body = \<lparr>api_Success = False, api_Message = ''failed to check user existence: dial tcp 10.0.0.5:5432: connect: connection refused'',
                       api_Data = None, api_Error = None\<rparr>\<rparr>,
      log_Error [(''error'', FErr ''failed to check user existence: dial tcp 10.0.0.5:5432: connect: connection refused'')]
        ''Failed to create user''
        (log_Error [(''error'', FErr ''dial tcp 10.0.0.5:5432: connect: connection refused'')]
           ''Failed to check if user exists by email'' ex_down))
   \<and> UserHandler_Create (NewUserService ex_username_check_fails (NewAuthService ex_username_check_fails ex_cfg ex_lib 1000) ex_lib) ex_lib
       (ex_request\<lparr>RequestBody := ''carol.json''\<rparr>) ex_world =
     (Inr \<lparr>StatusCode = 400,
               Body = \<lparr>api_Success = False, api_Message = ''failed to check username availability: context deadline exceeded'',
                       api_Data = None, api_Error = None\<rparr>\<rparr>,
      log_Error [(''error'', FErr ''failed to check username availability: context deadline exceeded'')]
        ''Failed to create user''
        (log_Error [(''error'', FErr ''context deadline exceeded'')]
           ''Failed to check if user exists by username'' ex_world))
   \<and> UserHandler_Create (NewUserService ex_read_only (NewAuthService ex_read_only ex_cfg ex_lib 1000) ex_lib) ex_lib
       (ex_request\<lparr>RequestBody := ''carol.json''\<rparr>) ex_world =
     (Inr \<lparr>StatusCode = 400,
               Body = \<lparr>api_Success = False, api_Message = ''failed to create user: cannot execute INSERT in a read-only transaction'',
                       api_Data = None, api_Error = None\<rparr>\<rparr>,
      log_Error [(''error'', FErr ''failed to create user: cannot execute INSERT in a read-only transaction'')] ''Failed to create user''
        (log_Error [(''error'', FErr ''cannot execute INSERT in a read-only transaction'')] ''Failed to create user'' ex_world))
   \<and> UserHandler_GetByID (NewUserService NewUserRepository (NewAuthService NewUserRepository ex_cfg ex_lib 1000) ex_lib)
       (ex_request\<lparr>URLParam_id := ''1''\<rparr>) ex_down =
     (Inr \<lparr>StatusCode = 404,
               Body = \<lparr>api_Success = False, api_Message = ''failed to get user: dial tcp 10.0.0.5:5432: connect: connection refused'',
                       api_Data = None, api_Error = None\<rparr>\<rparr>,
      log_Error [(''error'', FErr ''failed to get user: dial tcp 10.0.0.5:5432: connect: connection refused''), (''user_id'', FUint 1)]
        ''Failed to get user''
        (log_Error [(''error'', FErr ''dial tcp 10.0.0.5:5432: connect: connection refused''), (''user_id'', FUint 1)]
           ''Failed to get user by ID'' ex_down))
   \<and> UserHandler_Profile (NewUserService NewUserRepository (NewAuthService NewUserRepository ex_cfg ex_lib 1000) ex_lib)
       (ex_request\<lparr>Context := \<lparr>UserIDKey = Some 1, UserEmailKey = Some ''alice@example.com'', IsAdminKey = Some True\<rparr>\<rparr>) ex_down =
     (Inr \<lparr>StatusCode = 404,
               Body = \<lparr>api_Success = False, api_Message = ''failed to get user: dial tcp 10.0.0.5:5432: connect: connection refused'',
                       api_Data = None, api_Error = None\<rparr>\<rparr>,
      log_Error [(''error'', FErr ''failed to get user: dial tcp 10.0.0.5:5432: connect: connection refused''), (''user_id'', FUint 1)]
        ''Failed to get user profile''
        (log_Error [(''error'', FErr ''dial tcp 10.0.0.5:5432: connect: connection refused''), (''user_id'', FUint 1)]
           ''Failed to get user by ID'' ex_down))
   \<and> UserHandler_Update (NewUserService NewUserRepository (NewAuthService NewUserRepository ex_cfg ex_lib 1000) ex_lib) ex_lib
       (ex_request\<lparr>URLParam_id := ''1'', RequestBody := ''rename.json'', Context := \<lparr>UserIDKey = Some 1, UserEmailKey = Some ''alice@example.com'', IsAdminKey = Some True\<rparr>\<rparr>) ex_down =
     (Inr \<lparr>StatusCode = 400,
               Body = \<lparr>api_Success = False, api_Message = ''failed to get user: dial tcp 10.0.0.5:5432: connect: connection refused'',
                       api_Data = None, api_Error = None\<rparr>\<rparr>,
      log_Error [(''error'', FErr ''failed to get user: dial tcp 10.0.0.5:5432: connect: connection refused''), (''user_id'', FUint 1)]
        ''Failed to update user''
        (log_Error [(''error'', FErr ''dial tcp 10.0.0.5:5432: connect: connection refused''), (''user_id'', FUint 1)]
           ''Failed to get user for update'' ex_down))
   \<and> UserHandler_Update (NewUserService ex_email_check_fails (NewAuthService ex_email_check_fails ex_cfg ex_lib 1000) ex_lib_move) ex_lib_move
       (ex_request\<lparr>URLParam_id := ''1'', RequestBody := ''move.json'', Context := \<lparr>UserIDKey = Some 1, UserEmailKey = Some ''alice@example.com'', IsAdminKey = Some True\<rparr>\<rparr>) ex_world =
     (Inr \<lparr>StatusCode = 400,
               Body = \<lparr>api_Success = False, api_Message = ''failed to check email availability: context deadline exceeded'',
                       api_Data = None, api_Error = None\<rparr>\<rparr>,
      log_Error [(''error'', FErr ''failed to check email availability: context deadline exceeded''),
                   (''user_id'', FUint 1)]
        ''Failed to update user'' ex_world)
   \<and> UserHandler_Update (NewUserService ex_username_check_fails (NewAuthService ex_username_check_fails ex_cfg ex_lib 1000) ex_lib_move) ex_lib_move
       (ex_request\<lparr>URLParam_id := ''1'', RequestBody := ''move.json'', Context := \<lparr>UserIDKey = Some 1, UserEmailKey = Some ''alice@example.com'', IsAdminKey = Some True\<rparr>\<rparr>) ex_world =
     (Inr \<lparr>StatusCode = 400,
               Body = \<lparr>api_Success = False, api_Message = ''failed to check username availability: context deadline exceeded'',
                       api_Data = None, api_Error = None\<rparr>\<rparr>,
      log_Error [(''error'', FErr ''failed to check username availability: context deadline exceeded''),
                   (''user_id'', FUint 1)]
        ''Failed to update user'' ex_world)
   \<and> UserHandler_Update (NewUserService ex_read_only (NewAuthService ex_read_only ex_cfg ex_lib 1000) ex_lib) ex_lib
       (ex_request\<lparr>URLParam_id := ''1'', RequestBody := ''rename.json'', Context := \<lparr>UserIDKey = Some 1, UserEmailKey = Some ''alice@example.com'', IsAdminKey = Some True\<rparr>\<rparr>) ex_world =
     (Inr \<lparr>StatusCode = 400,
               Body = \<lparr>api_Success = False, api_Message = ''failed to update user: cannot execute UPDATE in a read-only transaction'',
                       api_Data = None, api_Error = None\<rparr>\<rparr>,
      log_Error [(''error'', FErr ''failed to update user: cannot execute UPDATE in a read-only transaction''), (''user_id'', FUint 1)]
        ''Failed to update user''
        (log_Error [(''error'', FErr ''cannot execute UPDATE in a read-only transaction''), (''user_id'', FUint 1)]
           ''Failed to update user'' ex_world))
   \<and> UserHandler_Delete (NewUserService NewUserRepository (NewAuthService NewUserRepository ex_cfg ex_lib 1000) ex_lib)
       (ex_request\<lparr>URLParam_id := ''2'', Context := \<lparr>UserIDKey = Some 1, UserEmailKey = Some ''alice@example.com'', IsAdminKey = Some True\<rparr>\<rparr>) ex_down =
     (Inr \<lparr>StatusCode = 400,
               Body = \<lparr>api_Success = False, api_Message = ''failed to get user: dial tcp 10.0.0.5:5432: connect: connection refused'',
                       api_Data = None, api_Error = None\<rparr>\<rparr>,
      log_Error [(''error'', FErr ''failed to get user: dial tcp 10.0.0.5:5432: connect: connection refused''), (''user_id'', FUint 2)]
        ''Failed to delete user''
        (log_Error [(''error'', FErr ''dial tcp 10.0.0.5:5432: connect: connection refused''), (''user_id'', FUint 2)]
           ''Failed to get user for deletion'' ex_down))
   \<and> UserHandler_Delete (NewUserService ex_read_only (NewAuthService ex_read_only ex_cfg ex_lib 1000) ex_lib)
       (ex_request\<lparr>URLParam_id := ''2'', Context := \<lparr>UserIDKey = Some 1, UserEmailKey = Some ''alice@example.com'', IsAdminKey = Some True\<rparr>\<rparr>) ex_world =
     (Inr \<lparr>StatusCode = 400,
               Body = \<lparr>api_Success = False, api_Message = ''failed to delete user: cannot execute UPDATE in a read-only transaction'',
                       api_Data = None, api_Error = None\<rparr>\<rparr>,
      log_Error [(''error'', FErr ''failed to delete user: cannot execute UPDATE in a read-only transaction''), (''user_id'', FUint 2)]
        ''Failed to delete user''
        (log_Error [(''error'', FErr ''cannot execute UPDATE in a read-only transaction''), (''user_id'', FUint 2)]
           ''Failed to delete user'' ex_world))
   \<and> UserHandler_Login (NewUserService NewUserRepository (NewAuthService NewUserRepository ex_cfg ex_lib 1000) ex_lib) ex_lib
       (ex_request\<lparr>RequestBody := ''alice-login.json''\<rparr>) ex_down =
     (Inr \<lparr>StatusCode = 401,
               Body = \<lparr>api_Success = False, api_Message = ''failed to authenticate: dial tcp 10.0.0.5:5432: connect: connection refused'',
                       api_Data = None, api_Error = None\<rparr>\<rparr>,
      log_Warn [(''error'', FErr ''failed to authenticate: dial tcp 10.0.0.5:5432: connect: connection refused''),
                  (''email'', FStr ''alice@example.com'')]
        ''Login failed''
        (log_Error [(''error'', FErr ''dial tcp 10.0.0.5:5432: connect: connection refused''), (''email'', FStr ''alice@example.com'')]
           ''Failed to get user for login'' ex_down))
   \<and> UserHandler_Login (NewUserService ex_read_only (NewAuthService ex_read_only ex_cfg ex_lib 1000) ex_lib) ex_lib
       (ex_request\<lparr>RequestBody := ''alice-login.json''\<rparr>) ex_world =
     (Inr \<lparr>StatusCode = 200,
               Body = \<lparr>api_Success = True, api_Message = ''Login successful'',
                       api_Data = Some (LoginData ''alice.jwt'' (ToResponse ex_alice)),
                       api_Error = None\<rparr>\<rparr>,
      log_Info [(''user_id'', FUint 1)] ''User logged in successfully''
        (log_Warn [(''error'', FErr ''cannot execute UPDATE in a read-only transaction''), (''user_id'', FUint 1)]
           ''Failed to update last login''
           (log_Info [(''user_id'', FUint 1)] ''JWT token generated successfully'' ex_world)))"
proof (intro conjI)
  have p1: "ParseUint32 ''1'' = Inr 1"
    by (simp add: ParseUint32_def is_digit_def)
  have p2: "ParseUint32 ''2'' = Inr 2"
    by (simp add: ParseUint32_def is_digit_def)
  show "UserHandler_List (NewUserService NewUserRepository (NewAuthService NewUserRepository ex_cfg ex_lib 1000) ex_lib)
       ex_request ex_down =
     (Inr \<lparr>StatusCode = 500,
               Body = \<lparr>api_Success = False, api_Message = ''Failed to retrieve users'',
                       api_Data = None, api_Error = None\<rparr>\<rparr>,
      log_Error [(''error'', FErr ''failed to list users: dial tcp 10.0.0.5:5432: connect: connection refused'')] ''Failed to list users''
        (log_Error [(''error'', FErr ''dial tcp 10.0.0.5:5432: connect: connection refused'')] ''Failed to list users'' ex_down))"
    using handlers_on_store_failure
      [where userService = "NewUserService NewUserRepository (NewAuthService NewUserRepository ex_cfg ex_lib 1000) ex_lib" and userRepo = "NewUserRepository"
         and authSvc = "NewAuthService NewUserRepository ex_cfg ex_lib 1000" and lib = "ex_lib"
         and r = "ex_request"
         and w = ex_down]
    by (simp add: ex_count_fails_def ex_email_check_fails_def ex_username_check_fails_def NewUserRepository_def ex_request_def ex_world_def ex_down_def ex_db_def userRepository_List_def)
  show "UserHandler_List (NewUserService ex_count_fails (NewAuthService ex_count_fails ex_cfg ex_lib 1000) ex_lib)
       ex_request ex_world =
     (Inr \<lparr>StatusCode = 500,
               Body = \<lparr>api_Success = False, api_Message = ''Failed to retrieve users'',
                       api_Data = None, api_Error = None\<rparr>\<rparr>,
      log_Error [(''error'', FErr ''failed to count users: context deadline exceeded'')] ''Failed to list users''
        (log_Error [(''error'', FErr ''context deadline exceeded'')] ''Failed to count users'' ex_world))"
    using handlers_on_store_failure
      [where userService = "NewUserService ex_count_fails (NewAuthService ex_count_fails ex_cfg ex_lib 1000) ex_lib" and userRepo = "ex_count_fails"
         and authSvc = "NewAuthService ex_count_fails ex_cfg ex_lib 1000" and lib = "ex_lib"
         and r = "ex_request"
         and w = ex_world]
    by (simp add: ex_count_fails_def ex_email_check_fails_def ex_username_check_fails_def NewUserRepository_def ex_request_def ex_world_def ex_down_def ex_db_def userRepository_List_def Let_def)
  show "UserHandler_Create (NewUserService NewUserRepository (NewAuthService NewUserRepository ex_cfg ex_lib 1000) ex_lib) ex_lib
       (ex_request\<lparr>RequestBody := ''carol.json''\<rparr>) ex_down =
     (Inr \<lparr>StatusCode = 400,
               Body = \<lparr>api_Success = False, api_Message = ''failed to check user existence: dial tcp 10.0.0.5:5432: connect: connection refused'',
                       api_Data = None, api_Error = None\<rparr>\<rparr>,
      log_Error [(''error'', FErr ''failed to check user existence: dial tcp 10.0.0.5:5432: connect: connection refused'')]
        ''Failed to create user''
        (log_Error [(''error'', FErr ''dial tcp 10.0.0.5:5432: connect: connection refused'')]
           ''Failed to check if user exists by email'' ex_down))"
    using handlers_on_store_failure
      [where userService = "NewUserService NewUserRepository (NewAuthService NewUserRepository ex_cfg ex_lib 1000) ex_lib" and userRepo = "NewUserRepository"
         and authSvc = "NewAuthService NewUserRepository ex_cfg ex_lib 1000" and lib = "ex_lib"
         and r = "ex_request\<lparr>RequestBody := ''carol.json''\<rparr>"
         and w = ex_down]
    by (simp add: ex_count_fails_def ex_email_check_fails_def ex_username_check_fails_def NewUserRepository_def ex_request_def ex_world_def ex_down_def ex_db_def ex_lib_def ex_carol_req_def userRepository_ExistsByEmail_def)
  show "UserHandler_Create (NewUserService ex_username_check_fails (NewAuthService ex_username_check_fails ex_cfg ex_lib 1000) ex_lib) ex_lib
       (ex_request\<lparr>RequestBody := ''carol.json''\<rparr>) ex_world =
     (Inr \<lparr>StatusCode = 400,
               Body = \<lparr>api_Success = False, api_Message = ''failed to check username availability: context deadline exceeded'',
                       api_Data = None, api_Error = None\<rparr>\<rparr>,
      log_Error [(''error'', FErr ''failed to check username availability: context deadline exceeded'')]
        ''Failed to create user''
        (log_Error [(''error'', FErr ''context deadline exceeded'')]
           ''Failed to check if user exists by username'' ex_world))"
    using handlers_on_store_failure
      [where userService = "NewUserService ex_username_check_fails (NewAuthService ex_username_check_fails ex_cfg ex_lib 1000) ex_lib" and userRepo = "ex_username_check_fails"
         and authSvc = "NewAuthService ex_username_check_fails ex_cfg ex_lib 1000" and lib = "ex_lib"
         and r = "ex_request\<lparr>RequestBody := ''carol.json''\<rparr>"
         and w = ex_world]
    by (simp add: ex_count_fails_def ex_email_check_fails_def ex_username_check_fails_def NewUserRepository_def ex_request_def ex_world_def ex_down_def ex_db_def ex_lib_def ex_carol_req_def userRepository_ExistsByEmail_def ex_alice_def ex_bob_def live_def)
  show "UserHandler_Create (NewUserService ex_read_only (NewAuthService ex_read_only ex_cfg ex_lib 1000) ex_lib) ex_lib
       (ex_request\<lparr>RequestBody := ''carol.json''\<rparr>) ex_world =
     (Inr \<lparr>StatusCode = 400,
               Body = \<lparr>api_Success = False, api_Message = ''failed to create user: cannot execute INSERT in a read-only transaction'',
                       api_Data = None, api_Error = None\<rparr>\<rparr>,
      log_Error [(''error'', FErr ''failed to create user: cannot execute INSERT in a read-only transaction'')] ''Failed to create user''
        (log_Error [(''error'', FErr ''cannot execute INSERT in a read-only transaction'')] ''Failed to create user'' ex_world))"
    using handlers_on_store_failure
      [where userService = "NewUserService ex_read_only (NewAuthService ex_read_only ex_cfg ex_lib 1000) ex_lib" and userRepo = "ex_read_only"
         and authSvc = "NewAuthService ex_read_only ex_cfg ex_lib 1000" and lib = "ex_lib"
         and r = "ex_request\<lparr>RequestBody := ''carol.json''\<rparr>"
         and w = ex_world]
    by (simp add: ex_count_fails_def ex_email_check_fails_def ex_username_check_fails_def NewUserRepository_def ex_request_def ex_world_def ex_down_def ex_db_def ex_read_only_def ex_lib_def ex_carol_req_def userRepository_ExistsByEmail_def userRepository_ExistsByUsername_def ex_alice_def ex_bob_def live_def)
  show "UserHandler_GetByID (NewUserService NewUserRepository (NewAuthService NewUserRepository ex_cfg ex_lib 1000) ex_lib)
       (ex_request\<lparr>URLParam_id := ''1''\<rparr>) ex_down =
     (Inr \<lparr>StatusCode = 404,
               Body = \<lparr>api_Success = False, api_Message = ''failed to get user: dial tcp 10.0.0.5:5432: connect: connection refused'',
                       api_Data = None, api_Error = None\<rparr>\<rparr>,
      log_Error [(''error'', FErr ''failed to get user: dial tcp 10.0.0.5:5432: connect: connection refused''), (''user_id'', FUint 1)]
        ''Failed to get user''
        (log_Error [(''error'', FErr ''dial tcp 10.0.0.5:5432: connect: connection refused''), (''user_id'', FUint 1)]
           ''Failed to get user by ID'' ex_down))"
    using handlers_on_store_failure
      [where userService = "NewUserService NewUserRepository (NewAuthService NewUserRepository ex_cfg ex_lib 1000) ex_lib" and userRepo = "NewUserRepository"
         and authSvc = "NewAuthService NewUserRepository ex_cfg ex_lib 1000" and lib = "ex_lib"
         and r = "ex_request\<lparr>URLParam_id := ''1''\<rparr>"
         and w = ex_down] p1
    by (simp add: ex_count_fails_def ex_email_check_fails_def ex_username_check_fails_def NewUserRepository_def ex_request_def ex_world_def ex_down_def ex_db_def userRepository_GetByID_def)
  show "UserHandler_Profile (NewUserService NewUserRepository (NewAuthService NewUserRepository ex_cfg ex_lib 1000) ex_lib)
       (ex_request\<lparr>Context := \<lparr>UserIDKey = Some 1, UserEmailKey = Some ''alice@example.com'', IsAdminKey = Some True\<rparr>\<rparr>) ex_down =
     (Inr \<lparr>StatusCode = 404,
               Body = \<lparr>api_Success = False, api_Message = ''failed to get user: dial tcp 10.0.0.5:5432: connect: connection refused'',
                       api_Data = None, api_Error = None\<rparr>\<rparr>,
      log_Error [(''error'', FErr ''failed to get user: dial tcp 10.0.0.5:5432: connect: connection refused''), (''user_id'', FUint 1)]
        ''Failed to get user profile''
        (log_Error [(''error'', FErr ''dial tcp 10.0.0.5:5432: connect: connection refused''), (''user_id'', FUint 1)]
           ''Failed to get user by ID'' ex_down))"
    using handlers_on_store_failure
      [where userService = "NewUserService NewUserRepository (NewAuthService NewUserRepository ex_cfg ex_lib 1000) ex_lib" and userRepo = "NewUserRepository"
         and authSvc = "NewAuthService NewUserRepository ex_cfg ex_lib 1000" and lib = "ex_lib"
         and r = "ex_request\<lparr>Context := \<lparr>UserIDKey = Some 1, UserEmailKey = Some ''alice@example.com'', IsAdminKey = Some True\<rparr>\<rparr>"
         and w = ex_down]
    by (simp add: ex_count_fails_def ex_email_check_fails_def ex_username_check_fails_def NewUserRepository_def ex_request_def ex_world_def ex_down_def ex_db_def userRepository_GetByID_def)
  show "UserHandler_Update (NewUserService NewUserRepository (NewAuthService NewUserRepository ex_cfg ex_lib 1000) ex_lib) ex_lib
       (ex_request\<lparr>URLParam_id := ''1'', RequestBody := ''rename.json'', Context := \<lparr>UserIDKey = Some 1, UserEmailKey = Some ''alice@example.com'', IsAdminKey = Some True\<rparr>\<rparr>) ex_down =
     (Inr \<lparr>StatusCode = 400,
               Body = \<lparr>api_Success = False, api_Message = ''failed to get user: dial tcp 10.0.0.5:5432: connect: connection refused'',
                       api_Data = None, api_Error = None\<rparr>\<rparr>,
      log_Error [(''error'', FErr ''failed to get user: dial tcp 10.0.0.5:5432: connect: connection refused''), (''user_id'', FUint 1)]
        ''Failed to update user''
        (log_Error [(''error'', FErr ''dial tcp 10.0.0.5:5432: connect: connection refused''), (''user_id'', FUint 1)]
           ''Failed to get user for update'' ex_down))"
    using handlers_on_store_failure
      [where userService = "NewUserService NewUserRepository (NewAuthService NewUserRepository ex_cfg ex_lib 1000) ex_lib" and userRepo = "NewUserRepository"
         and authSvc = "NewAuthService NewUserRepository ex_cfg ex_lib 1000" and lib = "ex_lib"
         and r = "ex_request\<lparr>URLParam_id := ''1'', RequestBody := ''rename.json'', Context := \<lparr>UserIDKey = Some 1, UserEmailKey = Some ''alice@example.com'', IsAdminKey = Some True\<rparr>\<rparr>"
         and w = ex_down] p1
    by (simp add: ex_count_fails_def ex_email_check_fails_def ex_username_check_fails_def NewUserRepository_def ex_request_def ex_world_def ex_down_def ex_db_def GetUserIDFromContext_def GetIsAdminFromContext_def userRepository_GetByID_def ex_alice_def ex_bob_def live_def ex_lib_def)
  show "UserHandler_Update (NewUserService ex_email_check_fails (NewAuthService ex_email_check_fails ex_cfg ex_lib 1000) ex_lib_move) ex_lib_move
       (ex_request\<lparr>URLParam_id := ''1'', RequestBody := ''move.json'', Context := \<lparr>UserIDKey = Some 1, UserEmailKey = Some ''alice@example.com'', IsAdminKey = Some True\<rparr>\<rparr>) ex_world =
     (Inr \<lparr>StatusCode = 400,
               Body = \<lparr>api_Success = False, api_Message = ''failed to check email availability: context deadline exceeded'',
                       api_Data = None, api_Error = None\<rparr>\<rparr>,
      log_Error [(''error'', FErr ''failed to check email availability: context deadline exceeded''),
                   (''user_id'', FUint 1)]
        ''Failed to update user'' ex_world)"
    using handlers_on_store_failure
      [where userService = "NewUserService ex_email_check_fails (NewAuthService ex_email_check_fails ex_cfg ex_lib 1000) ex_lib_move" and userRepo = "ex_email_check_fails"
         and authSvc = "NewAuthService ex_email_check_fails ex_cfg ex_lib 1000" and lib = "ex_lib_move"
         and r = "ex_request\<lparr>URLParam_id := ''1'', RequestBody := ''move.json'', Context := \<lparr>UserIDKey = Some 1, UserEmailKey = Some ''alice@example.com'', IsAdminKey = Some True\<rparr>\<rparr>"
         and w = ex_world] p1
    by (simp add: ex_count_fails_def ex_email_check_fails_def ex_username_check_fails_def NewUserRepository_def ex_request_def ex_world_def ex_down_def ex_db_def GetUserIDFromContext_def GetIsAdminFromContext_def userRepository_GetByID_def ex_alice_def ex_bob_def live_def ex_lib_move_def ex_lib_def)
  show "UserHandler_Update (NewUserService ex_username_check_fails (NewAuthService ex_username_check_fails ex_cfg ex_lib 1000) ex_lib_move) ex_lib_move
       (ex_request\<lparr>URLParam_id := ''1'', RequestBody := ''move.json'', Context := \<lparr>UserIDKey = Some 1, UserEmailKey = Some ''alice@example.com'', IsAdminKey = Some True\<rparr>\<rparr>) ex_world =
     (Inr \<lparr>StatusCode = 400,
               Body = \<lparr>api_Success = False, api_Message = ''failed to check username availability: context deadline exceeded'',
                       api_Data = None, api_Error = None\<rparr>\<rparr>,
      log_Error [(''error'', FErr ''failed to check username availability: context deadline exceeded''),
                   (''user_id'', FUint 1)]
        ''Failed to update user'' ex_world)"
    using handlers_on_store_failure
      [where userService = "NewUserService ex_username_check_fails (NewAuthService ex_username_check_fails ex_cfg ex_lib 1000) ex_lib_move" and userRepo = "ex_username_check_fails"
         and authSvc = "NewAuthService ex_username_check_fails ex_cfg ex_lib 1000" and lib = "ex_lib_move"
         and r = "ex_request\<lparr>URLParam_id := ''1'', RequestBody := ''move.json'', Context := \<lparr>UserIDKey = Some 1, UserEmailKey = Some ''alice@example.com'', IsAdminKey = Some True\<rparr>\<rparr>"
         and w = ex_world] p1
    by (simp add: ex_count_fails_def ex_email_check_fails_def ex_username_check_fails_def NewUserRepository_def ex_request_def ex_world_def ex_down_def ex_db_def GetUserIDFromContext_def GetIsAdminFromContext_def userRepository_GetByID_def ex_alice_def ex_bob_def live_def ex_lib_move_def ex_lib_def userRepository_ExistsByEmail_def)
  show "UserHandler_Update (NewUserService ex_read_only (NewAuthService ex_read_only ex_cfg ex_lib 1000) ex_lib) ex_lib
       (ex_request\<lparr>URLParam_id := ''1'', RequestBody := ''rename.json'', Context := \<lparr>UserIDKey = Some 1, UserEmailKey = Some ''alice@example.com'', IsAdminKey = Some True\<rparr>\<rparr>) ex_world =
     (Inr \<lparr>StatusCode = 400,
               Body = \<lparr>api_Success = False, api_Message = ''failed to update user: cannot execute UPDATE in a read-only transaction'',
                       api_Data = None, api_Error = None\<rparr>\<rparr>,
      log_Error [(''error'', FErr ''failed to update user: cannot execute UPDATE in a read-only transaction''), (''user_id'', FUint 1)]
        ''Failed to update user''
        (log_Error [(''error'', FErr ''cannot execute UPDATE in a read-only transaction''), (''user_id'', FUint 1)]
           ''Failed to update user'' ex_world))"
    using handlers_on_store_failure
      [where userService = "NewUserService ex_read_only (NewAuthService ex_read_only ex_cfg ex_lib 1000) ex_lib" and userRepo = "ex_read_only"
         and authSvc = "NewAuthService ex_read_only ex_cfg ex_lib 1000" and lib = "ex_lib"
         and r = "ex_request\<lparr>URLParam_id := ''1'', RequestBody := ''rename.json'', Context := \<lparr>UserIDKey = Some 1, UserEmailKey = Some ''alice@example.com'', IsAdminKey = Some True\<rparr>\<rparr>"
         and w = ex_world] p1
    by (simp add: ex_count_fails_def ex_email_check_fails_def ex_username_check_fails_def NewUserRepository_def ex_request_def ex_world_def ex_down_def ex_db_def GetUserIDFromContext_def GetIsAdminFromContext_def userRepository_GetByID_def ex_alice_def ex_bob_def live_def ex_read_only_def ex_lib_def)
  show "UserHandler_Delete (NewUserService NewUserRepository (NewAuthService NewUserRepository ex_cfg ex_lib 1000) ex_lib)
       (ex_request\<lparr>URLParam_id := ''2'', Context := \<lparr>UserIDKey = Some 1, UserEmailKey = Some ''alice@example.com'', IsAdminKey = Some True\<rparr>\<rparr>) ex_down =
     (Inr \<lparr>StatusCode = 400,
               Body = \<lparr>api_Success = False, api_Message = ''failed to get user: dial tcp 10.0.0.5:5432: connect: connection refused'',
                       api_Data = None, api_Error = None\<rparr>\<rparr>,
      log_Error [(''error'', FErr ''failed to get user: dial tcp 10.0.0.5:5432: connect: connection refused''), (''user_id'', FUint 2)]
        ''Failed to delete user''
        (log_Error [(''error'', FErr ''dial tcp 10.0.0.5:5432: connect: connection refused''), (''user_id'', FUint 2)]
           ''Failed to get user for deletion'' ex_down))"
    using handlers_on_store_failure
      [where userService = "NewUserService NewUserRepository (NewAuthService NewUserRepository ex_cfg ex_lib 1000) ex_lib" and userRepo = "NewUserRepository"
         and authSvc = "NewAuthService NewUserRepository ex_cfg ex_lib 1000" and lib = "ex_lib"
         and r = "ex_request\<lparr>URLParam_id := ''2'', Context := \<lparr>UserIDKey = Some 1, UserEmailKey = Some ''alice@example.com'', IsAdminKey = Some True\<rparr>\<rparr>"
         and w = ex_down] p2
    by (simp add: ex_count_fails_def ex_email_check_fails_def ex_username_check_fails_def NewUserRepository_def ex_request_def ex_world_def ex_down_def ex_db_def GetUserIDFromContext_def GetIsAdminFromContext_def userRepository_GetByID_def ex_alice_def ex_bob_def live_def)
  show "UserHandler_Delete (NewUserService ex_read_only (NewAuthService ex_read_only ex_cfg ex_lib 1000) ex_lib)
       (ex_request\<lparr>URLParam_id := ''2'', Context := \<lparr>UserIDKey = Some 1, UserEmailKey = Some ''alice@example.com'', IsAdminKey = Some True\<rparr>\<rparr>) ex_world =
     (Inr \<lparr>StatusCode = 400,
               Body = \<lparr>api_Success = False, api_Message = ''failed to delete user: cannot execute UPDATE in a read-only transaction'',
                       api_Data = None, api_Error = None\<rparr>\<rparr>,
      log_Error [(''error'', FErr ''failed to delete user: cannot execute UPDATE in a read-only transaction''), (''user_id'', FUint 2)]
        ''Failed to delete user''
        (log_Error [(''error'', FErr ''cannot execute UPDATE in a read-only transaction''), (''user_id'', FUint 2)]
           ''Failed to delete user'' ex_world))"
    using handlers_on_store_failure
      [where userService = "NewUserService ex_read_only (NewAuthService ex_read_only ex_cfg ex_lib 1000) ex_lib" and userRepo = "ex_read_only"
         and authSvc = "NewAuthService ex_read_only ex_cfg ex_lib 1000" and lib = "ex_lib"
         and r = "ex_request\<lparr>URLParam_id := ''2'', Context := \<lparr>UserIDKey = Some 1, UserEmailKey = Some ''alice@example.com'', IsAdminKey = Some True\<rparr>\<rparr>"
         and w = ex_world] p2
    by (simp add: ex_count_fails_def ex_email_check_fails_def ex_username_check_fails_def NewUserRepository_def ex_request_def ex_world_def ex_down_def ex_db_def GetUserIDFromContext_def GetIsAdminFromContext_def userRepository_GetByID_def ex_alice_def ex_bob_def live_def ex_read_only_def)
  show "UserHandler_Login (NewUserService NewUserRepository (NewAuthService NewUserRepository ex_cfg ex_lib 1000) ex_lib) ex_lib
       (ex_request\<lparr>RequestBody := ''alice-login.json''\<rparr>) ex_down =
     (Inr \<lparr>StatusCode = 401,
               Body = \<lparr>api_Success = False, api_Message = ''failed to authenticate: dial tcp 10.0.0.5:5432: connect: connection refused'',
                       api_Data = None, api_Error = None\<rparr>\<rparr>,
      log_Warn [(''error'', FErr ''failed to authenticate: dial tcp 10.0.0.5:5432: connect: connection refused''),
                  (''email'', FStr ''alice@example.com'')]
        ''Login failed''
        (log_Error [(''error'', FErr ''dial tcp 10.0.0.5:5432: connect: connection refused''), (''email'', FStr ''alice@example.com'')]
           ''Failed to get user for login'' ex_down))"
    using handlers_on_store_failure
      [where userService = "NewUserService NewUserRepository (NewAuthService NewUserRepository ex_cfg ex_lib 1000) ex_lib" and userRepo = "NewUserRepository"
         and authSvc = "NewAuthService NewUserRepository ex_cfg ex_lib 1000" and lib = "ex_lib"
         and r = "ex_request\<lparr>RequestBody := ''alice-login.json''\<rparr>"
         and w = ex_down]
    by (simp add: ex_count_fails_def ex_email_check_fails_def ex_username_check_fails_def NewUserRepository_def ex_request_def ex_world_def ex_down_def ex_db_def ex_lib_def userRepository_GetByEmail_def)
  show "UserHandler_Login (NewUserService ex_read_only (NewAuthService ex_read_only ex_cfg ex_lib 1000) ex_lib) ex_lib
       (ex_request\<lparr>RequestBody := ''alice-login.json''\<rparr>) ex_world =
     (Inr \<lparr>StatusCode = 200,
               Body = \<lparr>api_Success = True, api_Message = ''Login successful'',
                       api_Data = Some (LoginData ''alice.jwt'' (ToResponse ex_alice)),
                       api_Error = None\<rparr>\<rparr>,
      log_Info [(''user_id'', FUint 1)] ''User logged in successfully''
        (log_Warn [(''error'', FErr ''cannot execute UPDATE in a read-only transaction''), (''user_id'', FUint 1)]
           ''Failed to update last login''
           (log_Info [(''user_id'', FUint 1)] ''JWT token generated successfully'' ex_world)))"
    using handlers_on_store_failure
      [where userService = "NewUserService ex_read_only (NewAuthService ex_read_only ex_cfg ex_lib 1000) ex_lib" and userRepo = "ex_read_only"
         and authSvc = "NewAuthService ex_read_only ex_cfg ex_lib 1000" and lib = "ex_lib"
         and r = "ex_request\<lparr>RequestBody := ''alice-login.json''\<rparr>"
         and w = ex_world]
    by (simp add: ex_count_fails_def ex_email_check_fails_def ex_username_check_fails_def NewUserRepository_def ex_request_def ex_world_def ex_down_def ex_db_def ex_read_only_def ex_lib_def ex_cfg_def ex_claims_def userRepository_GetByEmail_def ex_alice_def ex_bob_def live_def NewAuthService_def authService_GenerateToken_def GenerateJWT_def)
qed

text \<open>
  The claim as stated fails on the running server: with the connection down,
  \<^verbatim>\<open>POST /auth/register\<close> with a well-formed body answers 400, and \<^verbatim>\<open>GET /users/2\<close> with a
  valid token answers 404; both bodies carry the driver's message.
\<close>

theorem store_failure_answered_400_with_detail:
  "fst (Server NewUserRepository ex_cfg ex_lib 1000 POST_auth_register
          (ex_request\<lparr>RequestBody := ''carol.json''\<rparr>) ex_down) =
     Inr \<lparr>StatusCode = 400,
          Body = \<lparr>api_Success = False,
                  api_Message = ''failed to check user existence: dial tcp 10.0.0.5:5432: connect: connection refused'',
                  api_Data = None, api_Error = None\<rparr>\<rparr>
   \<and> fst (Server NewUserRepository ex_cfg ex_lib 1000 GET_users_id
          (ex_bearer ''alice.jwt''\<lparr>URLParam_id := ''2''\<rparr>) ex_down) =
     Inr \<lparr>StatusCode = 404,
          Body = \<lparr>api_Success = False,
                  api_Message = ''failed to get user: dial tcp 10.0.0.5:5432: connect: connection refused'',
                  api_Data = None, api_Error = None\<rparr>\<rparr>"
proof (intro conjI)
  show "fst (Server NewUserRepository ex_cfg ex_lib 1000 POST_auth_register
          (ex_request\<lparr>RequestBody := ''carol.json''\<rparr>) ex_down) =
     Inr \<lparr>StatusCode = 400,
          Body = \<lparr>api_Success = False,
                  api_Message = ''failed to check user existence: dial tcp 10.0.0.5:5432: connect: connection refused'',
                  api_Data = None, api_Error = None\<rparr>\<rparr>"
    by (simp add: Server_def SetupRoutes_def Recovery_def UserHandler_Create_def
        NewUserService_def userService_Create_def NewUserRepository_def
        userRepository_ExistsByEmail_def WriteErrorResponse_def WriteJSONResponse_def
        StatusBadRequest_def ex_request_def ex_down_def ex_db_def ex_lib_def ex_carol_req_def)
next
  have p: "ParseUint32 ''2'' = Inr 2"
    by (simp add: ParseUint32_def is_digit_def)
  show "fst (Server NewUserRepository ex_cfg ex_lib 1000 GET_users_id
          (ex_bearer ''alice.jwt''\<lparr>URLParam_id := ''2''\<rparr>) ex_down) =
     Inr \<lparr>StatusCode = 404,
          Body = \<lparr>api_Success = False,
                  api_Message = ''failed to get user: dial tcp 10.0.0.5:5432: connect: connection refused'',
                  api_Data = None, api_Error = None\<rparr>\<rparr>"
    using p
    by (simp add: Server_def SetupRoutes_def Recovery_def JWTAuth_def
        UserHandler_GetByID_def NewUserService_def userService_GetByID_def ValidateJWT_def
        NewUserRepository_def userRepository_GetByID_def WriteErrorResponse_def
        WriteJSONResponse_def StatusNotFound_def
        ex_bearer_def ex_request_def ex_down_def ex_db_def ex_lib_def ex_cfg_def ex_claims_def
        ex_alice_def ex_bob_def Get_def HasPrefix_def TrimPrefix_def Let_def)
qed

end
